(* ===== verification/Prelude.thy ===== *)
theory Prelude
  imports Main "HOL-Library.AList"
begin

text \<open>
  Shared vocabulary of the development: the Python values that flow through the
  models (JSON scalars as delivered by \<open>request.get_json()\<close> and \<open>json.load\<close>),
  Python's truthiness, \<open>==\<close>, \<open>or\<close> and \<open>str()\<close> on them, the exceptions the
  source raises, and Python dictionaries as association lists (insertion order is
  kept, assigning an existing key keeps its position, \<open>del\<close> removes the key).
  The generic lemmas on these are declared into the collection \<open>py_simps\<close>.
\<close>

named_theorems py_simps "simplification rules for the Python value model"

section \<open>Python values\<close>

text \<open>
  JSON scalars: \<open>null\<close>, booleans, integers and strings. Floats, arrays and
  nested objects are not modelled (no code path of the repository stores them).
\<close>

datatype jval = JNull | JBool bool | JInt int | JStr string

text \<open>The exceptions raised by the modelled code.\<close>

datatype py_error = KeyError | AttributeError | ValueError | TypeError

text \<open>Python's truth value of a scalar (\<open>if x:\<close>, \<open>not x\<close>).\<close>

fun truthy :: "jval \<Rightarrow> bool" where
  "truthy JNull = False"
| "truthy (JBool b) = b"
| "truthy (JInt i) = (i \<noteq> 0)"
| "truthy (JStr s) = (s \<noteq> [])"

text \<open>\<open>a or b\<close>: the first operand if it is truthy, else the second.\<close>

definition py_or :: "jval \<Rightarrow> jval \<Rightarrow> jval" where
  "py_or a b = (if truthy a then a else b)"

text \<open>
  Python's \<open>==\<close> on scalars: \<open>True == 1\<close> and \<open>False == 0\<close> hold, values of
  different kinds are otherwise unequal.
\<close>

fun py_eq :: "jval \<Rightarrow> jval \<Rightarrow> bool" where
  "py_eq JNull JNull = True"
| "py_eq (JBool a) (JBool b) = (a = b)"
| "py_eq (JInt i) (JInt j) = (i = j)"
| "py_eq (JBool a) (JInt j) = ((if a then 1 else 0) = j)"
| "py_eq (JInt i) (JBool b) = (i = (if b then 1 else 0))"
| "py_eq (JStr s) (JStr t) = (s = t)"
| "py_eq _ _ = False"

text \<open>\<open>isinstance(x, str)\<close>.\<close>

fun is_str :: "jval \<Rightarrow> bool" where
  "is_str (JStr _) = True"
| "is_str _ = False"

section \<open>Decimal numerals\<close>

definition digit_char :: "nat \<Rightarrow> char" where
  "digit_char n = char_of (48 + n)"

fun nat_str :: "nat \<Rightarrow> string" where
  "nat_str n = (if n < 10 then [digit_char n] else nat_str (n div 10) @ [digit_char (n mod 10)])"

declare nat_str.simps [simp del]

definition int_str :: "int \<Rightarrow> string" where
  "int_str i = (if i < 0 then CHR ''-'' # nat_str (nat (- i)) else nat_str (nat i))"

text \<open>\<open>str(x)\<close>, as an f-string renders a scalar.\<close>

fun py_str :: "jval \<Rightarrow> string" where
  "py_str JNull = ''None''"
| "py_str (JBool b) = (if b then ''True'' else ''False'')"
| "py_str (JInt i) = int_str i"
| "py_str (JStr s) = s"

text \<open>
  \<open>json.dump\<close> turns the keys of a dictionary into strings: strings stay, integers
  are written in decimal, \<open>True\<close>, \<open>False\<close> and \<open>None\<close> become \<open>true\<close>,
  \<open>false\<close> and \<open>null\<close>.
\<close>

fun json_key :: "jval \<Rightarrow> string" where
  "json_key JNull = ''null''"
| "json_key (JBool b) = (if b then ''true'' else ''false'')"
| "json_key (JInt i) = int_str i"
| "json_key (JStr s) = s"

text \<open>ASCII \<open>str.lower()\<close>.\<close>

definition lower_char :: "char \<Rightarrow> char" where
  "lower_char c = (let n = (of_char c :: nat) in if 65 \<le> n \<and> n \<le> 90 then char_of (n + 32) else c)"

definition py_lower :: "string \<Rightarrow> string" where
  "py_lower s = map lower_char s"

section \<open>Dictionaries\<close>

text \<open>
  A Python \<open>dict\<close> is an association list: \<open>d.get(k)\<close> is \<^const>\<open>map_of\<close>,
  \<open>d[k] = v\<close> is \<^const>\<open>AList.update\<close> (it keeps the position of an existing key and
  appends a new one, as CPython's insertion-ordered dict does), \<open>del d[k]\<close> is
  \<^const>\<open>AList.delete\<close>, \<open>d.values()\<close> is \<open>map snd\<close>.
\<close>

type_synonym ('k, 'v) pydict = "('k \<times> 'v) list"

definition dict_keys_distinct :: "('k, 'v) pydict \<Rightarrow> bool" where
  "dict_keys_distinct d \<longleftrightarrow> distinct (map fst d)"

section \<open>Stateful operations that may raise\<close>

text \<open>
  A method that mutates process state and may raise: it maps the state before the
  call to the state after it and either the exception or the return value. The
  state after an exception is kept, as Python keeps mutations made before a
  \<open>raise\<close>.
\<close>

type_synonym ('s, 'a) op = "'s \<Rightarrow> 's \<times> (py_error + 'a)"

definition return_op :: "'a \<Rightarrow> ('s, 'a) op" where
  "return_op a s = (s, Inr a)"

definition raise_op :: "py_error \<Rightarrow> ('s, 'a) op" where
  "raise_op e s = (s, Inl e)"

definition bind_op :: "('s, 'a) op \<Rightarrow> ('a \<Rightarrow> ('s, 'b) op) \<Rightarrow> ('s, 'b) op" where
  "bind_op m f s = (case m s of (s', Inl e) \<Rightarrow> (s', Inl e) | (s', Inr a) \<Rightarrow> f a s')"

section \<open>Generic lemmas\<close>

lemma return_op_apply [simp, py_simps]: "return_op a s = (s, Inr a)"
  by (simp add: return_op_def)

lemma raise_op_apply [simp, py_simps]: "raise_op e s = (s, Inl e)"
  by (simp add: raise_op_def)

lemma bind_op_Inr [py_simps]: "m s = (s', Inr a) \<Longrightarrow> bind_op m f s = f a s'"
  by (simp add: bind_op_def)

lemma bind_op_Inl [py_simps]: "m s = (s', Inl e) \<Longrightarrow> bind_op m f s = (s', Inl e)"
  by (simp add: bind_op_def)

lemma bind_op_Inr_iff:
  "bind_op m f s = (s'', Inr b) \<longleftrightarrow> (\<exists>s' a. m s = (s', Inr a) \<and> f a s' = (s'', Inr b))"
  by (auto simp: bind_op_def split: prod.splits sum.splits)

lemma py_eq_JStr [py_simps]: "py_eq (JStr s) v \<longleftrightarrow> v = JStr s"
  by (cases v) auto

lemma py_eq_JStr_right [py_simps]: "py_eq v (JStr s) \<longleftrightarrow> v = JStr s"
  by (cases v) auto

lemma py_eq_refl [py_simps]: "py_eq v v"
  by (cases v) auto

lemma py_or_truthy [py_simps]: "truthy a \<Longrightarrow> py_or a b = a"
  by (simp add: py_or_def)

lemma py_or_falsy [py_simps]: "\<not> truthy a \<Longrightarrow> py_or a b = b"
  by (simp add: py_or_def)

lemma is_str_iff [py_simps]: "is_str v \<longleftrightarrow> (\<exists>s. v = JStr s)"
  by (cases v) auto

lemma dict_keys_distinct_update [py_simps]:
  "dict_keys_distinct d \<Longrightarrow> dict_keys_distinct (AList.update k v d)"
  by (simp add: dict_keys_distinct_def distinct_update)

lemma dict_keys_distinct_delete [py_simps]:
  "dict_keys_distinct d \<Longrightarrow> dict_keys_distinct (AList.delete k d)"
  by (simp add: dict_keys_distinct_def distinct_delete)

lemma dict_keys_distinct_Nil [py_simps]: "dict_keys_distinct []"
  by (simp add: dict_keys_distinct_def)

lemma map_of_delete_same [py_simps]: "map_of (AList.delete k d) k = None"
  by (simp add: delete_conv')

lemma map_of_delete_other [py_simps]: "k' \<noteq> k \<Longrightarrow> map_of (AList.delete k d) k' = map_of d k'"
  by (simp add: delete_conv')

lemma map_of_update_same [py_simps]: "map_of (AList.update k v d) k = Some v"
  by (simp add: update_conv')

lemma map_of_update_other [py_simps]: "k' \<noteq> k \<Longrightarrow> map_of (AList.update k v d) k' = map_of d k'"
  by (simp add: update_conv')

lemma filter_update_unique:
  assumes "\<forall>x\<in>snd ` set d. \<not> P x"
  shows "filter P (map snd (AList.update k v d)) = (if P v then [v] else [])"
  using assms by (induction d) auto

lemma filter_delete_none:
  assumes "\<forall>(k', x)\<in>set d. P x \<longrightarrow> k' = k"
  shows "filter P (map snd (AList.delete k d)) = []"
  using assms by (induction d) auto

lemma concat_map_singletons:
  "(\<And>x. x \<in> set xs \<Longrightarrow> f x = [g x]) \<Longrightarrow> concat (map f xs) = map g xs"
  by (induction xs) auto

lemma snd_in_set_enumerate: "p \<in> set (enumerate n xs) \<Longrightarrow> snd p \<in> set xs"
  by (cases p) (auto simp: enumerate_eq_zip dest: set_zip_rightD)

end
