(* ===== verification/Timestamp.thy ===== *)
theory Timestamp
  imports Prelude
begin

text \<open>
  Timestamps of the object store. \<open>models/base.py\<close> writes a \<open>datetime\<close> with
  \<open>strftime(TIMESTAMP_FORMAT)\<close>, \<open>TIMESTAMP_FORMAT = "%Y-%m-%dT%H:%M:%S"\<close>, and
  reads it back with \<open>datetime.strptime(s, TIMESTAMP_FORMAT)\<close>. This theory models
  Python's \<open>datetime\<close> value, the writer, and CPython's \<open>_strptime\<close> reader for
  exactly this format: the format compiles to the regular expression
  \<^verbatim>\<open>(?P<Y>\d\d\d\d)-(?P<m>1[0-2]|0[1-9]|[1-9])-(?P<d>3[01]|[12]\d|0[1-9]|[1-9]| [1-9])T
  (?P<H>2[0-3]|[0-1]\d|\d):(?P<M>[0-5]\d|\d):(?P<S>6[0-1]|[0-5]\d|\d)\<close>
  matched case-insensitively, the whole input must be consumed, and the
  \<open>datetime\<close> constructor then rejects day numbers beyond the month, year 0 and
  seconds 60 and 61. Every failure is a \<open>ValueError\<close>. Since no field token
  contains the separator that follows it, the regular expression matches exactly
  when each separator-delimited token is in its alternation, which is how the reader
  is written here. Digits are ASCII (Python's \<open>\d\<close> also accepts other Unicode
  digits; they are not modelled).
\<close>

record datetime =
  dt_year :: nat
  dt_month :: nat
  dt_day :: nat
  dt_hour :: nat
  dt_minute :: nat
  dt_second :: nat
  dt_microsecond :: nat

definition is_leap :: "nat \<Rightarrow> bool" where
  "is_leap y \<longleftrightarrow> (y mod 4 = 0 \<and> y mod 100 \<noteq> 0) \<or> y mod 400 = 0"

definition days_in_month :: "nat \<Rightarrow> nat \<Rightarrow> nat" where
  "days_in_month y m =
     (if m = 2 then (if is_leap y then 29 else 28)
      else if m = 4 \<or> m = 6 \<or> m = 9 \<or> m = 11 then 30 else 31)"

text \<open>The values the \<open>datetime\<close> constructor accepts.\<close>

definition valid_datetime :: "datetime \<Rightarrow> bool" where
  "valid_datetime d \<longleftrightarrow>
     1 \<le> dt_year d \<and> dt_year d \<le> 9999 \<and> 1 \<le> dt_month d \<and> dt_month d \<le> 12 \<and>
     1 \<le> dt_day d \<and> dt_day d \<le> days_in_month (dt_year d) (dt_month d) \<and>
     dt_hour d < 24 \<and> dt_minute d < 60 \<and> dt_second d < 60 \<and> dt_microsecond d < 1000000"

text \<open>What survives a write and a read: the microseconds are dropped.\<close>

definition to_second :: "datetime \<Rightarrow> datetime" where
  "to_second d = d\<lparr>dt_microsecond := 0\<rparr>"

section \<open>Writer: strftime with TIMESTAMP_FORMAT\<close>

text \<open>
  \<open>%m %d %H %M %S\<close> are two zero-padded digits, \<open>%Y\<close> four (current CPython pads
  \<open>%Y\<close> to four digits on every platform).
\<close>

definition pad2 :: "nat \<Rightarrow> string" where
  "pad2 n = [digit_char (n div 10), digit_char (n mod 10)]"

definition pad4 :: "nat \<Rightarrow> string" where
  "pad4 n = pad2 (n div 100) @ pad2 (n mod 100)"

definition strftime_ts :: "datetime \<Rightarrow> string" where
  "strftime_ts d =
     pad4 (dt_year d) @ ''-'' @ pad2 (dt_month d) @ ''-'' @ pad2 (dt_day d) @ ''T'' @
     pad2 (dt_hour d) @ '':'' @ pad2 (dt_minute d) @ '':'' @ pad2 (dt_second d)"

section \<open>Reader: strptime with TIMESTAMP_FORMAT\<close>

text \<open>A digit whose value lies in \<open>[lo, hi]\<close>.\<close>

definition dig_in :: "nat \<Rightarrow> nat \<Rightarrow> char \<Rightarrow> bool" where
  "dig_in lo hi c \<longleftrightarrow> lo + 48 \<le> of_char c \<and> of_char c \<le> hi + 48"

abbreviation is_digit :: "char \<Rightarrow> bool" where
  "is_digit c \<equiv> dig_in 0 9 c"

text \<open>The alternations of the regular expression, one per directive.\<close>

fun tok_Y :: "string \<Rightarrow> bool" where
  "tok_Y [a, b, c, d] = (is_digit a \<and> is_digit b \<and> is_digit c \<and> is_digit d)"
| "tok_Y _ = False"

fun tok_m :: "string \<Rightarrow> bool" where
  "tok_m [a, b] = ((a = CHR ''1'' \<and> dig_in 0 2 b) \<or> (a = CHR ''0'' \<and> dig_in 1 9 b))"
| "tok_m [a] = dig_in 1 9 a"
| "tok_m _ = False"

fun tok_d :: "string \<Rightarrow> bool" where
  "tok_d [a, b] = ((a = CHR ''3'' \<and> dig_in 0 1 b) \<or> (dig_in 1 2 a \<and> is_digit b) \<or>
                   (a = CHR ''0'' \<and> dig_in 1 9 b) \<or> (a = CHR '' '' \<and> dig_in 1 9 b))"
| "tok_d [a] = dig_in 1 9 a"
| "tok_d _ = False"

fun tok_H :: "string \<Rightarrow> bool" where
  "tok_H [a, b] = ((a = CHR ''2'' \<and> dig_in 0 3 b) \<or> (dig_in 0 1 a \<and> is_digit b))"
| "tok_H [a] = is_digit a"
| "tok_H _ = False"

fun tok_M :: "string \<Rightarrow> bool" where
  "tok_M [a, b] = (dig_in 0 5 a \<and> is_digit b)"
| "tok_M [a] = is_digit a"
| "tok_M _ = False"

fun tok_S :: "string \<Rightarrow> bool" where
  "tok_S [a, b] = ((a = CHR ''6'' \<and> dig_in 0 1 b) \<or> (dig_in 0 5 a \<and> is_digit b))"
| "tok_S [a] = is_digit a"
| "tok_S _ = False"

text \<open>\<open>int(token)\<close>: a leading blank (allowed by \<open>%d\<close>) is skipped.\<close>

definition tok_val :: "string \<Rightarrow> nat" where
  "tok_val t = foldl (\<lambda>n c. 10 * n + (of_char c - 48)) 0 (dropWhile (\<lambda>c. c = CHR '' '') t)"

text \<open>The token before the next separator, and the input after that separator.\<close>

definition split_at :: "(char \<Rightarrow> bool) \<Rightarrow> string \<Rightarrow> (string \<times> string) option" where
  "split_at sep s =
     (case dropWhile (\<lambda>c. \<not> sep c) s of
        [] \<Rightarrow> None
      | _ # r \<Rightarrow> Some (takeWhile (\<lambda>c. \<not> sep c) s, r))"

definition split_fields :: "string \<Rightarrow> (string list) option" where
  "split_fields s =
     (case split_at (\<lambda>c. c = CHR ''-'') s of None \<Rightarrow> None | Some (y, r1) \<Rightarrow>
      case split_at (\<lambda>c. c = CHR ''-'') r1 of None \<Rightarrow> None | Some (m, r2) \<Rightarrow>
      case split_at (\<lambda>c. c = CHR ''T'' \<or> c = CHR ''t'') r2 of None \<Rightarrow> None | Some (d, r3) \<Rightarrow>
      case split_at (\<lambda>c. c = CHR '':'') r3 of None \<Rightarrow> None | Some (h, r4) \<Rightarrow>
      case split_at (\<lambda>c. c = CHR '':'') r4 of None \<Rightarrow> None | Some (mi, sec) \<Rightarrow>
        Some [y, m, d, h, mi, sec])"

definition strptime_ts :: "string \<Rightarrow> py_error + datetime" where
  "strptime_ts s =
     (case split_fields s of
        Some [y, m, d, h, mi, sec] \<Rightarrow>
          if tok_Y y \<and> tok_m m \<and> tok_d d \<and> tok_H h \<and> tok_M mi \<and> tok_S sec then
            (let dt = \<lparr>dt_year = tok_val y, dt_month = tok_val m, dt_day = tok_val d,
                       dt_hour = tok_val h, dt_minute = tok_val mi, dt_second = tok_val sec,
                       dt_microsecond = 0\<rparr>
             in if valid_datetime dt then Inr dt else Inl ValueError)
          else Inl ValueError
      | _ \<Rightarrow> Inl ValueError)"

section \<open>Digits\<close>

lemma of_char_digit_char [simp, py_simps]: "n < 10 \<Longrightarrow> of_char (digit_char n) = 48 + n"
  by (simp add: digit_char_def)

lemma dig_in_digit_char [simp, py_simps]: "n < 10 \<Longrightarrow> dig_in lo hi (digit_char n) \<longleftrightarrow> lo \<le> n \<and> n \<le> hi"
  by (auto simp: dig_in_def)

lemma digit_char_eq_iff [simp, py_simps]: "n < 10 \<Longrightarrow> digit_char n = c \<longleftrightarrow> of_char c = 48 + n"
  by (metis of_char_digit_char char_of_char digit_char_def)

lemma pad2_split: "n < 100 \<Longrightarrow> \<exists>a b. a < 10 \<and> b < 10 \<and> n = 10 * a + b \<and> pad2 n = [digit_char a, digit_char b]"
  by (rule exI [of _ "n div 10"], rule exI [of _ "n mod 10"]) (simp add: pad2_def)

lemma pad4_split: "n < 10000 \<Longrightarrow> \<exists>h l. h < 100 \<and> l < 100 \<and> n = 100 * h + l \<and> pad4 n = pad2 h @ pad2 l"
  by (rule exI [of _ "n div 100"], rule exI [of _ "n mod 100"]) (simp add: pad4_def)

lemma tok_Y_pad4: "n < 10000 \<Longrightarrow> tok_Y (pad4 n)"
proof -
  assume "n < 10000"
  then obtain h l where "h < 100" "l < 100" "pad4 n = pad2 h @ pad2 l"
    using pad4_split by blast
  moreover obtain a b where "a < 10" "b < 10" "pad2 h = [digit_char a, digit_char b]"
    using pad2_split [OF \<open>h < 100\<close>] by blast
  moreover obtain c d where "c < 10" "d < 10" "pad2 l = [digit_char c, digit_char d]"
    using pad2_split [OF \<open>l < 100\<close>] by blast
  ultimately show ?thesis by simp
qed

lemma tok_m_pad2: "1 \<le> n \<Longrightarrow> n \<le> 12 \<Longrightarrow> tok_m (pad2 n)"
  using pad2_split [of n] by auto

lemma tok_d_pad2: "1 \<le> n \<Longrightarrow> n \<le> 31 \<Longrightarrow> tok_d (pad2 n)"
  using pad2_split [of n] by auto

lemma tok_H_pad2: "n < 24 \<Longrightarrow> tok_H (pad2 n)"
  using pad2_split [of n] by auto

lemma tok_M_pad2: "n < 60 \<Longrightarrow> tok_M (pad2 n)"
  using pad2_split [of n] by auto

lemma tok_S_pad2: "n < 60 \<Longrightarrow> tok_S (pad2 n)"
  using pad2_split [of n] by auto

lemma tok_val_pad2: "n < 100 \<Longrightarrow> tok_val (pad2 n) = n"
  using pad2_split [of n] by (auto simp: tok_val_def)

lemma tok_val_pad4: "n < 10000 \<Longrightarrow> tok_val (pad4 n) = n"
proof -
  assume "n < 10000"
  then obtain h l where "h < 100" "l < 100" "n = 100 * h + l" "pad4 n = pad2 h @ pad2 l"
    using pad4_split by blast
  moreover obtain a b where "a < 10" "b < 10" "h = 10 * a + b" "pad2 h = [digit_char a, digit_char b]"
    using pad2_split [OF \<open>h < 100\<close>] by blast
  moreover obtain c d where "c < 10" "d < 10" "l = 10 * c + d" "pad2 l = [digit_char c, digit_char d]"
    using pad2_split [OF \<open>l < 100\<close>] by blast
  ultimately show ?thesis by (simp add: tok_val_def)
qed


lemma days_in_month_le: "days_in_month y m \<le> 31"
  by (simp add: days_in_month_def)

lemma split_at_digits:
  assumes "\<forall>x\<in>set xs. is_digit x" and "sep c" and "\<forall>x. is_digit x \<longrightarrow> \<not> sep x"
  shows "split_at sep (xs @ c # r) = Some (xs, r)"
proof -
  have "\<forall>x\<in>set xs. \<not> sep x" using assms(1,3) by blast
  then show ?thesis using assms(2) by (simp add: split_at_def dropWhile_append3 takeWhile_append2)
qed

lemma digits_pad2: "n < 100 \<Longrightarrow> \<forall>x\<in>set (pad2 n). is_digit x"
  using pad2_split [of n] by auto

lemma digits_pad4: "n < 10000 \<Longrightarrow> \<forall>x\<in>set (pad4 n). is_digit x"
  using pad4_split [of n] digits_pad2 by fastforce

lemma split_fields_strftime:
  assumes "valid_datetime d"
  shows "split_fields (strftime_ts d) =
    Some [pad4 (dt_year d), pad2 (dt_month d), pad2 (dt_day d), pad2 (dt_hour d), pad2 (dt_minute d), pad2 (dt_second d)]"
proof -
  from assms have b: "dt_year d < 10000" "dt_month d < 100" "dt_day d < 100" "dt_hour d < 100" "dt_minute d < 100"
    using days_in_month_le [of "dt_year d" "dt_month d"] by (auto simp: valid_datetime_def)
  have sep: "\<forall>x. is_digit x \<longrightarrow> \<not> (x = CHR ''-'')" "\<forall>x. is_digit x \<longrightarrow> \<not> (x = CHR ''T'' \<or> x = CHR ''t'')"
     "\<forall>x. is_digit x \<longrightarrow> \<not> (x = CHR '':'')"
    by (auto simp: dig_in_def)
  show ?thesis
    using b by (simp add: split_fields_def strftime_ts_def split_at_digits digits_pad2 digits_pad4 sep)
qed

theorem strptime_strftime:
  assumes "valid_datetime d"
  shows "strptime_ts (strftime_ts d) = Inr (to_second d)"
proof -
  have b: "dt_year d < 10000" "1 \<le> dt_month d" "dt_month d \<le> 12" "1 \<le> dt_day d" "dt_day d \<le> 31"
      "dt_hour d < 24" "dt_minute d < 60" "dt_second d < 60"
    using assms days_in_month_le [of "dt_year d" "dt_month d"] by (auto simp: valid_datetime_def)
  have e: "to_second d = \<lparr>dt_year = dt_year d, dt_month = dt_month d, dt_day = dt_day d,
      dt_hour = dt_hour d, dt_minute = dt_minute d, dt_second = dt_second d, dt_microsecond = 0\<rparr>"
    by (cases d) (simp add: to_second_def)
  have v: "valid_datetime (to_second d)"
    using assms by (simp add: valid_datetime_def to_second_def)
  show ?thesis
    using b v by (simp add: strptime_ts_def split_fields_strftime [OF assms] tok_Y_pad4 tok_m_pad2
        tok_d_pad2 tok_H_pad2 tok_M_pad2 tok_S_pad2 tok_val_pad2 tok_val_pad4 e Let_def)
qed


text \<open>Whatever the reader returns is a valid \<open>datetime\<close> with no microseconds.\<close>

lemma strptime_ts_valid:
  assumes "strptime_ts s = Inr d"
  shows "valid_datetime d \<and> dt_microsecond d = 0"
  using assms by (auto simp: strptime_ts_def Let_def split: option.splits list.splits if_splits)

lemma to_second_idem [simp]: "to_second (to_second d) = to_second d"
  by (simp add: to_second_def)

lemma valid_to_second [simp]: "valid_datetime d \<Longrightarrow> valid_datetime (to_second d)"
  by (simp add: valid_datetime_def to_second_def)

end
