(* ===== verification/Entities.thy ===== *)
theory Entities
  imports Timestamp
begin

text \<open>
  The stored entities of \<open>0x02-Session_authentication/models\<close>: the attributes
  every \<open>Base\<close> instance carries (\<open>base.py\<close>), the \<open>User\<close> class
  (\<open>user.py\<close>) and the \<open>UserSession\<close> class (\<open>user_session.py\<close>). Python's
  subclassing is modelled by record extension: \<open>user\<close> and
  \<open>user_session\<close> extend \<open>base_obj\<close>. An instance's \<open>__dict__\<close> (the
  attributes in assignment order) is \<open>obj_dict\<close>, \<open>getattr\<close> is
  \<open>getattr_obj\<close>, \<open>Base.to_json\<close> is \<open>to_json\<close>. The SHA-256
  digest used by the password setter is a parameter \<open>sha\<close> of the operations that
  hash (\<open>hashlib\<close> is a library the sources only call).
\<close>

section \<open>Classes and instances\<close>

record base_obj =
  obj_id :: jval
  created_at :: datetime
  updated_at :: datetime

record user = base_obj +
  email :: jval
  password :: jval
  first_name :: jval
  last_name :: jval

record user_session = base_obj +
  user_id :: jval
  session_id :: jval

text \<open>The two classes that use the store, and an instance of either.\<close>

datatype cls = CUser | CUserSession

datatype obj = UserObj user | SessionObj user_session

fun class_name :: "cls \<Rightarrow> string" where
  "class_name CUser = ''User''"
| "class_name CUserSession = ''UserSession''"

fun class_of :: "obj \<Rightarrow> cls" where
  "class_of (UserObj _) = CUser"
| "class_of (SessionObj _) = CUserSession"

fun oid :: "obj \<Rightarrow> jval" where
  "oid (UserObj u) = obj_id u"
| "oid (SessionObj s) = obj_id s"

section \<open>Construction from keyword arguments\<close>

type_synonym kwargs = "(string, jval) pydict"

text \<open>\<open>kwargs.get(k)\<close>, whose default is \<open>None\<close>, and \<open>kwargs.get(k, d)\<close>.\<close>

definition kw_get :: "kwargs \<Rightarrow> string \<Rightarrow> jval" where
  "kw_get kw k = (case map_of kw k of Some v \<Rightarrow> v | None \<Rightarrow> JNull)"

definition kw_get_default :: "kwargs \<Rightarrow> string \<Rightarrow> jval \<Rightarrow> jval" where
  "kw_get_default kw k d = (case map_of kw k of Some v \<Rightarrow> v | None \<Rightarrow> d)"

text \<open>
  \<open>Base._parse_datetime\<close>: a truthy argument is parsed with
  \<open>TIMESTAMP_FORMAT\<close> (a non-string raises \<open>TypeError\<close> in \<open>strptime\<close>), anything
  else gives the current time \<open>now\<close> (the value of \<open>datetime.utcnow()\<close>).
\<close>

definition parse_datetime :: "jval \<Rightarrow> datetime \<Rightarrow> py_error + datetime" where
  "parse_datetime v now =
     (if truthy v then (case v of JStr s \<Rightarrow> strptime_ts s | _ \<Rightarrow> Inl TypeError) else Inr now)"

text \<open>
  The attribute part of \<open>Base.__init__\<close>: \<open>id\<close> from the arguments or the fresh
  \<open>str(uuid.uuid4())\<close> given as \<open>fresh\<close>, then \<open>created_at\<close> and
  \<open>updated_at\<close>, whose parse errors propagate. (The registration of the class in
  \<open>DATA\<close>, the first lines of \<open>__init__\<close>, belongs to the store.)
\<close>

definition base_fields :: "kwargs \<Rightarrow> string \<Rightarrow> datetime \<Rightarrow> py_error + base_obj" where
  "base_fields kw fresh now =
     (case parse_datetime (kw_get kw ''created_at'') now of
        Inl e \<Rightarrow> Inl e
      | Inr c \<Rightarrow>
          (case parse_datetime (kw_get kw ''updated_at'') now of
             Inl e \<Rightarrow> Inl e
           | Inr u \<Rightarrow> Inr \<lparr>obj_id = kw_get_default kw ''id'' (JStr fresh), created_at = c, updated_at = u\<rparr>))"

text \<open>\<open>User.__init__\<close>: note that it reads \<open>_password\<close>, not \<open>password\<close>.\<close>

definition user_init :: "kwargs \<Rightarrow> string \<Rightarrow> datetime \<Rightarrow> py_error + user" where
  "user_init kw fresh now =
     (case base_fields kw fresh now of
        Inl e \<Rightarrow> Inl e
      | Inr b \<Rightarrow> Inr \<lparr>obj_id = obj_id b, created_at = created_at b, updated_at = updated_at b,
                     email = kw_get kw ''email'', password = kw_get kw ''_password'',
                     first_name = kw_get kw ''first_name'', last_name = kw_get kw ''last_name''\<rparr>)"

text \<open>\<open>UserSession.__init__\<close>.\<close>

definition session_init :: "kwargs \<Rightarrow> string \<Rightarrow> datetime \<Rightarrow> py_error + user_session" where
  "session_init kw fresh now =
     (case base_fields kw fresh now of
        Inl e \<Rightarrow> Inl e
      | Inr b \<Rightarrow> Inr \<lparr>obj_id = obj_id b, created_at = created_at b, updated_at = updated_at b,
                     user_id = kw_get kw ''user_id'', session_id = kw_get kw ''session_id''\<rparr>)"

text \<open>\<open>cls(**kwargs)\<close> for either class.\<close>

fun init_obj :: "cls \<Rightarrow> kwargs \<Rightarrow> string \<Rightarrow> datetime \<Rightarrow> py_error + obj" where
  "init_obj CUser kw fresh now = map_sum id UserObj (user_init kw fresh now)"
| "init_obj CUserSession kw fresh now = map_sum id SessionObj (session_init kw fresh now)"

section \<open>Attributes\<close>

text \<open>
  An attribute value: a JSON scalar, a \<open>datetime\<close>, or a bound method (never equal
  to a scalar or a \<open>datetime\<close>).
\<close>

datatype attr = AJ jval | ATime datetime | AMethod

fun attr_eq :: "attr \<Rightarrow> attr \<Rightarrow> bool" where
  "attr_eq (AJ a) (AJ b) = py_eq a b"
| "attr_eq (ATime s) (ATime t) = (s = t)"
| "attr_eq _ _ = False"

text \<open>The instance \<open>__dict__\<close>, keys in the order \<open>__init__\<close> assigns them.\<close>

fun obj_dict :: "obj \<Rightarrow> (string, attr) pydict" where
  "obj_dict (UserObj u) =
     [(''id'', AJ (obj_id u)), (''created_at'', ATime (created_at u)), (''updated_at'', ATime (updated_at u)),
      (''email'', AJ (email u)), (''_password'', AJ (password u)),
      (''first_name'', AJ (first_name u)), (''last_name'', AJ (last_name u))]"
| "obj_dict (SessionObj s) =
     [(''id'', AJ (obj_id s)), (''created_at'', ATime (created_at s)), (''updated_at'', ATime (updated_at s)),
      (''user_id'', AJ (user_id s)), (''session_id'', AJ (session_id s))]"

text \<open>
  Names the classes define: the methods of \<open>Base\<close>, those of \<open>User\<close>, its
  \<open>password\<close> property, and \<open>__hash__\<close>, which is \<open>None\<close> because \<open>Base\<close>
  defines \<open>__eq__\<close> without \<open>__hash__\<close>. The other attributes every Python
  object inherits (\<open>__class__\<close>, \<open>__doc__\<close>, ...) are not modelled.
\<close>

definition base_methods :: "string list" where
  "base_methods = [''__init__'', ''_parse_datetime'', ''__eq__'', ''to_json'', ''load_from_file'',
     ''save_to_file'', ''save'', ''remove'', ''count'', ''all'', ''get'', ''search'']"

fun class_attr :: "obj \<Rightarrow> string \<Rightarrow> attr option" where
  "class_attr (UserObj u) k =
     (if k = ''password'' then Some (AJ (password u))
      else if k \<in> set (''is_valid_password'' # ''display_name'' # base_methods) then Some AMethod
      else if k = ''__hash__'' then Some (AJ JNull) else None)"
| "class_attr (SessionObj s) k =
     (if k \<in> set base_methods then Some AMethod
      else if k = ''__hash__'' then Some (AJ JNull) else None)"

text \<open>\<open>getattr(obj, k)\<close>: the instance dictionary first, then the class; \<open>None\<close> is an \<open>AttributeError\<close>.\<close>

definition getattr_obj :: "obj \<Rightarrow> string \<Rightarrow> attr option" where
  "getattr_obj ob k = (case map_of (obj_dict ob) k of Some v \<Rightarrow> Some v | None \<Rightarrow> class_attr ob k)"

text \<open>
  \<open>Base.to_json(for_serialization)\<close>: every instance attribute, private ones
  (leading underscore) only when serialising, \<open>datetime\<close>s formatted with
  \<open>TIMESTAMP_FORMAT\<close>.
\<close>

fun attr_json :: "attr \<Rightarrow> jval" where
  "attr_json (AJ v) = v"
| "attr_json (ATime t) = JStr (strftime_ts t)"
| "attr_json AMethod = JNull"

definition is_private :: "string \<Rightarrow> bool" where
  "is_private k \<longleftrightarrow> take 1 k = ''_''"

definition to_json :: "bool \<Rightarrow> obj \<Rightarrow> (string, jval) pydict" where
  "to_json for_ser ob =
     map (\<lambda>(k, v). (k, attr_json v)) (filter (\<lambda>(k, v). for_ser \<or> \<not> is_private k) (obj_dict ob))"

text \<open>\<open>Base.__eq__\<close>: another \<open>Base\<close> instance with an equal \<open>id\<close>.\<close>

definition obj_eq :: "obj \<Rightarrow> obj \<Rightarrow> bool" where
  "obj_eq a b \<longleftrightarrow> py_eq (oid a) (oid b)"

section \<open>User methods\<close>

text \<open>
  The \<open>password\<close> setter: a string is stored as its lower-cased SHA-256 hex
  digest (\<open>sha\<close>), anything else clears the stored hash to \<open>None\<close>.
\<close>

definition set_password :: "(string \<Rightarrow> string) \<Rightarrow> jval \<Rightarrow> user \<Rightarrow> user" where
  "set_password sha pwd u =
     (case pwd of JStr p \<Rightarrow> u\<lparr>password := JStr (py_lower (sha p))\<rparr> | _ \<Rightarrow> u\<lparr>password := JNull\<rparr>)"

definition is_valid_password :: "(string \<Rightarrow> string) \<Rightarrow> user \<Rightarrow> jval \<Rightarrow> bool" where
  "is_valid_password sha u pwd =
     (if \<not> is_str pwd \<or> password u = JNull then False
      else (case pwd of JStr p \<Rightarrow> py_eq (JStr (py_lower (sha p))) (password u) | _ \<Rightarrow> False))"

text \<open>\<open>User.display_name\<close> of \<open>0x02\<close>, branch by branch.\<close>

definition display_name :: "user \<Rightarrow> jval" where
  "display_name u =
     (if truthy (email u) \<and> \<not> truthy (first_name u) \<and> \<not> truthy (last_name u) then email u
      else if truthy (first_name u) \<and> \<not> truthy (last_name u) then first_name u
      else if truthy (last_name u) \<and> \<not> truthy (first_name u) then last_name u
      else if truthy (first_name u) \<and> truthy (last_name u)
        then JStr (py_str (first_name u) @ '' '' @ py_str (last_name u))
      else JStr '''')"

section \<open>Lemmas\<close>

text \<open>
  C18. \<open>is_valid_password\<close> after the \<open>password\<close> setter accepts
  a candidate exactly when both are strings with the same lower-cased digest; a non-
  string password set clears the hash and nothing is accepted.
\<close>

theorem password_check:
  "is_valid_password sha (set_password sha v u) q \<longleftrightarrow>
     (case (v, q) of (JStr p, JStr c) \<Rightarrow> py_lower (sha c) = py_lower (sha p) | _ \<Rightarrow> False)"
  by (cases v; cases q) (simp_all add: is_valid_password_def set_password_def)

end
