(* ===== verification/Store.thy ===== *)
theory Store
  imports Entities
begin

text \<open>
  The object store of \<open>0x02-Session_authentication/models/base.py\<close>: the
  process-wide dictionary \<open>DATA\<close> (class name to a dictionary from id to instance)
  and the JSON files \<open>.db_<Class>.json\<close> it is flushed to. The store's state is
  the record \<open>store\<close>; every class method of \<open>Base\<close> is an operation of type
  \<open>(store, 'a) op\<close> (Prelude): \<open>DATA[s_class]\<close> on an unregistered class raises
  \<open>KeyError\<close> as in the source. A file holds the JSON object \<open>json.dump\<close> wrote,
  as a dictionary from string keys to the serialised attribute dictionaries
  (\<open>json\<close>'s text encoding is a library and is not modelled; file I/O errors are
  not modelled). The clock (\<open>datetime.utcnow()\<close>) is the argument \<open>now\<close>, fresh
  identifiers (\<open>uuid.uuid4()\<close>) are arguments too.
\<close>

record store =
  data :: "cls \<rightharpoonup> (jval, obj) pydict"
  files :: "string \<rightharpoonup> (string, (string, jval) pydict) pydict"

definition db_path :: "cls \<Rightarrow> string" where
  "db_path c = ''.db_'' @ class_name c @ ''.json''"

section \<open>Operations\<close>

text \<open>\<open>Base.__init__\<close>: register the class in \<open>DATA\<close>, then build the instance.\<close>

definition register_class :: "cls \<Rightarrow> store \<Rightarrow> store" where
  "register_class c st = (if data st c = None then st\<lparr>data := (data st)(c \<mapsto> [])\<rparr> else st)"

definition construct :: "cls \<Rightarrow> kwargs \<Rightarrow> string \<Rightarrow> datetime \<Rightarrow> (store, obj) op" where
  "construct c kw fresh now st = (register_class c st, init_obj c kw fresh now)"

text \<open>\<open>Base.save_to_file\<close>: rewrite the class's whole file from \<open>DATA\<close>.\<close>

definition save_to_file :: "cls \<Rightarrow> (store, unit) op" where
  "save_to_file c st =
     (case data st c of
        None \<Rightarrow> (st, Inl KeyError)
      | Some d \<Rightarrow> (st\<lparr>files := (files st)(db_path c \<mapsto> map (\<lambda>(k, ob). (json_key k, to_json True ob)) d)\<rparr>, Inr ()))"

text \<open>\<open>self.updated_at = datetime.utcnow()\<close>.\<close>

fun touch :: "datetime \<Rightarrow> obj \<Rightarrow> obj" where
  "touch now (UserObj u) = UserObj (u\<lparr>updated_at := now\<rparr>)"
| "touch now (SessionObj s) = SessionObj (s\<lparr>updated_at := now\<rparr>)"

text \<open>\<open>Base.save\<close>: refresh \<open>updated_at\<close>, store under the id, rewrite the file; the refreshed instance is returned.\<close>

definition save :: "datetime \<Rightarrow> obj \<Rightarrow> (store, obj) op" where
  "save now ob st =
     (let c = class_of ob; ob' = touch now ob in
      case data st c of
        None \<Rightarrow> (st, Inl KeyError)
      | Some d \<Rightarrow>
          bind_op (save_to_file c) (\<lambda>_. return_op ob')
            (st\<lparr>data := (data st)(c \<mapsto> AList.update (oid ob) ob' d)\<rparr>))"

text \<open>\<open>Base.remove\<close>: delete the id if present and rewrite the file; nothing otherwise.\<close>

definition remove :: "obj \<Rightarrow> (store, unit) op" where
  "remove ob st =
     (let c = class_of ob in
      case data st c of
        None \<Rightarrow> (st, Inl KeyError)
      | Some d \<Rightarrow>
          (if map_of d (oid ob) \<noteq> None
           then save_to_file c (st\<lparr>data := (data st)(c \<mapsto> AList.delete (oid ob) d)\<rparr>)
           else (st, Inr ())))"

text \<open>\<open>Base.count\<close> and \<open>Base.get\<close>.\<close>

definition count :: "cls \<Rightarrow> (store, nat) op" where
  "count c st = (case data st c of None \<Rightarrow> (st, Inl KeyError) | Some d \<Rightarrow> (st, Inr (length d)))"

definition get :: "cls \<Rightarrow> jval \<Rightarrow> (store, obj option) op" where
  "get c i st = (case data st c of None \<Rightarrow> (st, Inl KeyError) | Some d \<Rightarrow> (st, Inr (map_of d i)))"

text \<open>
  \<open>Base.search\<close>: \<open>all(getattr(obj, k) == v for k, v in attributes.items())\<close>
  stops at the first attribute that differs and raises \<open>AttributeError\<close> at the first
  missing one it reaches; \<open>list(filter(...))\<close> runs it on the instances in order.
\<close>

fun attrs_match :: "(string, attr) pydict \<Rightarrow> obj \<Rightarrow> py_error + bool" where
  "attrs_match [] ob = Inr True"
| "attrs_match ((k, v) # kvs) ob =
     (case getattr_obj ob k of
        None \<Rightarrow> Inl AttributeError
      | Some a \<Rightarrow> (if attr_eq a v then attrs_match kvs ob else Inr False))"

fun filter_objs :: "(string, attr) pydict \<Rightarrow> obj list \<Rightarrow> py_error + obj list" where
  "filter_objs kvs [] = Inr []"
| "filter_objs kvs (ob # obs) =
     (case attrs_match kvs ob of
        Inl e \<Rightarrow> Inl e
      | Inr b \<Rightarrow> (case filter_objs kvs obs of
                   Inl e \<Rightarrow> Inl e
                 | Inr r \<Rightarrow> Inr (if b then ob # r else r)))"

definition search :: "cls \<Rightarrow> (string, attr) pydict \<Rightarrow> (store, obj list) op" where
  "search c kvs st =
     (case data st c of None \<Rightarrow> (st, Inl KeyError) | Some d \<Rightarrow> (st, filter_objs kvs (map snd d)))"

definition all_objs :: "cls \<Rightarrow> (store, obj list) op" where
  "all_objs c = search c []"

text \<open>
  \<open>Base.load_from_file\<close>: reset the class's dictionary, then, if the file exists,
  build one instance per entry with \<open>cls(**obj_json)\<close> and store it under the
  file's key; the first construction error propagates and leaves the entries read
  so far. The \<open>i\<close>-th construction draws the fresh identifier \<open>fresh i\<close>.
\<close>

fun load_items :: "cls \<Rightarrow> (nat \<Rightarrow> string) \<Rightarrow> datetime \<Rightarrow> nat \<Rightarrow>
    (string, (string, jval) pydict) pydict \<Rightarrow> (store, unit) op" where
  "load_items c fresh now i [] st = (st, Inr ())"
| "load_items c fresh now i ((k, j) # rest) st =
     (case construct c j (fresh i) now st of
        (st1, Inl e) \<Rightarrow> (st1, Inl e)
      | (st1, Inr ob) \<Rightarrow>
          (case data st1 c of
             None \<Rightarrow> (st1, Inl KeyError)
           | Some d \<Rightarrow> load_items c fresh now (Suc i) rest
                         (st1\<lparr>data := (data st1)(c \<mapsto> AList.update (JStr k) ob d)\<rparr>)))"

definition load_from_file :: "cls \<Rightarrow> (nat \<Rightarrow> string) \<Rightarrow> datetime \<Rightarrow> (store, unit) op" where
  "load_from_file c fresh now st =
     (let st1 = st\<lparr>data := (data st)(c \<mapsto> [])\<rparr> in
      case files st1 (db_path c) of
        None \<Rightarrow> (st1, Inr ())
      | Some items \<Rightarrow> load_items c fresh now 0 items st1)"

section \<open>The store invariant\<close>

text \<open>
  Every class dictionary has distinct keys, holds only instances of its class, each
  under its own id, and every id is a string (as \<open>str(uuid.uuid4())\<close> is); every
  entry of a class file carries its key as its \<open>"id"\<close>, so that reloading stores
  each instance under its own id again.
\<close>

definition data_inv :: "store \<Rightarrow> bool" where
  "data_inv st \<longleftrightarrow>
     (\<forall>c d. data st c = Some d \<longrightarrow> dict_keys_distinct d \<and>
        (\<forall>k ob. (k, ob) \<in> set d \<longrightarrow> class_of ob = c \<and> oid ob = k \<and> is_str k))"

definition files_inv :: "store \<Rightarrow> bool" where
  "files_inv st \<longleftrightarrow>
     (\<forall>c f. files st (db_path c) = Some f \<longrightarrow> (\<forall>k j. (k, j) \<in> set f \<longrightarrow> map_of j ''id'' = Some (JStr k)))"

definition store_inv :: "store \<Rightarrow> bool" where
  "store_inv st \<longleftrightarrow> data_inv st \<and> files_inv st"

section \<open>Specification-level notions\<close>

text \<open>
  What a search should return (the instances whose named attributes all equal the
  given values), the attributes a search can look up without raising, what a
  write and a read keep of an instance, and the file content \<open>save_to_file\<close>
  writes for a class dictionary.
\<close>

definition matches :: "(string, attr) pydict \<Rightarrow> obj \<Rightarrow> bool" where
  "matches kvs ob \<longleftrightarrow> list_all (\<lambda>(k, v). case getattr_obj ob k of Some a \<Rightarrow> attr_eq a v | None \<Rightarrow> False) kvs"

definition has_attrs :: "(string, attr) pydict \<Rightarrow> obj \<Rightarrow> bool" where
  "has_attrs kvs ob \<longleftrightarrow> list_all (\<lambda>(k, v). getattr_obj ob k \<noteq> None) kvs"

fun obj_to_second :: "obj \<Rightarrow> obj" where
  "obj_to_second (UserObj u) = UserObj (u\<lparr>created_at := to_second (created_at u), updated_at := to_second (updated_at u)\<rparr>)"
| "obj_to_second (SessionObj s) = SessionObj (s\<lparr>created_at := to_second (created_at s), updated_at := to_second (updated_at s)\<rparr>)"

fun obj_valid :: "obj \<Rightarrow> bool" where
  "obj_valid (UserObj u) \<longleftrightarrow> valid_datetime (created_at u) \<and> valid_datetime (updated_at u)"
| "obj_valid (SessionObj s) \<longleftrightarrow> valid_datetime (created_at s) \<and> valid_datetime (updated_at s)"

definition serialize :: "(jval, obj) pydict \<Rightarrow> (string, (string, jval) pydict) pydict" where
  "serialize d = map (\<lambda>(k, ob). (json_key k, to_json True ob)) d"

text \<open>
  The store as the specification describes it (section 4.1): one mapping from a
  class and an id to an instance. \<open>abs_store\<close> reads it off the class
  dictionaries.
\<close>

definition abs_store :: "store \<Rightarrow> cls \<times> jval \<Rightarrow> obj option" where
  "abs_store st = (\<lambda>(c, i). case data st c of None \<Rightarrow> None | Some d \<Rightarrow> map_of d i)"

section \<open>Runs of the store\<close>

text \<open>
  One step is one state-changing class operation, with any arguments; a saved
  instance has a string id (every instance the application saves comes from
  \<open>cls(**kwargs)\<close> without an \<open>id\<close> argument, or from the store itself). The
  process starts with an empty \<open>DATA\<close> and files whose entries carry their keys.
\<close>

inductive store_step :: "store \<Rightarrow> store \<Rightarrow> bool" where
  step_construct: "construct c kw fresh now st = (st', r) \<Longrightarrow> store_step st st'"
| step_save: "is_str (oid ob) \<Longrightarrow> save now ob st = (st', r) \<Longrightarrow> store_step st st'"
| step_remove: "remove ob st = (st', r) \<Longrightarrow> store_step st st'"
| step_save_to_file: "save_to_file c st = (st', r) \<Longrightarrow> store_step st st'"
| step_load: "load_from_file c fresh now st = (st', r) \<Longrightarrow> store_step st st'"

inductive store_reachable :: "store \<Rightarrow> bool" where
  reach_init: "data st = Map.empty \<Longrightarrow> files_inv st \<Longrightarrow> store_reachable st"
| reach_step: "store_reachable st \<Longrightarrow> store_step st st' \<Longrightarrow> store_reachable st'"

section \<open>Lemmas: the invariant\<close>

lemma set_update_subset [py_simps]: "set (AList.update k v d) \<subseteq> insert (k, v) (set d)"
  by (induction d) auto

lemma set_delete_subset [py_simps]: "set (AList.delete k d) \<subseteq> set d"
  by (auto simp: AList.delete_eq)

lemma db_path_inj [simp]: "db_path c = db_path c' \<longleftrightarrow> c = c'"
  by (cases c; cases c') (simp_all add: db_path_def)

lemma class_of_touch [simp]: "class_of (touch now ob) = class_of ob"
  by (cases ob) simp_all

lemma oid_touch [simp]: "oid (touch now ob) = oid ob"
  by (cases ob) simp_all

lemma map_of_to_json_id [simp]: "map_of (to_json b ob) ''id'' = Some (oid ob)"
  by (cases ob) (simp_all add: to_json_def is_private_def)

lemma data_inv_register [simp]: "data_inv st \<Longrightarrow> data_inv (register_class c st)"
  by (auto simp: data_inv_def register_class_def dict_keys_distinct_def)

lemma JStr_json_key [simp]: "is_str k \<Longrightarrow> JStr (json_key k) = k"
  by (cases k) simp_all

lemma files_register [simp]: "files (register_class c st) = files st"
  by (simp add: register_class_def)

lemma data_register_Some: "\<exists>d. data (register_class c st) c = Some d"
  by (simp add: register_class_def)

lemma save_to_file_data: "save_to_file c st = (st', r) \<Longrightarrow> data st' = data st"
  by (auto simp: save_to_file_def split: option.splits)

lemma data_inv_cong: "data st' = data st \<Longrightarrow> data_inv st' = data_inv st"
  unfolding data_inv_def by simp

lemma files_inv_cong: "files st' = files st \<Longrightarrow> files_inv st' = files_inv st"
  unfolding files_inv_def by simp

lemma save_to_file_files_inv:
  assumes "save_to_file c st = (st', r)" and "data_inv st" and "files_inv st"
  shows "files_inv st'"
proof (cases "data st c")
  case None
  with assms(1,3) show ?thesis by (simp add: save_to_file_def)
next
  case (Some d)
  have "\<forall>k ob. (k, ob) \<in> set d \<longrightarrow> oid ob = k \<and> is_str k"
    using assms(2) Some by (auto simp: data_inv_def)
  then have "\<forall>k j. (k, j) \<in> set (map (\<lambda>(k, ob). (json_key k, to_json True ob)) d) \<longrightarrow>
      map_of j ''id'' = Some (JStr k)"
    by fastforce
  with assms(1,3) Some show ?thesis
    by (auto simp: save_to_file_def files_inv_def split: if_splits)
qed

lemma data_inv_update_entry:
  assumes "data_inv st" "data st c = Some d" "class_of ob = c" "oid ob = k" "is_str k"
  shows "data_inv (st\<lparr>data := (data st)(c \<mapsto> AList.update k ob d)\<rparr>)"
proof -
  have "dict_keys_distinct d" "\<forall>k' ob'. (k', ob') \<in> set d \<longrightarrow> class_of ob' = c \<and> oid ob' = k' \<and> is_str k'"
    using assms(1,2) by (auto simp: data_inv_def)
  then show ?thesis
    using assms set_update_subset [of k ob d]
    by (auto simp: data_inv_def dict_keys_distinct_update)
qed

lemma data_inv_delete_entry:
  assumes "data_inv st" "data st c = Some d"
  shows "data_inv (st\<lparr>data := (data st)(c \<mapsto> AList.delete k d)\<rparr>)"
  using assms set_delete_subset [of k d]
  by (auto simp: data_inv_def dict_keys_distinct_delete)

lemma data_inv_reset: "data_inv st \<Longrightarrow> data_inv (st\<lparr>data := (data st)(c \<mapsto> [])\<rparr>)"
  by (auto simp: data_inv_def dict_keys_distinct_def)

lemma init_obj_Inr:
  "init_obj c kw fresh now = Inr ob \<Longrightarrow> class_of ob = c \<and> oid ob = kw_get_default kw ''id'' (JStr fresh)"
  by (cases c) (auto simp: user_init_def session_init_def base_fields_def split: sum.splits)

lemma construct_store_inv:
  assumes "construct c kw fresh now st = (st', r)" "store_inv st"
  shows "store_inv st'"
proof -
  have "st' = register_class c st" using assms(1) by (simp add: construct_def)
  then show ?thesis
    using assms(2) files_inv_cong [of st' st] by (simp add: store_inv_def)
qed

lemma save_store_inv:
  assumes "save now ob st = (st', r)" "store_inv st" "is_str (oid ob)"
  shows "store_inv st'"
proof (cases "data st (class_of ob)")
  case None
  with assms(1) have "st' = st" by (simp add: save_def Let_def)
  with assms(2) show ?thesis by simp
next
  case (Some d)
  let ?st1 = "st\<lparr>data := (data st)(class_of ob \<mapsto> AList.update (oid ob) (touch now ob) d)\<rparr>"
  have i1: "data_inv ?st1"
    by (rule data_inv_update_entry) (use assms(2,3) Some in \<open>simp_all add: store_inv_def\<close>)
  have i2: "files_inv ?st1"
    using assms(2) files_inv_cong [of ?st1 st] by (simp add: store_inv_def)
  obtain st2 x where s2: "save_to_file (class_of ob) ?st1 = (st2, x)"
    by (cases "save_to_file (class_of ob) ?st1") blast
  have d2: "data_inv st2"
    using i1 data_inv_cong [OF save_to_file_data [OF s2]] by simp
  have f2: "files_inv st2"
    using save_to_file_files_inv [OF s2 i1 i2] .
  have "save now ob st = bind_op (save_to_file (class_of ob)) (\<lambda>_. return_op (touch now ob)) ?st1"
    using Some by (simp add: save_def Let_def)
  then have "st' = st2"
    using assms(1) s2 by (cases x) (simp_all add: bind_op_def)
  with d2 f2 show ?thesis by (simp add: store_inv_def)
qed

lemma remove_store_inv:
  assumes "remove ob st = (st', r)" "store_inv st"
  shows "store_inv st'"
proof (cases "data st (class_of ob)")
  case None
  with assms(1) have "st' = st" by (simp add: remove_def Let_def)
  with assms(2) show ?thesis by simp
next
  case (Some d)
  let ?st1 = "st\<lparr>data := (data st)(class_of ob \<mapsto> AList.delete (oid ob) d)\<rparr>"
  have inv1: "data_inv ?st1" "files_inv ?st1"
    using assms(2) Some data_inv_delete_entry [of st "class_of ob" d "oid ob"] files_inv_cong [of ?st1 st]
    by (simp_all add: store_inv_def)
  obtain st2 x where s2: "save_to_file (class_of ob) ?st1 = (st2, x)"
    by (cases "save_to_file (class_of ob) ?st1") blast
  have d2: "data_inv st2"
    using inv1(1) data_inv_cong [OF save_to_file_data [OF s2]] by simp
  have f2: "files_inv st2"
    using save_to_file_files_inv [OF s2 inv1] .
  show ?thesis
  proof (cases "map_of d (oid ob) = None")
    case True
    with assms Some show ?thesis by (simp add: remove_def)
  next
    case False
    with assms(1) Some s2 have "st' = st2" by (simp add: remove_def)
    with d2 f2 show ?thesis by (simp add: store_inv_def)
  qed
qed

lemma load_items_store_inv:
  assumes "load_items c fresh now i items st = (st', r)" "store_inv st"
    "\<forall>k j. (k, j) \<in> set items \<longrightarrow> map_of j ''id'' = Some (JStr k)"
  shows "store_inv st'"
  using assms
proof (induction items arbitrary: i st)
  case Nil
  then show ?case by simp
next
  case (Cons kj items)
  obtain k j where kj: "kj = (k, j)" by (cases kj) blast
  obtain st1 x where c1: "construct c j (fresh i) now st = (st1, x)"
    by (cases "construct c j (fresh i) now st") blast
  have inv1: "store_inv st1" using construct_store_inv [OF c1 Cons.prems(2)] .
  have f1: "files st1 = files st" and d1: "\<exists>d. data st1 c = Some d"
    using c1 data_register_Some [of c st] by (auto simp: construct_def)
  show ?case
  proof (cases x)
    case (Inl e)
    with Cons.prems(1) kj c1 inv1 show ?thesis by simp
  next
    case (Inr ob)
    from d1 obtain d where d: "data st1 c = Some d" by blast
    have ob: "class_of ob = c" "oid ob = JStr k"
      using init_obj_Inr [of c j "fresh i" now ob] c1 Inr Cons.prems(3) kj
      by (auto simp: construct_def kw_get_default_def)
    let ?st2 = "st1\<lparr>data := (data st1)(c \<mapsto> AList.update (JStr k) ob d)\<rparr>"
    have "store_inv ?st2"
      using inv1 d ob data_inv_update_entry [of st1 c d ob "JStr k"] files_inv_cong [of ?st2 st1]
      by (simp add: store_inv_def)
    moreover have "load_items c fresh now (Suc i) items ?st2 = (st', r)"
      using Cons.prems(1) kj c1 Inr d by simp
    ultimately show ?thesis
      using Cons.IH Cons.prems(3) by auto
  qed
qed

lemma load_from_file_store_inv:
  assumes "load_from_file c fresh now st = (st', r)" "store_inv st"
  shows "store_inv st'"
proof -
  let ?st1 = "st\<lparr>data := (data st)(c \<mapsto> [])\<rparr>"
  have inv1: "store_inv ?st1"
    using assms(2) data_inv_reset [of st c] files_inv_cong [of ?st1 st] by (simp add: store_inv_def)
  show ?thesis
  proof (cases "files st (db_path c)")
    case None
    with assms(1) inv1 show ?thesis by (simp add: load_from_file_def)
  next
    case (Some items)
    have "\<forall>k j. (k, j) \<in> set items \<longrightarrow> map_of j ''id'' = Some (JStr k)"
      using assms(2) Some by (auto simp: store_inv_def files_inv_def)
    with assms(1) inv1 Some show ?thesis
      by (auto simp: load_from_file_def intro: load_items_store_inv)
  qed
qed

section \<open>Lemmas: the operations\<close>

lemma save_Some:
  assumes "data st (class_of ob) = Some d"
  shows "save now ob st =
    (let d' = AList.update (oid ob) (touch now ob) d in
     (st\<lparr>data := (data st)(class_of ob \<mapsto> d'), files := (files st)(db_path (class_of ob) \<mapsto> serialize d')\<rparr>,
      Inr (touch now ob)))"
  using assms by (simp add: save_def save_to_file_def bind_op_def serialize_def Let_def)

lemma save_None: "data st (class_of ob) = None \<Longrightarrow> save now ob st = (st, Inl KeyError)"
  by (simp add: save_def)

text \<open>
  After a successful \<open>save\<close>, \<open>get\<close> on the instance's class and id returns the
  saved instance, which is the argument with \<open>updated_at\<close> set to the current time.
\<close>

theorem save_get:
  assumes "save now ob st = (st', Inr ob')"
  shows "get (class_of ob) (oid ob) st' = (st', Inr (Some ob')) \<and> ob' = touch now ob"
proof (cases "data st (class_of ob)")
  case None
  with assms show ?thesis by (simp add: save_None)
next
  case (Some d)
  with assms show ?thesis by (auto simp: save_Some get_def Let_def py_simps)
qed

lemma store_inv_lookup:
  assumes "store_inv st" "data st c = Some d" "map_of d k = Some ob"
  shows "oid ob = k \<and> class_of ob = c"
  using assms by (auto simp: store_inv_def data_inv_def dest: map_of_SomeD)

lemma remove_get_None:
  assumes "remove ob st = (st', Inr u)"
  shows "get (class_of ob) (oid ob) st' = (st', Inr None)"
proof (cases "data st (class_of ob)")
  case None
  with assms show ?thesis by (simp add: remove_def)
next
  case (Some d)
  show ?thesis
  proof (cases "map_of d (oid ob) = None")
    case True
    with assms Some show ?thesis by (simp add: remove_def get_def)
  next
    case False
    with assms Some show ?thesis
      by (auto simp: remove_def get_def save_to_file_def Let_def py_simps)
  qed
qed

text \<open>
  After a successful \<open>remove\<close>, \<open>get\<close> on the instance's class and id returns
  \<open>None\<close>.
\<close>

theorem remove_get:
  assumes "remove ob st = (st', Inr u)"
  shows "get (class_of ob) (oid ob) st' = (st', Inr None)"
  using remove_get_None [OF assms] .

lemma update_new_key: "map_of d k = None \<Longrightarrow> AList.update k v d = d @ [(k, v)]"
  by (induction d) auto

lemma length_update: "length (AList.update k v d) = (if map_of d k = None then Suc (length d) else length d)"
  by (induction d) auto

text \<open>
  \<open>save\<close> of an instance whose id is new to its class dictionary increases
  \<open>count\<close> by one; saving under an existing id leaves it unchanged.
\<close>

theorem count_save:
  assumes "data st (class_of ob) = Some d" "save now ob st = (st', r)"
  shows "count (class_of ob) st' = (st', Inr (if map_of d (oid ob) = None then Suc (length d) else length d))"
  using assms by (auto simp: save_Some count_def Let_def length_update)

lemma attrs_match_spec:
  "has_attrs kvs ob \<Longrightarrow> attrs_match kvs ob = Inr (matches kvs ob)"
  by (induction kvs ob rule: attrs_match.induct) (auto simp: has_attrs_def matches_def split: option.splits)

lemma attrs_match_Inr: "attrs_match kvs ob = Inr b \<Longrightarrow> b = matches kvs ob"
  by (induction kvs ob rule: attrs_match.induct) (auto simp: matches_def split: option.splits if_splits)

lemma filter_objs_spec:
  "list_all (has_attrs kvs) obs \<Longrightarrow> filter_objs kvs obs = Inr (filter (matches kvs) obs)"
  by (induction obs) (auto simp: attrs_match_spec)

lemma filter_objs_Nil: "filter_objs [] obs = Inr obs"
  by (induction obs) auto

lemma search_filter:
  assumes "data st c = Some d" "list_all (has_attrs kvs) (map snd d)"
  shows "search c kvs st = (st, Inr (filter (matches kvs) (map snd d)))"
  using assms by (simp add: search_def filter_objs_spec)

text \<open>
  C21. When every instance has the attributes searched for, \<open>search\<close> returns, in
  insertion order, exactly the instances whose attributes equal the given values.
\<close>

theorem search_spec:
  assumes "data st c = Some d" "list_all (has_attrs kvs) (map snd d)"
  shows "search c kvs st = (st, Inr (filter (matches kvs) (map snd d)))"
  using search_filter [OF assms] .

lemma all_objs_spec: "data st c = Some d \<Longrightarrow> all_objs c st = (st, Inr (map snd d))"
  by (simp add: all_objs_def search_def filter_objs_Nil)

lemma search_sound:
  assumes "search c kvs st = (st', Inr r)"
  shows "st' = st \<and> (\<exists>d. data st c = Some d \<and> r = filter (matches kvs) (map snd d))"
proof -
  have "filter_objs kvs obs = Inr r \<Longrightarrow> r = filter (matches kvs) obs" for obs
    by (induction obs arbitrary: r) (auto dest: attrs_match_Inr split: sum.splits)
  with assms show ?thesis by (auto simp: search_def split: option.splits)
qed

lemma strftime_ts_ne [simp]: "strftime_ts d \<noteq> []"
  by (simp add: strftime_ts_def pad4_def pad2_def)

lemma parse_datetime_strftime:
  "valid_datetime t \<Longrightarrow> parse_datetime (JStr (strftime_ts t)) now = Inr (to_second t)"
  by (simp add: parse_datetime_def strptime_strftime)

lemma init_obj_to_json:
  assumes "obj_valid ob"
  shows "init_obj (class_of ob) (to_json True ob) fresh now = Inr (obj_to_second ob)"
proof (cases ob)
  case (UserObj u)
  with assms show ?thesis
    by (cases u) (simp add: to_json_def is_private_def user_init_def base_fields_def kw_get_def
        kw_get_default_def parse_datetime_strftime)
next
  case (SessionObj s)
  with assms show ?thesis
    by (cases s) (simp add: to_json_def is_private_def session_init_def base_fields_def kw_get_def
        kw_get_default_def parse_datetime_strftime)
qed

lemma load_items_serialize:
  assumes "data st c = Some acc" "distinct (map fst (acc @ d))"
    "\<forall>k ob. (k, ob) \<in> set d \<longrightarrow> class_of ob = c \<and> is_str k \<and> obj_valid ob"
  shows "\<exists>st'. load_items c fresh now i (serialize d) st = (st', Inr ()) \<and>
           data st' c = Some (acc @ map (\<lambda>(k, ob). (k, obj_to_second ob)) d) \<and> files st' = files st"
  using assms
proof (induction d arbitrary: i st acc)
  case Nil
  then show ?case by (simp add: serialize_def)
next
  case (Cons kob d)
  obtain k ob where kob: "kob = (k, ob)" by (cases kob) blast
  have ob: "class_of ob = c" "is_str k" "obj_valid ob"
    using Cons.prems(3) kob by auto
  have reg: "register_class c st = st"
    using Cons.prems(1) by (simp add: register_class_def)
  have con: "construct c (to_json True ob) (fresh i) now st = (st, Inr (obj_to_second ob))"
    using init_obj_to_json [OF ob(3), of "fresh i" now] ob(1) reg by (simp add: construct_def)
  have new: "map_of acc k = None"
    using Cons.prems(2) kob by (auto simp: map_of_eq_None_iff)
  let ?acc = "acc @ [(k, obj_to_second ob)]"
  let ?st1 = "st\<lparr>data := (data st)(c \<mapsto> ?acc)\<rparr>"
  have step: "load_items c fresh now i (serialize (kob # d)) st = load_items c fresh now (Suc i) (serialize d) ?st1"
    using con Cons.prems(1) ob(2) new kob by (simp add: serialize_def update_new_key)
  have "\<exists>st'. load_items c fresh now (Suc i) (serialize d) ?st1 = (st', Inr ()) \<and>
           data st' c = Some (?acc @ map (\<lambda>(k, ob). (k, obj_to_second ob)) d) \<and> files st' = files ?st1"
    by (rule Cons.IH) (use Cons.prems kob in auto)
  then show ?case using step kob by auto
qed

lemma load_serialized:
  assumes "files st (db_path c) = Some (serialize d)" "dict_keys_distinct d"
    "\<forall>k ob. (k, ob) \<in> set d \<longrightarrow> class_of ob = c \<and> is_str k \<and> obj_valid ob"
  shows "\<exists>st2. load_from_file c fresh now st = (st2, Inr ()) \<and>
           data st2 c = Some (map (\<lambda>(k, ob). (k, obj_to_second ob)) d)"
proof -
  let ?st0 = "st\<lparr>data := (data st)(c \<mapsto> [])\<rparr>"
  have "\<exists>st'. load_items c fresh now 0 (serialize d) ?st0 = (st', Inr ()) \<and>
           data st' c = Some ([] @ map (\<lambda>(k, ob). (k, obj_to_second ob)) d) \<and> files st' = files ?st0"
    by (rule load_items_serialize) (use assms(2,3) in \<open>auto simp: dict_keys_distinct_def\<close>)
  then show ?thesis
    using assms(1) by (auto simp: load_from_file_def)
qed

text \<open>
  C6. Reloading a class file just written by \<open>save_to_file\<close> restores the class
  dictionary: the same ids in the same order, the same attribute values, and the
  timestamps cut to the second (the microseconds are not written).
\<close>

theorem save_load_roundtrip:
  assumes "store_inv st" "data st c = Some d" "\<forall>ob\<in>snd ` set d. obj_valid ob"
  shows "\<exists>st2. load_from_file c fresh now (fst (save_to_file c st)) = (st2, Inr ()) \<and>
           data st2 c = Some (map (\<lambda>(k, ob). (k, obj_to_second ob)) d)"
proof -
  have f1: "files (fst (save_to_file c st)) (db_path c) = Some (serialize d)"
    using assms(2) by (simp add: save_to_file_def serialize_def)
  have "dict_keys_distinct d" "\<forall>k ob. (k, ob) \<in> set d \<longrightarrow> class_of ob = c \<and> is_str k"
    using assms(1,2) by (auto simp: store_inv_def data_inv_def)
  then show ?thesis using load_serialized [OF f1] assms(3) by force
qed

lemma save_to_file_store_inv:
  assumes "save_to_file c st = (st', r)" "store_inv st"
  shows "store_inv st'"
  using assms data_inv_cong [OF save_to_file_data [OF assms(1)]] save_to_file_files_inv [OF assms(1)]
  by (simp add: store_inv_def)

lemma store_step_inv: "store_step st st' \<Longrightarrow> store_inv st \<Longrightarrow> store_inv st'"
  by (induction rule: store_step.induct)
     (auto intro: construct_store_inv save_store_inv remove_store_inv save_to_file_store_inv
        load_from_file_store_inv)

lemma load_from_file_parse_error:
  assumes "files st (db_path c) = Some ((k, j) # rest)"
    "parse_datetime (kw_get j ''created_at'') now = Inl e"
  shows "load_from_file c fresh now st = (register_class c (st\<lparr>data := (data st)(c \<mapsto> [])\<rparr>), Inl e)"
  using assms by (cases c) (simp_all add: load_from_file_def construct_def user_init_def session_init_def
      base_fields_def)

text \<open>
  A class file entry whose \<open>created_at\<close> does not parse makes
  \<open>load_from_file\<close> raise the parse error (not caught), with the class dictionary
  left empty.
\<close>

theorem load_parse_error:
  assumes "files st (db_path c) = Some ((k, j) # rest)"
    "parse_datetime (kw_get j ''created_at'') now = Inl e"
  shows "snd (load_from_file c fresh now st) = Inl e \<and> data (fst (load_from_file c fresh now st)) c = Some []"
  using load_from_file_parse_error [OF assms] by (simp add: register_class_def)

text \<open>
  Before a class is registered in \<open>DATA\<close> (no instance built, no file loaded),
  \<open>count\<close>, \<open>get\<close>, \<open>search\<close> and \<open>save\<close> raise \<open>KeyError\<close> and change nothing.
\<close>

theorem unregistered_key_error:
  assumes "data st c = None"
  shows "count c st = (st, Inl KeyError) \<and> get c i st = (st, Inl KeyError) \<and>
    search c kvs st = (st, Inl KeyError) \<and> (class_of ob = c \<longrightarrow> save now ob st = (st, Inl KeyError))"
  using assms by (simp add: count_def get_def search_def save_None)

text \<open>
  C1. Every reachable state of the object store satisfies the store invariant: each
  class dictionary has distinct keys and holds only instances of its class, each
  under its own string id, and each class file entry carries its key as its id.
\<close>

theorem reachable_store_inv: "store_reachable st \<Longrightarrow> store_inv st"
proof (induction rule: store_reachable.induct)
  case (reach_init st)
  then show ?case by (simp add: store_inv_def data_inv_def)
next
  case (reach_step st st')
  then show ?case by (blast intro: store_step_inv)
qed

section \<open>Lemmas: lookups in an invariant store\<close>

lemma search_mem:
  assumes "search c kvs st = (st', Inr r)" "ob \<in> set r"
  shows "\<exists>d. data st c = Some d \<and> ob \<in> snd ` set d"
  using search_sound [OF assms(1)] assms(2) by auto

lemma store_inv_mem:
  assumes "store_inv st" "data st c = Some d" "ob \<in> snd ` set d"
  shows "map_of d (oid ob) = Some ob \<and> class_of ob = c"
proof -
  obtain k where k: "(k, ob) \<in> set d" using assms(3) by auto
  have "dict_keys_distinct d" "\<forall>k ob. (k, ob) \<in> set d \<longrightarrow> class_of ob = c \<and> oid ob = k \<and> is_str k"
    using assms(1,2) by (auto simp: store_inv_def data_inv_def)
  then show ?thesis using k by (auto simp: dict_keys_distinct_def)
qed

lemma get_stored:
  assumes "store_inv st" "snd (get c i st) = Inr (Some ob)"
  shows "class_of ob = c \<and> get c (oid ob) st = (st, Inr (Some ob))"
proof -
  obtain d where d: "data st c = Some d" "map_of d i = Some ob"
    using assms(2) by (auto simp: get_def split: option.splits)
  then show ?thesis using store_inv_lookup [OF assms(1) d] by (simp add: get_def)
qed

lemma search_head_stored:
  assumes "store_inv st" "snd (search c kvs st) = Inr (ob # obs)"
  shows "class_of ob = c \<and> get c (oid ob) st = (st, Inr (Some ob))"
proof -
  have "search c kvs st = (fst (search c kvs st), Inr (ob # obs))" using assms(2) by (metis prod.collapse)
  then obtain d where "data st c = Some d" "ob \<in> snd ` set d" using search_mem by fastforce
  then show ?thesis using store_inv_mem [OF assms(1)] by (simp add: get_def)
qed

lemma remove_Some:
  assumes "data st (class_of ob) = Some d" "map_of d (oid ob) \<noteq> None"
  shows "remove ob st =
    (let d' = AList.delete (oid ob) d in
     (st\<lparr>data := (data st)(class_of ob \<mapsto> d'), files := (files st)(db_path (class_of ob) \<mapsto> serialize d')\<rparr>, Inr ()))"
  using assms by (simp add: remove_def save_to_file_def serialize_def Let_def)

lemma store_inv_no_null_key:
  assumes "store_inv st" "data st c = Some d"
  shows "map_of d JNull = None"
proof (rule ccontr)
  assume "map_of d JNull \<noteq> None"
  then obtain ob where "(JNull, ob) \<in> set d" by (auto dest: map_of_SomeD)
  then have "is_str JNull" using assms unfolding store_inv_def data_inv_def by blast
  then show False by simp
qed

section \<open>Lemmas: refinement of the abstract store\<close>

text \<open>
  C5. The dictionary store refines the abstract store \<open>abs_store\<close>, a
  finite map from (class, id) to instance: on a registered class of a store satisfying
  the invariant, \<open>save\<close> is a map update with the touched instance,
  \<open>remove\<close> a map deletion, \<open>get\<close> a lookup and \<open>count\<close> the size of
  the class's domain.
\<close>

theorem store_refinement:
  assumes "data st c = Some d" "store_inv st"
  shows "(class_of ob = c \<longrightarrow> abs_store (fst (save now ob st)) = (abs_store st)((c, oid ob) \<mapsto> touch now ob)) \<and>
    (class_of ob = c \<longrightarrow> abs_store (fst (remove ob st)) = (abs_store st)((c, oid ob) := None)) \<and>
    snd (get c i st) = Inr (abs_store st (c, i)) \<and>
    snd (count c st) = Inr (card {i. abs_store st (c, i) \<noteq> None})"
proof (intro conjI impI)
  assume "class_of ob = c"
  then show "abs_store (fst (save now ob st)) = (abs_store st)((c, oid ob) \<mapsto> touch now ob)"
    using assms(1) by (auto simp: save_Some abs_store_def fun_eq_iff update_conv' Let_def split: option.splits)
next
  assume "class_of ob = c"
  then show "abs_store (fst (remove ob st)) = (abs_store st)((c, oid ob) := None)"
    using assms(1) by (auto simp: remove_def save_to_file_def abs_store_def fun_eq_iff delete_conv' Let_def
        split: option.splits)
next
  show "snd (get c i st) = Inr (abs_store st (c, i))" using assms(1) by (simp add: get_def abs_store_def)
next
  have "dict_keys_distinct d" using assms by (auto simp: store_inv_def data_inv_def)
  then have "card (dom (map_of d)) = length d"
    using distinct_card [of "map fst d"] by (simp add: dict_keys_distinct_def dom_map_of_conv_image_fst)
  moreover have "{i. abs_store st (c, i) \<noteq> None} = dom (map_of d)" using assms(1) by (auto simp: abs_store_def)
  ultimately show "snd (count c st) = Inr (card {i. abs_store st (c, i) \<noteq> None})"
    using assms(1) by (simp add: count_def)
qed

end
