(* ===== verification/Basic01.thy ===== *)
theory Basic01
  imports Store
begin

text \<open>
  The models of \<open>0x01-Basic_authentication\<close> (\<open>models/base.py\<close> and
  \<open>models/user.py\<close>), a separate program with the same store layout. Only the
  operations written differently from \<open>0x02\<close> are given their own definitions
  here: the timestamp arguments of \<open>__init__\<close> (tested by key presence, not by
  truthiness), \<open>load_from_file\<close> (one dictionary comprehension, assigned only when
  every entry was built), \<open>count\<close>, \<open>get\<close> and \<open>search\<close> (which read
  \<open>DATA.get(cls, {})\<close> and never raise \<open>KeyError\<close>), \<open>_hash_password\<close>,
  \<open>is_valid_password\<close> and \<open>display_name\<close>; \<open>save\<close>, \<open>remove\<close>,
  \<open>save_to_file\<close>, \<open>to_json\<close> and \<open>__eq__\<close>, written with other
  statements but the same effect, get their own definitions and are proved equal
  to those of \<open>Store\<close> and \<open>Entities\<close>. The lemmas relate each \<open>0x01\<close>
  operation to its \<open>0x02\<close> counterpart.
\<close>

section \<open>Construction\<close>

text \<open>
  \<open>datetime.strptime(kwargs['created_at'], TIMESTAMP_FORMAT) if 'created_at' in
  kwargs else datetime.utcnow()\<close>: a present key is parsed whatever its value
  (\<open>None\<close> or a number raise \<open>TypeError\<close>).
\<close>

definition parse01 :: "kwargs \<Rightarrow> string \<Rightarrow> datetime \<Rightarrow> py_error + datetime" where
  "parse01 kw k now =
     (case map_of kw k of
        None \<Rightarrow> Inr now
      | Some (JStr s) \<Rightarrow> strptime_ts s
      | Some _ \<Rightarrow> Inl TypeError)"

definition base_fields01 :: "kwargs \<Rightarrow> string \<Rightarrow> datetime \<Rightarrow> py_error + base_obj" where
  "base_fields01 kw fresh now =
     (case parse01 kw ''created_at'' now of
        Inl e \<Rightarrow> Inl e
      | Inr c \<Rightarrow>
          (case parse01 kw ''updated_at'' now of
             Inl e \<Rightarrow> Inl e
           | Inr u \<Rightarrow> Inr \<lparr>obj_id = kw_get_default kw ''id'' (JStr fresh), created_at = c, updated_at = u\<rparr>))"

definition user_init01 :: "kwargs \<Rightarrow> string \<Rightarrow> datetime \<Rightarrow> py_error + user" where
  "user_init01 kw fresh now =
     (case base_fields01 kw fresh now of
        Inl e \<Rightarrow> Inl e
      | Inr b \<Rightarrow> Inr \<lparr>obj_id = obj_id b, created_at = created_at b, updated_at = updated_at b,
                     email = kw_get kw ''email'', password = kw_get kw ''_password'',
                     first_name = kw_get kw ''first_name'', last_name = kw_get kw ''last_name''\<rparr>)"

section \<open>Class methods\<close>

text \<open>
  \<open>Base.load_from_file\<close> of \<open>0x01\<close>: the comprehension
  \<open>{obj_id: cls(**obj_json) for obj_id, obj_json in json.load(f).items()}\<close> is
  evaluated completely before it is assigned to \<open>DATA[s_class]\<close>; a construction
  error leaves the dictionary empty. (\<open>0x01\<close> stores only \<open>User\<close>.)
\<close>

fun build_users01 :: "(nat \<Rightarrow> string) \<Rightarrow> datetime \<Rightarrow> nat \<Rightarrow>
    (string, (string, jval) pydict) pydict \<Rightarrow> (jval, obj) pydict \<Rightarrow> py_error + (jval, obj) pydict" where
  "build_users01 fresh now i [] acc = Inr acc"
| "build_users01 fresh now i ((k, j) # rest) acc =
     (case user_init01 j (fresh i) now of
        Inl e \<Rightarrow> Inl e
      | Inr u \<Rightarrow> build_users01 fresh now (Suc i) rest (AList.update (JStr k) (UserObj u) acc))"

definition load_users01 :: "(nat \<Rightarrow> string) \<Rightarrow> datetime \<Rightarrow> (store, unit) op" where
  "load_users01 fresh now st =
     (let st1 = st\<lparr>data := (data st)(CUser \<mapsto> [])\<rparr> in
      case files st1 (db_path CUser) of
        None \<Rightarrow> (st1, Inr ())
      | Some items \<Rightarrow>
          (case build_users01 fresh now 0 items [] of
             Inl e \<Rightarrow> (st1, Inl e)
           | Inr d \<Rightarrow> (st1\<lparr>data := (data st1)(CUser \<mapsto> d)\<rparr>, Inr ())))"

text \<open>\<open>count\<close>, \<open>get\<close> and \<open>search\<close> read \<open>DATA.get(cls.__name__, {})\<close>.\<close>

definition class_dict01 :: "cls \<Rightarrow> store \<Rightarrow> (jval, obj) pydict" where
  "class_dict01 c st = (case data st c of None \<Rightarrow> [] | Some d \<Rightarrow> d)"

definition count01 :: "cls \<Rightarrow> (store, nat) op" where
  "count01 c st = (st, Inr (length (class_dict01 c st)))"

definition get01 :: "cls \<Rightarrow> jval \<Rightarrow> (store, obj option) op" where
  "get01 c i st = (st, Inr (map_of (class_dict01 c st) i))"

definition search01 :: "cls \<Rightarrow> (string, attr) pydict \<Rightarrow> (store, obj list) op" where
  "search01 c kvs st =
     (if kvs = [] then (st, Inr (map snd (class_dict01 c st)))
      else (st, filter_objs kvs (map snd (class_dict01 c st))))"

text \<open>
  \<open>Base.__eq__\<close>, \<open>to_json\<close>, \<open>save_to_file\<close>, \<open>save\<close> and \<open>remove\<close> of
  \<open>0x01\<close>. \<open>save_to_file\<close> opens the file for writing before it reads
  \<open>DATA[s_class]\<close>, so on the \<open>KeyError\<close> branch the real file is left
  truncated; file contents are modelled as parsed dictionaries only, and that
  branch leaves them as they were.
\<close>

definition obj_eq01 :: "obj \<Rightarrow> obj \<Rightarrow> bool" where
  "obj_eq01 a b \<longleftrightarrow> py_eq (oid a) (oid b)"

definition to_json01 :: "bool \<Rightarrow> obj \<Rightarrow> (string, jval) pydict" where
  "to_json01 for_ser ob =
     map (\<lambda>(k, v). (k, attr_json v)) (filter (\<lambda>(k, v). for_ser \<or> \<not> take 1 k = ''_'') (obj_dict ob))"

definition save_to_file01 :: "cls \<Rightarrow> (store, unit) op" where
  "save_to_file01 c st =
     (case data st c of
        None \<Rightarrow> (st, Inl KeyError)
      | Some d \<Rightarrow> (st\<lparr>files := (files st)(db_path c \<mapsto> map (\<lambda>(k, ob). (json_key k, to_json01 True ob)) d)\<rparr>, Inr ()))"

definition save01 :: "datetime \<Rightarrow> obj \<Rightarrow> (store, obj) op" where
  "save01 now ob st =
     (let c = class_of ob; ob' = touch now ob in
      case data st c of
        None \<Rightarrow> (st, Inl KeyError)
      | Some d \<Rightarrow>
          bind_op (save_to_file01 c) (\<lambda>_. return_op ob')
            (st\<lparr>data := (data st)(c \<mapsto> AList.update (oid ob) ob' d)\<rparr>))"

definition remove01 :: "obj \<Rightarrow> (store, unit) op" where
  "remove01 ob st =
     (let c = class_of ob in
      case data st c of
        None \<Rightarrow> (st, Inl KeyError)
      | Some d \<Rightarrow>
          (if map_of d (oid ob) \<noteq> None
           then save_to_file01 c (st\<lparr>data := (data st)(c \<mapsto> AList.delete (oid ob) d)\<rparr>)
           else (st, Inr ())))"

section \<open>User methods\<close>

definition hash_password01 :: "(string \<Rightarrow> string) \<Rightarrow> string \<Rightarrow> string" where
  "hash_password01 sha p = py_lower (sha p)"

definition set_password01 :: "(string \<Rightarrow> string) \<Rightarrow> jval \<Rightarrow> user \<Rightarrow> user" where
  "set_password01 sha pwd u =
     u\<lparr>password := (case pwd of JStr p \<Rightarrow> JStr (hash_password01 sha p) | _ \<Rightarrow> JNull)\<rparr>"

definition is_valid_password01 :: "(string \<Rightarrow> string) \<Rightarrow> user \<Rightarrow> jval \<Rightarrow> bool" where
  "is_valid_password01 sha u pwd =
     (if \<not> is_str pwd \<or> password u = JNull then False
      else (case pwd of JStr p \<Rightarrow> py_eq (JStr (hash_password01 sha p)) (password u) | _ \<Rightarrow> False))"

text \<open>
  \<open>display_name\<close> of \<open>0x01\<close>: both names joined, else
  \<open>self.first_name or self.last_name or self.email or ""\<close>.
\<close>

definition display_name01 :: "user \<Rightarrow> jval" where
  "display_name01 u =
     (if truthy (first_name u) \<and> truthy (last_name u)
      then JStr (py_str (first_name u) @ '' '' @ py_str (last_name u))
      else py_or (first_name u) (py_or (last_name u) (py_or (email u) (JStr ''''))))"

section \<open>Comparison with 0x02\<close>

text \<open>
  The 0x02 loader as a pure fold over the file entries (the dictionary reached and
  the outcome), and the condition under which the two constructors read the
  timestamp arguments alike.
\<close>

fun fold_users :: "(kwargs \<Rightarrow> string \<Rightarrow> datetime \<Rightarrow> py_error + user) \<Rightarrow> (nat \<Rightarrow> string) \<Rightarrow> datetime \<Rightarrow> nat \<Rightarrow>
    (string, (string, jval) pydict) pydict \<Rightarrow> (jval, obj) pydict \<Rightarrow> (jval, obj) pydict \<times> (py_error + unit)" where
  "fold_users init fresh now i [] acc = (acc, Inr ())"
| "fold_users init fresh now i ((k, j) # rest) acc =
     (case init j (fresh i) now of
        Inl e \<Rightarrow> (acc, Inl e)
      | Inr u \<Rightarrow> fold_users init fresh now (Suc i) rest (AList.update (JStr k) (UserObj u) acc))"

definition ts_args_ok :: "kwargs \<Rightarrow> bool" where
  "ts_args_ok kw \<longleftrightarrow>
     (case map_of kw ''created_at'' of None \<Rightarrow> True | Some v \<Rightarrow> truthy v) \<and>
     (case map_of kw ''updated_at'' of None \<Rightarrow> True | Some v \<Rightarrow> truthy v)"

section \<open>Lemmas\<close>

text \<open>
  The two implementations of \<open>User.display_name\<close> (0x01 and 0x02) return
  the same value for every user.
\<close>

theorem display_name01_eq: "display_name01 u = display_name u"
  by (auto simp: display_name01_def display_name_def py_or_def)

lemma is_valid_password01_eq: "is_valid_password01 sha u pwd = is_valid_password sha u pwd"
  by (cases pwd) (simp_all add: is_valid_password01_def is_valid_password_def hash_password01_def)

lemma set_password01_eq: "set_password01 sha pwd u = set_password sha pwd u"
  by (cases pwd) (simp_all add: set_password01_def set_password_def hash_password01_def)

lemma parse01_eq:
  "(case map_of kw k of None \<Rightarrow> True | Some v \<Rightarrow> truthy v) \<Longrightarrow> parse01 kw k now = parse_datetime (kw_get kw k) now"
  by (auto simp: parse01_def parse_datetime_def kw_get_def split: option.splits jval.splits)

lemma user_init01_eq:
  assumes "ts_args_ok kw"
  shows "user_init01 kw fresh now = user_init kw fresh now"
proof -
  have c: "parse01 kw ''created_at'' now = parse_datetime (kw_get kw ''created_at'') now"
    using assms by (simp add: ts_args_ok_def parse01_eq)
  have u: "parse01 kw ''updated_at'' now = parse_datetime (kw_get kw ''updated_at'') now"
    using assms by (simp add: ts_args_ok_def parse01_eq)
  show ?thesis
    unfolding user_init01_def user_init_def base_fields01_def base_fields_def c u ..
qed

lemma fold_users_eq:
  "\<forall>(k, j)\<in>set items. ts_args_ok j \<Longrightarrow> fold_users user_init01 fresh now i items acc = fold_users user_init fresh now i items acc"
  by (induction user_init01 fresh now i items acc rule: fold_users.induct)
     (auto simp: user_init01_eq split: sum.splits)

lemma build_users01_fold:
  "build_users01 fresh now i items acc =
     (case fold_users user_init01 fresh now i items acc of (d, Inr _) \<Rightarrow> Inr d | (_, Inl e) \<Rightarrow> Inl e)"
  by (induction fresh now i items acc rule: build_users01.induct) (auto split: sum.splits)

lemma data_upd_twice:
  "st\<lparr>data := (data st)(c \<mapsto> a)\<rparr>\<lparr>data := (data (st\<lparr>data := (data st)(c \<mapsto> a)\<rparr>))(c \<mapsto> b)\<rparr> =
   st\<lparr>data := (data st)(c \<mapsto> b)\<rparr>"
  by simp

lemma load_items_fold:
  "data st CUser = Some acc \<Longrightarrow>
   load_items CUser fresh now i items st =
     (st\<lparr>data := (data st)(CUser \<mapsto> fst (fold_users user_init fresh now i items acc))\<rparr>,
      snd (fold_users user_init fresh now i items acc))"
proof (induction items arbitrary: i st acc)
  case Nil
  then show ?case by (simp add: fun_upd_idem)
next
  case (Cons kj items)
  obtain k j where kj: "kj = (k, j)" by (cases kj) blast
  have reg: "register_class CUser st = st" using Cons.prems by (simp add: register_class_def)
  show ?case
  proof (cases "user_init j (fresh i) now")
    case (Inl e)
    with Cons.prems kj reg show ?thesis by (simp add: construct_def fun_upd_idem)
  next
    case (Inr u)
    let ?acc = "AList.update (JStr k) (UserObj u) acc"
    let ?st1 = "st\<lparr>data := (data st)(CUser \<mapsto> ?acc)\<rparr>"
    have step: "load_items CUser fresh now i (kj # items) st = load_items CUser fresh now (Suc i) items ?st1"
      using Cons.prems kj reg Inr by (simp add: construct_def)
    have ih: "load_items CUser fresh now (Suc i) items ?st1 =
       (?st1\<lparr>data := (data ?st1)(CUser \<mapsto> fst (fold_users user_init fresh now (Suc i) items ?acc))\<rparr>,
        snd (fold_users user_init fresh now (Suc i) items ?acc))"
      by (rule Cons.IH) simp
    have f: "fold_users user_init fresh now i (kj # items) acc = fold_users user_init fresh now (Suc i) items ?acc"
      using kj Inr by simp
    show ?thesis unfolding step ih f data_upd_twice ..
  qed
qed

lemma load_from_file_fold:
  assumes "files st (db_path CUser) = Some items"
  shows "load_from_file CUser fresh now st =
    (st\<lparr>data := (data st)(CUser \<mapsto> fst (fold_users user_init fresh now 0 items []))\<rparr>,
     snd (fold_users user_init fresh now 0 items []))"
proof -
  let ?st1 = "st\<lparr>data := (data st)(CUser \<mapsto> [])\<rparr>"
  have "load_from_file CUser fresh now st = load_items CUser fresh now 0 items ?st1"
    using assms by (simp add: load_from_file_def)
  also have "\<dots> = (?st1\<lparr>data := (data ?st1)(CUser \<mapsto> fst (fold_users user_init fresh now 0 items []))\<rparr>,
     snd (fold_users user_init fresh now 0 items []))"
    by (rule load_items_fold) simp
  finally show ?thesis unfolding data_upd_twice .
qed

lemma load_users01_fold:
  assumes "files st (db_path CUser) = Some items" "\<forall>(k, j)\<in>set items. ts_args_ok j"
  shows "load_users01 fresh now st =
    (case fold_users user_init fresh now 0 items [] of
       (d, Inr _) \<Rightarrow> (st\<lparr>data := (data st)(CUser \<mapsto> d)\<rparr>, Inr ())
     | (_, Inl e) \<Rightarrow> (st\<lparr>data := (data st)(CUser \<mapsto> [])\<rparr>, Inl e))"
  using assms by (auto simp: load_users01_def build_users01_fold fold_users_eq data_upd_twice
      split: prod.splits sum.splits)

text \<open>
  When the timestamp arguments of the file entries are absent or truthy (as
  \<open>save_to_file\<close> writes them), the 0x01 and 0x02 \<open>load_from_file\<close> raise the same
  error or none, and on success leave the same store.
\<close>

theorem load_users01_equiv:
  assumes "files st (db_path CUser) = Some items" "\<forall>(k, j)\<in>set items. ts_args_ok j"
  shows "snd (load_users01 fresh now st) = snd (load_from_file CUser fresh now st) \<and>
    (snd (load_from_file CUser fresh now st) = Inr () \<longrightarrow> load_users01 fresh now st = load_from_file CUser fresh now st)"
  using load_users01_fold [OF assms] load_from_file_fold [OF assms(1)]
  by (auto split: prod.splits sum.splits)

text \<open>
  C32. On a file entry that fails to build, the 0x01 \<open>load_from_file\<close> leaves the
  User dictionary empty, while the 0x02 one keeps the entries built before it.
\<close>

theorem load_error_divergence:
  assumes "files st (db_path CUser) = Some items" "\<forall>(k, j)\<in>set items. ts_args_ok j"
    "snd (load_from_file CUser fresh now st) = Inl e"
  shows "snd (load_users01 fresh now st) = Inl e \<and> data (fst (load_users01 fresh now st)) CUser = Some [] \<and>
    data (fst (load_from_file CUser fresh now st)) CUser = Some (fst (fold_users user_init fresh now 0 items []))"
  using assms(3) load_users01_fold [OF assms(1,2)] load_from_file_fold [OF assms(1)]
  by (auto split: prod.splits sum.splits)

lemma class_dict01_Some: "data st c = Some d \<Longrightarrow> class_dict01 c st = d"
  by (simp add: class_dict01_def)

text \<open>
  On a registered class, the 0x01 \<open>count\<close>, \<open>get\<close> and \<open>search\<close> (with its
  shortcut for empty criteria) agree with the 0x02 ones.
\<close>

theorem class_methods01_equiv:
  assumes "data st c = Some d"
  shows "count01 c st = count c st \<and> get01 c i st = get c i st \<and> search01 c kvs st = search c kvs st"
  using assms by (simp add: count01_def count_def get01_def get_def search01_def search_def
      class_dict01_Some filter_objs_Nil)

text \<open>
  On a class absent from \<open>DATA\<close>, the 0x01 \<open>count\<close>, \<open>get\<close> and \<open>search\<close>
  return 0, \<open>None\<close> and \<open>[]\<close> where the 0x02 ones raise \<open>KeyError\<close>.
\<close>

theorem class_methods01_unregistered:
  assumes "data st c = None"
  shows "count01 c st = (st, Inr 0) \<and> get01 c i st = (st, Inr None) \<and> search01 c kvs st = (st, Inr [])"
  using assms by (simp add: count01_def get01_def search01_def class_dict01_def)

text \<open>
  The persistence methods and \<open>__eq__\<close> of \<open>0x01\<close> (\<open>to_json\<close>,
  \<open>save_to_file\<close>, \<open>save\<close>, \<open>remove\<close>) compute exactly what those of
  \<open>0x02\<close> compute, on every state, errors included.
\<close>

theorem persistence01_equiv:
  "to_json01 = to_json \<and> save_to_file01 = save_to_file \<and> save01 = save \<and> remove01 = remove \<and> obj_eq01 = obj_eq"
proof (intro conjI)
  show tj: "to_json01 = to_json" by (simp add: fun_eq_iff to_json01_def to_json_def is_private_def)
  show sf: "save_to_file01 = save_to_file"
    unfolding save_to_file01_def [abs_def] save_to_file_def [abs_def] tj ..
  show "save01 = save" unfolding save01_def [abs_def] save_def [abs_def] sf ..
  show "remove01 = remove" unfolding remove01_def [abs_def] remove_def [abs_def] sf ..
  show "obj_eq01 = obj_eq" by (simp add: fun_eq_iff obj_eq01_def obj_eq_def)
qed

end
