(* ===== verification/Http.thy ===== *)
theory Http
  imports Entities
begin

text \<open>
  The HTTP vocabulary shared by the request gate and the views of
  \<open>0x02-Session_authentication/api/v1\<close>: the parts of a Flask request the code
  reads (path, headers, cookies, the JSON body), the \<open>request.current_user\<close>
  attribute the gate may set, and responses. The error handlers of \<open>app.py\<close> turn
  \<open>abort(404)\<close>, \<open>abort(401)\<close> and \<open>abort(403)\<close> into a JSON body
  \<open>{"error": ...}\<close>; an exception that escapes a view is Flask's 500 response.
\<close>

text \<open>\<open>request.get_json()\<close>: no JSON body, a JSON object, or another JSON document.\<close>

datatype jbody = NoJson | JsonObj kwargs | JsonScalar jval

record request =
  rq_path :: string
  rq_headers :: "(string, string) pydict"
  rq_cookies :: "(string, string) pydict"
  rq_json :: jbody

text \<open>
  \<open>request.current_user\<close>: not set at all (the gate returned early), or set to the
  resolved user or \<open>None\<close>.
\<close>

datatype ctx_user = Unset | CurUser "obj option"

datatype body = BErr string | BObj "(string, jval) pydict" | BList "(string, jval) pydict list"

datatype response = Response nat body

text \<open>The error handlers \<open>not_found\<close>, \<open>unauthorized\<close> and \<open>forbidden\<close> of \<open>app.py\<close>.\<close>

fun abort_response :: "nat \<Rightarrow> response" where
  "abort_response n =
     (if n = 404 then Response 404 (BErr ''Not found'')
      else if n = 401 then Response 401 (BErr ''Unauthorized'')
      else if n = 403 then Response 403 (BErr ''Forbidden'')
      else Response n (BErr ''''))"

text \<open>Flask's answer to an exception no handler catches.\<close>

definition internal_error :: response where
  "internal_error = Response 500 (BErr ''Internal Server Error'')"

definition status :: "response \<Rightarrow> nat" where
  "status r = (case r of Response n _ \<Rightarrow> n)"

end
