(* ===== verification/Views.thy ===== *)
theory Views
  imports Store Http "HOL-Library.Sublist"
begin

text \<open>
  The users views of \<open>0x02-Session_authentication/api/v1/views/users.py\<close>. Each
  handler is an operation on the store that yields the HTTP response; an exception
  that escapes a handler (a \<open>KeyError\<close> of the store, the \<open>AttributeError\<close> of
  reading an unset \<open>request.current_user\<close>) is the operation's error, which Flask
  answers with status 500 (\<open>run_view\<close>). \<open>abort(404)\<close> is the 404 response. The
  \<open>try\<close>/\<open>except Exception\<close> blocks of \<open>create_user\<close> and \<open>update_user\<close> turn
  every exception raised inside them into a 400 response carrying \<open>str(e)\<close>.
\<close>

section \<open>Helpers\<close>

text \<open>\<open>str(e)\<close> for the exceptions raised inside the \<open>try\<close> blocks.\<close>

fun py_type_name :: "jval \<Rightarrow> string" where
  "py_type_name JNull = ''NoneType''"
| "py_type_name (JBool _) = ''bool''"
| "py_type_name (JInt _) = ''int''"
| "py_type_name (JStr _) = ''str''"

definition py_quote :: "string \<Rightarrow> string" where
  "py_quote s = CHR 0x27 # s @ [CHR 0x27]"

definition no_get_msg :: "jval \<Rightarrow> string" where
  "no_get_msg v = py_quote (py_type_name v) @ '' object has no attribute '' @ py_quote ''get''"

fun error_msg :: "py_error \<Rightarrow> string" where
  "error_msg KeyError = ''KeyError''"
| "error_msg AttributeError = ''AttributeError''"
| "error_msg ValueError = ''ValueError''"
| "error_msg TypeError = ''TypeError''"

definition bad_request :: "string \<Rightarrow> response" where
  "bad_request m = Response 400 (BErr m)"

text \<open>Run a handler: an escaping exception is the 500 response.\<close>

definition run_view :: "(store, response) op \<Rightarrow> store \<Rightarrow> store \<times> response" where
  "run_view v st = (case v st of (st', Inl e) \<Rightarrow> (st', internal_error) | (st', Inr r) \<Rightarrow> (st', r))"

text \<open>
  \<open>get_user_by_id\<close>: \<open>None\<close> stands for \<open>abort(404)\<close>, raised when the id is
  \<open>None\<close> or no user has it.
\<close>

definition get_user_by_id :: "string option \<Rightarrow> (store, obj option) op" where
  "get_user_by_id uid st =
     (case uid of None \<Rightarrow> (st, Inr None) | Some i \<Rightarrow> get CUser (JStr i) st)"

section \<open>Handlers\<close>

text \<open>\<open>GET /api/v1/users\<close>.\<close>

definition view_all_users :: "(store, response) op" where
  "view_all_users = bind_op (all_objs CUser) (\<lambda>us. return_op (Response 200 (BList (map (to_json False) us))))"

text \<open>\<open>GET /api/v1/users/<user_id>\<close>, where \<open>me\<close> is the current user.\<close>

definition view_one_user :: "ctx_user \<Rightarrow> string option \<Rightarrow> (store, response) op" where
  "view_one_user cu uid =
     (if uid = Some ''me'' then
        (case cu of
           Unset \<Rightarrow> raise_op AttributeError
         | CurUser None \<Rightarrow> return_op (abort_response 404)
         | CurUser (Some u) \<Rightarrow> return_op (Response 200 (BObj (to_json False u))))
      else bind_op (get_user_by_id uid)
             (\<lambda>r. case r of None \<Rightarrow> return_op (abort_response 404)
                         | Some u \<Rightarrow> return_op (Response 200 (BObj (to_json False u)))))"

text \<open>\<open>DELETE /api/v1/users/<user_id>\<close>.\<close>

definition delete_user :: "string option \<Rightarrow> (store, response) op" where
  "delete_user uid =
     bind_op (get_user_by_id uid)
       (\<lambda>r. case r of None \<Rightarrow> return_op (abort_response 404)
                   | Some u \<Rightarrow> bind_op (remove u) (\<lambda>_. return_op (Response 200 (BObj []))))"

text \<open>
  \<open>POST /api/v1/users\<close>. The new user is built with the keyword arguments
  \<open>email\<close>, \<open>password\<close>, \<open>first_name\<close> and \<open>last_name\<close>, exactly as the code
  passes them; \<open>User.__init__\<close> reads \<open>_password\<close>, so the \<open>password\<close> argument
  is dropped. (With no JSON body \<open>request.get_json()\<close> raises or returns
  \<open>None\<close>, depending on the Flask version; both end in a 400 response, here with
  the message of the second.)
\<close>

definition create_user :: "datetime \<Rightarrow> string \<Rightarrow> jbody \<Rightarrow> (store, response) op" where
  "create_user now fresh rj st =
     (case rj of
        NoJson \<Rightarrow> (st, Inr (bad_request ''Wrong format''))
      | JsonScalar v \<Rightarrow>
          (st, Inr (bad_request (if \<not> truthy v then ''Wrong format'' else no_get_msg v)))
      | JsonObj kw \<Rightarrow>
          (if kw = [] then (st, Inr (bad_request ''Wrong format''))
           else if \<not> truthy (kw_get kw ''email'') then (st, Inr (bad_request ''email missing''))
           else if \<not> truthy (kw_get kw ''password'') then (st, Inr (bad_request ''password missing''))
           else
             (case bind_op (construct CUser
                      [(''email'', kw_get kw ''email''), (''password'', kw_get kw ''password''),
                       (''first_name'', kw_get kw ''first_name''), (''last_name'', kw_get kw ''last_name'')]
                      fresh now)
                     (save now) st of
                (st', Inl e) \<Rightarrow> (st', Inr (bad_request (error_msg e)))
              | (st', Inr u) \<Rightarrow> (st', Inr (Response 201 (BObj (to_json False u)))))))"

text \<open>
  \<open>PUT /api/v1/users/<user_id>\<close>: the lookup (and its 404) is outside the
  \<open>try\<close>; inside it, \<open>'first_name' in rj\<close> is a key test on an object, a substring
  test on a string and a \<open>TypeError\<close> on a number or boolean.
\<close>

fun set_names :: "kwargs \<Rightarrow> obj \<Rightarrow> obj" where
  "set_names kw (UserObj u) =
     UserObj (let u1 = (if map_of kw ''first_name'' \<noteq> None then u\<lparr>first_name := kw_get kw ''first_name''\<rparr> else u)
              in if map_of kw ''last_name'' \<noteq> None then u1\<lparr>last_name := kw_get kw ''last_name''\<rparr> else u1)"
| "set_names kw ob = ob"

definition update_body :: "datetime \<Rightarrow> obj \<Rightarrow> jbody \<Rightarrow> (store, response) op" where
  "update_body now u rj st =
     (case rj of
        NoJson \<Rightarrow> (st, Inr (bad_request ''Wrong format''))
      | JsonScalar v \<Rightarrow>
          (if \<not> truthy v then (st, Inr (bad_request ''Wrong format''))
           else (case v of
                   JStr s \<Rightarrow>
                     (if sublist ''first_name'' s \<or> sublist ''last_name'' s then (st, Inr (bad_request (no_get_msg v)))
                      else (case save now u st of
                              (st', Inl e) \<Rightarrow> (st', Inr (bad_request (error_msg e)))
                            | (st', Inr u') \<Rightarrow> (st', Inr (Response 200 (BObj (to_json False u'))))))
                 | _ \<Rightarrow> (st, Inr (bad_request (''argument of type '' @ py_quote (py_type_name v) @ '' is not iterable'')))))
      | JsonObj kw \<Rightarrow>
          (if kw = [] then (st, Inr (bad_request ''Wrong format''))
           else (case save now (set_names kw u) st of
                   (st', Inl e) \<Rightarrow> (st', Inr (bad_request (error_msg e)))
                 | (st', Inr u') \<Rightarrow> (st', Inr (Response 200 (BObj (to_json False u')))))))"

definition update_user :: "datetime \<Rightarrow> string option \<Rightarrow> jbody \<Rightarrow> (store, response) op" where
  "update_user now uid rj =
     bind_op (get_user_by_id uid)
       (\<lambda>r. case r of None \<Rightarrow> return_op (abort_response 404) | Some u \<Rightarrow> update_body now u rj)"

section \<open>Specification-level notions\<close>

text \<open>
  The bodies \<open>create_user\<close> accepts, and the user it then stores (with the
  password hash it really gets).
\<close>

fun create_ok :: "jbody \<Rightarrow> bool" where
  "create_ok (JsonObj kw) \<longleftrightarrow> kw \<noteq> [] \<and> truthy (kw_get kw ''email'') \<and> truthy (kw_get kw ''password'')"
| "create_ok _ \<longleftrightarrow> False"

definition new_user :: "datetime \<Rightarrow> string \<Rightarrow> kwargs \<Rightarrow> user" where
  "new_user now fresh kw = \<lparr>obj_id = JStr fresh, created_at = now, updated_at = now,
     email = kw_get kw ''email'', password = JNull, first_name = kw_get kw ''first_name'',
     last_name = kw_get kw ''last_name''\<rparr>"

section \<open>Lemmas\<close>

lemma construct_create:
  "construct CUser [(''email'', e), (''password'', p), (''first_name'', f), (''last_name'', l)] fresh now st =
   (register_class CUser st, Inr (UserObj \<lparr>obj_id = JStr fresh, created_at = now, updated_at = now,
      email = e, password = JNull, first_name = f, last_name = l\<rparr>))"
  by (simp add: construct_def user_init_def base_fields_def kw_get_def kw_get_default_def parse_datetime_def)

lemma register_class_Some: "\<exists>d. data (register_class c st) c = Some d"
  by (simp add: register_class_def)

lemma create_user_ok:
  assumes "create_ok (JsonObj kw)"
  shows "\<exists>st'. create_user now fresh (JsonObj kw) st =
     (st', Inr (Response 201 (BObj (to_json False (UserObj (new_user now fresh kw)))))) \<and>
     get CUser (JStr fresh) st' = (st', Inr (Some (UserObj (new_user now fresh kw))))"
proof -
  obtain d where d: "data (register_class CUser st) CUser = Some d" using register_class_Some by blast
  have t: "touch now (UserObj \<lparr>obj_id = JStr fresh, created_at = now, updated_at = now,
      email = kw_get kw ''email'', password = JNull, first_name = kw_get kw ''first_name'',
      last_name = kw_get kw ''last_name''\<rparr>) = UserObj (new_user now fresh kw)"
    by (simp add: new_user_def)
  show ?thesis
    using assms d by (simp add: create_user_def bind_op_def construct_create save_Some new_user_def get_def Let_def py_simps)
qed

text \<open>
  C23. \<open>POST /api/v1/users\<close> with a valid body stores the new user under the
  fresh id with no password hash (\<open>password\<close> is passed where \<open>User.__init__\<close>
  reads \<open>_password\<close>), so \<open>is_valid_password\<close> rejects every candidate for it.
\<close>

theorem create_user_password_dropped:
  assumes "create_ok (JsonObj kw)"
  shows "\<exists>st' b u. create_user now fresh (JsonObj kw) st = (st', Inr (Response 201 b)) \<and>
     get CUser (JStr fresh) st' = (st', Inr (Some (UserObj u))) \<and> password u = JNull \<and>
     (\<forall>sha p. \<not> is_valid_password sha u p)"
  using create_user_ok [OF assms, of now fresh st]
  by (auto simp: new_user_def is_valid_password_def)

lemma create_user_not_ok:
  "\<not> create_ok rj \<Longrightarrow> create_user now fresh rj st = (st, Inr (bad_request (case rj of
      JsonObj kw \<Rightarrow> if kw = [] then ''Wrong format'' else if \<not> truthy (kw_get kw ''email'') then ''email missing''
                   else ''password missing''
    | JsonScalar v \<Rightarrow> if \<not> truthy v then ''Wrong format'' else no_get_msg v
    | NoJson \<Rightarrow> ''Wrong format'')))"
  by (cases rj) (auto simp: create_user_def)

text \<open>
  C24. \<open>POST /api/v1/users\<close> answers 201 exactly when the body is a non-empty JSON
  object with a truthy \<open>email\<close> and a truthy \<open>password\<close>, and 400 otherwise.
\<close>

theorem create_user_status:
  "status (snd (run_view (create_user now fresh rj) st)) = (if create_ok rj then 201 else 400)"
proof (cases "create_ok rj")
  case True
  then obtain kw where rj: "rj = JsonObj kw" by (cases rj) auto
  with True show ?thesis
    using create_user_ok [of kw now fresh st] by (auto simp: run_view_def status_def)
next
  case False
  then show ?thesis by (simp add: create_user_not_ok run_view_def status_def bad_request_def)
qed

text \<open>
  C25. After \<open>DELETE /api/v1/users/<id>\<close> succeeds, \<open>GET /api/v1/users/<id>\<close>
  answers 404.
\<close>

theorem delete_then_not_found:
  assumes "store_inv st" "delete_user (Some i) st = (st', Inr r)" "i \<noteq> ''me''"
  shows "view_one_user cu (Some i) st' = (st', Inr (abort_response 404))"
proof (cases "data st CUser")
  case None
  with assms(2) show ?thesis by (simp add: delete_user_def get_user_by_id_def get_def bind_op_def)
next
  case (Some d)
  note dd = this
  show ?thesis
  proof (cases "map_of d (JStr i)")
    case None
    with assms dd show ?thesis
      by (simp add: delete_user_def view_one_user_def get_user_by_id_def get_def bind_op_def)
  next
    case (Some ob)
    have ob: "oid ob = JStr i" "class_of ob = CUser"
      using store_inv_lookup [OF assms(1) dd Some] by auto
    obtain st1 x where rm: "remove ob st = (st1, x)" by (cases "remove ob st") blast
    have "x = Inr () \<and> st' = st1"
      using assms(2) dd Some rm by (cases x) (auto simp: delete_user_def get_user_by_id_def get_def bind_op_def)
    then have "get CUser (JStr i) st' = (st', Inr None)"
      using remove_get_None [of ob st st1 "()"] rm ob by simp
    then show ?thesis using assms(3)
      by (simp add: view_one_user_def get_user_by_id_def bind_op_def)
  qed
qed

lemma class_of_CUser: "class_of ob = CUser \<longleftrightarrow> (\<exists>u. ob = UserObj u)"
  by (cases ob) auto

lemma set_names_user:
  "set_names kw (UserObj u) = UserObj (u\<lparr>first_name := (if map_of kw ''first_name'' \<noteq> None then kw_get kw ''first_name'' else first_name u),
      last_name := (if map_of kw ''last_name'' \<noteq> None then kw_get kw ''last_name'' else last_name u)\<rparr>)"
  by (simp add: Let_def)

text \<open>
  C26. A successful \<open>PUT /api/v1/users/<id>\<close> with a JSON object changes exactly
  the names given in the body and \<open>updated_at\<close>; id, creation time, email and
  password hash stay as they were.
\<close>

theorem update_user_frame:
  assumes "store_inv st" "update_user now (Some i) (JsonObj kw) st = (st', Inr (Response 200 b))"
  shows "\<exists>u u'. get CUser (JStr i) st = (st, Inr (Some (UserObj u))) \<and>
    get CUser (JStr i) st' = (st', Inr (Some (UserObj u'))) \<and>
    u' = u\<lparr>updated_at := now,
      first_name := (if map_of kw ''first_name'' \<noteq> None then kw_get kw ''first_name'' else first_name u),
      last_name := (if map_of kw ''last_name'' \<noteq> None then kw_get kw ''last_name'' else last_name u)\<rparr>"
proof -
  obtain d where d: "data st CUser = Some d"
    using assms(2) by (cases "data st CUser") (auto simp: update_user_def get_user_by_id_def get_def bind_op_def)
  obtain ob where ob: "map_of d (JStr i) = Some ob"
    using assms(2) d by (cases "map_of d (JStr i)") (auto simp: update_user_def get_user_by_id_def get_def bind_op_def)
  obtain u where u: "ob = UserObj u" "obj_id u = JStr i"
    using store_inv_lookup [OF assms(1) d ob] class_of_CUser by fastforce
  have kw: "kw \<noteq> []"
    using assms(2) d ob by (auto simp: update_user_def update_body_def get_user_by_id_def get_def bind_op_def
        bad_request_def)
  have sv: "save now (set_names kw ob) st = (fst (save now (set_names kw ob) st), Inr (touch now (set_names kw ob)))"
    using d u by (simp add: save_Some Let_def set_names_user)
  have st': "st' = fst (save now (set_names kw ob) st)"
    using assms(2) d ob kw sv by (auto simp: update_user_def update_body_def get_user_by_id_def get_def bind_op_def
        split: prod.splits)
  show ?thesis
    using d ob u st' by (auto simp: get_def save_Some Let_def set_names_user py_simps)
qed

end
