(* ===== verification/Base64.thy ===== *)
theory Base64
  imports Prelude
begin

text \<open>
  Standard base64 (RFC 4648 alphabet, \<open>=\<close> padding) on byte strings, the
  \<open>base64.b64encode\<close>/\<open>b64decode\<close> pair the basic-credential strategy uses
  to read an \<open>Authorization: Basic ...\<close> header. A string is a list of
  characters with codes below 256 (every \<open>char\<close> is a byte). Decoding is
  strict: a length that is not a multiple of four, a character outside the
  alphabet, or padding anywhere but at the end gives \<open>None\<close>, which is what
  the strategy turns into "no identity". The round trip
  \<open>b64decode (b64encode s) = Some s\<close> holds for every string.
\<close>

section \<open>Alphabet and 24-bit groups\<close>

definition b64_char :: "nat \<Rightarrow> char" where
  "b64_char n =
     (if n < 26 then char_of (n + 65) else if n < 52 then char_of (n + 71)
      else if n < 62 then char_of (n - 4) else if n = 62 then CHR ''+'' else CHR ''/'')"

definition b64_val :: "char \<Rightarrow> nat option" where
  "b64_val c =
     (let n = (of_char c :: nat) in
      if 65 \<le> n \<and> n \<le> 90 then Some (n - 65) else if 97 \<le> n \<and> n \<le> 122 then Some (n - 71)
      else if 48 \<le> n \<and> n \<le> 57 then Some (n + 4) else if n = 43 then Some 62
      else if n = 47 then Some 63 else None)"

definition sextets :: "nat \<Rightarrow> nat list" where
  "sextets x = [x div 262144, x div 4096 mod 64, x div 64 mod 64, x mod 64]"

fun b64encode :: "string \<Rightarrow> string" where
  "b64encode (a # b # c # rest) =
     map b64_char (sextets (of_char a * 65536 + of_char b * 256 + of_char c)) @ b64encode rest"
| "b64encode [a, b] = take 3 (map b64_char (sextets (of_char a * 65536 + of_char b * 256))) @ ''=''"
| "b64encode [a] = take 2 (map b64_char (sextets (of_char a * 65536))) @ ''==''"
| "b64encode [] = []"

definition join24 :: "nat \<Rightarrow> nat \<Rightarrow> nat \<Rightarrow> nat \<Rightarrow> nat" where
  "join24 a b c d = a * 262144 + b * 4096 + c * 64 + d"

fun b64decode :: "string \<Rightarrow> string option" where
  "b64decode [] = Some []"
| "b64decode (w # x # y # z # rest) =
     (case (b64_val w, b64_val x) of
        (Some a, Some b) \<Rightarrow>
          (if y = CHR ''='' \<and> z = CHR ''='' \<and> rest = [] then Some [char_of (join24 a b 0 0 div 65536)]
           else if z = CHR ''='' \<and> rest = [] then
             (case b64_val y of
                Some c \<Rightarrow> Some [char_of (join24 a b c 0 div 65536), char_of (join24 a b c 0 div 256 mod 256)]
              | None \<Rightarrow> None)
           else
             (case (b64_val y, b64_val z) of
                (Some c, Some d) \<Rightarrow>
                  map_option (\<lambda>r. [char_of (join24 a b c d div 65536), char_of (join24 a b c d div 256 mod 256),
                                     char_of (join24 a b c d mod 256)] @ r) (b64decode rest)
              | _ \<Rightarrow> None))
      | _ \<Rightarrow> None)"
| "b64decode _ = None"

section \<open>Lemmas\<close>

lemma b64_val_char: "n < 64 \<Longrightarrow> b64_val (b64_char n) = Some n"
  by (auto simp: b64_val_def b64_char_def Let_def)

lemma b64_char_ne_pad: "n < 64 \<Longrightarrow> b64_char n \<noteq> CHR ''=''"
  using b64_val_char [of n] by (auto simp: b64_val_def Let_def)

lemma join24_sextets: "join24 (x div 262144) (x div 4096 mod 64) (x div 64 mod 64) (x mod 64) = x"
proof -
  have a: "x div 4096 = x div 262144 * 64 + x div 4096 mod 64"
    using div_mult_mod_eq [of "x div 4096" 64] by (simp add: div_mult2_eq [symmetric])
  have b: "x div 64 = x div 4096 * 64 + x div 64 mod 64"
    using div_mult_mod_eq [of "x div 64" 64] by (simp add: div_mult2_eq [symmetric])
  have c: "x = x div 64 * 64 + x mod 64"
    by simp
  show ?thesis
    unfolding join24_def using a b c by linarith
qed

lemma bytes3:
  assumes "a < 256" "b < 256" "c < 256"
  shows "(a * 65536 + b * 256 + c) div 65536 = a \<and> (a * 65536 + b * 256 + c) div 256 mod 256 = b \<and>
         (a * 65536 + b * 256 + c) mod 256 = (c::nat)"
proof -
  have r: "b * 256 + c < 65536" using assms by linarith
  have 1: "(a * 65536 + b * 256 + c) div 65536 = a"
    using r by (simp add: add.assoc)
  have 2: "(a * 65536 + b * 256 + c) div 256 = a * 256 + b"
    using assms by simp
  have e: "a * 65536 + b * 256 + c = c + (a * 256 + b) * 256" by simp
  have 3: "(a * 65536 + b * 256 + c) mod 256 = c"
    unfolding e using assms mod_mult_self1 [of c "a * 256 + b" 256] by simp
  show ?thesis using 1 2 3 assms by simp
qed

lemma sextets_lt:
  assumes "x < (16777216::nat)"
  shows "x div 262144 < 64" "x div 4096 mod 64 < 64" "x div 64 mod 64 < 64" "x mod 64 < 64"
  using assms by (simp_all add: less_mult_imp_div_less)

lemma b64_val_digits:
  assumes "x < (16777216::nat)"
  shows "b64_val (b64_char (x div 262144)) = Some (x div 262144)"
    "b64_val (b64_char (x div 4096 mod 64)) = Some (x div 4096 mod 64)"
    "b64_val (b64_char (x div 64 mod 64)) = Some (x div 64 mod 64)"
    "b64_val (b64_char (x mod 64)) = Some (x mod 64)"
  using sextets_lt [OF assms] by (simp_all add: b64_val_char)

lemma b64_char_pad_digits:
  assumes "x < (16777216::nat)"
  shows "b64_char (x div 64 mod 64) \<noteq> CHR ''=''" "b64_char (x mod 64) \<noteq> CHR ''=''"
  using sextets_lt [OF assms] by (simp_all add: b64_char_ne_pad)

lemma bytes_lt: "of_char a * 65536 + of_char b * 256 + of_char c < (16777216::nat)"
proof -
  have "of_char a < (256::nat)" "of_char b < (256::nat)" "of_char c < (256::nat)"
    by (rule nat_of_char_less_256)+
  then show ?thesis by linarith
qed

lemma bytes_chars:
  "char_of ((of_char a * 65536 + of_char b * 256 + of_char c) div (65536::nat)) = a"
  "char_of ((of_char a * 65536 + of_char b * 256 + of_char c) div (256::nat) mod 256) = b"
  "char_of ((of_char a * 65536 + of_char b * 256 + of_char c) mod (256::nat)) = c"
  using bytes3 [OF nat_of_char_less_256 nat_of_char_less_256 nat_of_char_less_256, of a b c]
  by (simp_all add: char_of_char)

lemma b64_roundtrip: "b64decode (b64encode s) = Some s"
proof (induction s rule: b64encode.induct)
  case (1 a b c rest)
  define x :: nat where "x = of_char a * 65536 + of_char b * 256 + of_char c"
  have x: "x < 16777216" unfolding x_def by (rule bytes_lt)
  have e: "b64encode (a # b # c # rest) =
     b64_char (x div 262144) # b64_char (x div 4096 mod 64) # b64_char (x div 64 mod 64) #
     b64_char (x mod 64) # b64encode rest"
    by (simp add: x_def sextets_def)
  have "char_of (x div 65536) = a" "char_of (x div 256 mod 256) = b" "char_of (x mod 256) = c"
    unfolding x_def by (rule bytes_chars)+
  then show ?case
    unfolding e using b64_val_digits [OF x] b64_char_pad_digits [OF x] 1
    by (simp add: join24_sextets)
next
  case (2 a b)
  define x :: nat where "x = of_char a * 65536 + of_char b * 256 + of_char CHR 0x00"
  have x: "x < 16777216" unfolding x_def by (rule bytes_lt)
  have m: "x mod 64 = 0" unfolding x_def by simp
  have e: "b64encode [a, b] =
     [b64_char (x div 262144), b64_char (x div 4096 mod 64), b64_char (x div 64 mod 64), CHR ''='']"
    by (simp add: x_def sextets_def)
  have j: "join24 (x div 262144) (x div 4096 mod 64) (x div 64 mod 64) 0 = x"
    using join24_sextets [of x] m by simp
  have "char_of (x div 65536) = a" "char_of (x div 256 mod 256) = b"
    unfolding x_def by (rule bytes_chars)+
  then show ?case
    unfolding e using b64_val_digits [OF x] b64_char_pad_digits [OF x] j by simp
next
  case (3 a)
  define x :: nat where "x = of_char a * 65536 + of_char CHR 0x00 * 256 + of_char CHR 0x00"
  have x: "x < 16777216" unfolding x_def by (rule bytes_lt)
  have m: "x mod 64 = 0" "x div 64 mod 64 = 0" unfolding x_def by simp_all
  have e: "b64encode [a] = [b64_char (x div 262144), b64_char (x div 4096 mod 64), CHR ''='', CHR ''='']"
    by (simp add: x_def sextets_def)
  have j: "join24 (x div 262144) (x div 4096 mod 64) 0 0 = x"
    using join24_sextets [of x] m by simp
  have "char_of (x div 65536) = a"
    unfolding x_def by (rule bytes_chars)
  then show ?case
    unfolding e using b64_val_digits [OF x] j by simp
qed simp

end
