(* ===== verification/Auth.thy ===== *)
theory Auth
  imports Store Http Base64 "HOL-Library.Sublist"
begin

text \<open>
  The authentication strategies of \<open>0x02-Session_authentication/api/v1/auth\<close>:
  the base \<open>Auth\<close> class (the no-op strategy), \<open>BasicAuth\<close>, \<open>SessionAuth\<close>,
  \<open>SessionExpAuth\<close> and \<open>SessionDBAuth\<close>. Their sources are not part of the
  repository snapshot, so these definitions follow the contract of the
  specification (section 4.3) and the method names the application calls
  (\<open>require_auth\<close>, \<open>authorization_header\<close>, \<open>session_cookie\<close>,
  \<open>current_user\<close>, \<open>create_session\<close>, \<open>user_id_for_session_id\<close>,
  \<open>destroy_session\<close>). The process state they share is the object store and the
  class-level dictionary \<open>user_id_by_session_id\<close>; a stateful method is an
  operation of the store monad over \<open>auth_state\<close>. The clock \<open>now\<close>, the
  fresh \<open>uuid4\<close> strings and the digest \<open>sha\<close> are parameters.
\<close>

section \<open>Time arithmetic\<close>

text \<open>
  \<open>date.toordinal\<close> and the instant of a \<open>datetime\<close> in microseconds, so that
  \<open>created_at + timedelta(seconds=duration) < now\<close> is a comparison of
  integers.
\<close>

definition ordinal :: "datetime \<Rightarrow> nat" where
  "ordinal d =
     (let y = dt_year d - 1 in
      y * 365 + y div 4 - y div 100 + y div 400 +
      sum_list (map (days_in_month (dt_year d)) [1..<dt_month d]) + dt_day d)"

definition dt_micro :: "datetime \<Rightarrow> nat" where
  "dt_micro d =
     (((ordinal d * 24 + dt_hour d) * 60 + dt_minute d) * 60 + dt_second d) * 1000000 + dt_microsecond d"

definition expired :: "int \<Rightarrow> datetime \<Rightarrow> datetime \<Rightarrow> bool" where
  "expired dur c now \<longleftrightarrow> int (dt_micro c) + dur * 1000000 < int (dt_micro now)"

section \<open>Strategies and their state\<close>

text \<open>
  The configured strategy; the expiring ones carry \<open>SESSION_DURATION\<close> (an
  \<open>int\<close>, 0 when the variable is missing or not a number, and then sessions
  never expire).
\<close>

datatype auth_kind = AuthBase | BasicAuth | SessionAuth | SessionExpAuth int | SessionDBAuth int

record auth_cfg =
  kind :: auth_kind
  cookie_name :: string

text \<open>
  A value of \<open>user_id_by_session_id\<close>: \<open>SessionAuth\<close> stores the user id,
  \<open>SessionExpAuth\<close> a dictionary \<open>{"user_id": ..., "created_at": ...}\<close>.
\<close>

datatype sess_val = SPlain jval | SDict jval datetime

record auth_state =
  ast_store :: store
  ast_sessions :: "(string, sess_val) pydict"

definition on_store :: "(store, 'a) op \<Rightarrow> (auth_state, 'a) op" where
  "on_store f s = (case f (ast_store s) of (st', r) \<Rightarrow> (s\<lparr>ast_store := st'\<rparr>, r))"

section \<open>Request inspection\<close>

text \<open>
  \<open>require_auth\<close>: the base strategy never requires authentication; the others
  do unless the path equals an excluded entry or starts with the part of a
  wildcard entry before its final \<open>*\<close>.
\<close>

definition path_excluded :: "string \<Rightarrow> string list \<Rightarrow> bool" where
  "path_excluded p ex \<longleftrightarrow>
     list_ex (\<lambda>e. e = p \<or> (e \<noteq> [] \<and> last e = CHR ''*'' \<and> prefix (butlast e) p)) ex"

definition require_auth :: "auth_kind \<Rightarrow> string \<Rightarrow> string list \<Rightarrow> bool" where
  "require_auth k p ex = (case k of AuthBase \<Rightarrow> False | _ \<Rightarrow> \<not> path_excluded p ex)"

text \<open>\<open>request.headers.get("Authorization")\<close>: header names are case-insensitive.\<close>

definition authorization_header :: "request \<Rightarrow> string option" where
  "authorization_header rq = map_of (map (\<lambda>(k, v). (py_lower k, v)) (rq_headers rq)) ''authorization''"

definition session_cookie :: "auth_cfg \<Rightarrow> request \<Rightarrow> string option" where
  "session_cookie cfg rq = map_of (rq_cookies rq) (cookie_name cfg)"

text \<open>Python's truth value of an optional string.\<close>

definition truthy_str :: "string option \<Rightarrow> bool" where
  "truthy_str v \<longleftrightarrow> (case v of Some s \<Rightarrow> s \<noteq> [] | None \<Rightarrow> False)"

section \<open>Basic credentials\<close>

definition extract_base64_authorization_header :: "string option \<Rightarrow> string option" where
  "extract_base64_authorization_header h =
     (case h of Some s \<Rightarrow> if take 6 s = ''Basic '' then Some (drop 6 s) else None | None \<Rightarrow> None)"

text \<open>
  \<open>base64.b64decode(...).decode("utf-8")\<close>; a byte string with a byte above 127
  is treated as undecodable (multi-byte UTF-8 is not modelled).
\<close>

definition decode_base64_authorization_header :: "string option \<Rightarrow> string option" where
  "decode_base64_authorization_header b =
     (case b of
        None \<Rightarrow> None
      | Some s \<Rightarrow> (case b64decode s of
                   None \<Rightarrow> None
                 | Some bs \<Rightarrow> if list_all (\<lambda>c. of_char c < (128::nat)) bs then Some bs else None))"

text \<open>\<open>decoded.split(":", 1)\<close> when the string holds a colon.\<close>

definition extract_user_credentials :: "string option \<Rightarrow> (string \<times> string) option" where
  "extract_user_credentials d =
     (case d of
        None \<Rightarrow> None
      | Some s \<Rightarrow> if CHR '':'' \<in> set s then Some (takeWhile (\<lambda>c. c \<noteq> CHR '':'') s,
                                              tl (dropWhile (\<lambda>c. c \<noteq> CHR '':'') s))
                 else None)"

text \<open>
  \<open>user_object_from_credentials\<close>: \<open>User.search({"email": email})\<close> (a
  failing search is no user), then the first match if its password is valid.
\<close>

definition user_object_from_credentials ::
    "(string \<Rightarrow> string) \<Rightarrow> (string \<times> string) option \<Rightarrow> store \<Rightarrow> obj option" where
  "user_object_from_credentials sha cr st =
     (case cr of
        None \<Rightarrow> None
      | Some (em, pw) \<Rightarrow>
          (case snd (search CUser [(''email'', AJ (JStr em))] st) of
             Inr (UserObj u # _) \<Rightarrow> if is_valid_password sha u (JStr pw) then Some (UserObj u) else None
           | _ \<Rightarrow> None))"

text \<open>The credentials of a request: header, \<open>Basic \<close> payload, decoding, split.\<close>

definition request_credentials :: "request \<Rightarrow> (string \<times> string) option" where
  "request_credentials rq =
     extract_user_credentials (decode_base64_authorization_header
       (extract_base64_authorization_header (authorization_header rq)))"

definition basic_current_user :: "(string \<Rightarrow> string) \<Rightarrow> request \<Rightarrow> store \<Rightarrow> obj option" where
  "basic_current_user sha rq st = user_object_from_credentials sha (request_credentials rq) st"

section \<open>Sessions\<close>

text \<open>The search criteria \<open>{"session_id": session_id}\<close> of \<open>SessionDBAuth\<close>.\<close>

definition sid_query :: "string \<Rightarrow> (string, attr) pydict" where
  "sid_query i = [(''session_id'', AJ (JStr i))]"

text \<open>
  \<open>user_id_for_session_id\<close> of each session strategy. \<open>SessionExpAuth\<close>: a
  session is valid while \<open>created_at + duration \<ge> now\<close> (the boundary is
  inclusive) and forever when the duration is not positive. \<open>SessionDBAuth\<close>:
  the first \<open>UserSession\<close> with that \<open>session_id\<close>, with the same expiry on its
  \<open>created_at\<close>.
\<close>

definition user_id_for_session_id :: "auth_kind \<Rightarrow> datetime \<Rightarrow> string option \<Rightarrow> auth_state \<Rightarrow> jval option" where
  "user_id_for_session_id k now sid s =
     (case sid of
        None \<Rightarrow> None
      | Some i \<Rightarrow>
          (case k of
             SessionAuth \<Rightarrow> (case map_of (ast_sessions s) i of Some (SPlain u) \<Rightarrow> Some u | _ \<Rightarrow> None)
           | SessionExpAuth dur \<Rightarrow>
               (case map_of (ast_sessions s) i of
                  Some (SDict u c) \<Rightarrow> if dur \<le> 0 then Some u else if expired dur c now then None else Some u
                | _ \<Rightarrow> None)
           | SessionDBAuth dur \<Rightarrow>
               (case snd (search CUserSession (sid_query i) (ast_store s)) of
                  Inr (SessionObj us # _) \<Rightarrow>
                    if dur \<le> 0 then Some (user_id us) else if expired dur (created_at us) now then None
                    else Some (user_id us)
                | _ \<Rightarrow> None)
           | _ \<Rightarrow> None))"

text \<open>
  \<open>current_user\<close>: \<open>User.get\<close> of the session's user id (\<open>None\<close> when there is
  none), whose \<open>KeyError\<close> on an unregistered class propagates.
\<close>

definition current_user :: "auth_cfg \<Rightarrow> (string \<Rightarrow> string) \<Rightarrow> datetime \<Rightarrow> request \<Rightarrow> auth_state \<Rightarrow> py_error + obj option" where
  "current_user cfg sha now rq s =
     (case kind cfg of
        AuthBase \<Rightarrow> Inr None
      | BasicAuth \<Rightarrow> Inr (basic_current_user sha rq (ast_store s))
      | k \<Rightarrow> snd (get CUser (case user_id_for_session_id k now (session_cookie cfg rq) s of
                                 Some u \<Rightarrow> u | None \<Rightarrow> JNull) (ast_store s)))"

text \<open>
  \<open>create_session(user_id)\<close> with the fresh token \<open>sid\<close>: nothing unless the user
  id is a string; \<open>SessionExpAuth\<close> overwrites the entry with its dictionary;
  \<open>SessionDBAuth\<close> also saves a \<open>UserSession\<close> (whose id is \<open>fresh\<close>).
\<close>

definition create_session :: "auth_kind \<Rightarrow> string \<Rightarrow> string \<Rightarrow> datetime \<Rightarrow> jval \<Rightarrow> (auth_state, string option) op" where
  "create_session k sid fresh now u s =
     (if \<not> is_str u then (s, Inr None)
      else
        let s1 = s\<lparr>ast_sessions := AList.update sid (SPlain u) (ast_sessions s)\<rparr> in
        case k of
          SessionAuth \<Rightarrow> (s1, Inr (Some sid))
        | SessionExpAuth _ \<Rightarrow> (s1\<lparr>ast_sessions := AList.update sid (SDict u now) (ast_sessions s1)\<rparr>, Inr (Some sid))
        | SessionDBAuth _ \<Rightarrow>
            let s2 = s1\<lparr>ast_sessions := AList.update sid (SDict u now) (ast_sessions s1)\<rparr> in
            bind_op (on_store (construct CUserSession [(''user_id'', u), (''session_id'', JStr sid)] fresh now))
              (\<lambda>ob. bind_op (on_store (save now ob)) (\<lambda>_. return_op (Some sid))) s2
        | _ \<Rightarrow> (s, Inr None))"

text \<open>
  \<open>destroy_session(request)\<close>: \<open>SessionAuth\<close> and \<open>SessionExpAuth\<close> delete the
  entry of a cookie that still resolves to a user id; \<open>SessionDBAuth\<close> removes
  the first \<open>UserSession\<close> carrying the cookie's session id.
\<close>

definition destroy_session :: "auth_cfg \<Rightarrow> datetime \<Rightarrow> request \<Rightarrow> (auth_state, bool) op" where
  "destroy_session cfg now rq s =
     (case session_cookie cfg rq of
        None \<Rightarrow> (s, Inr False)
      | Some i \<Rightarrow>
          (case kind cfg of
             SessionDBAuth _ \<Rightarrow>
               (case snd (search CUserSession (sid_query i) (ast_store s)) of
                  Inr (ob # _) \<Rightarrow> bind_op (on_store (remove ob)) (\<lambda>_. return_op True) s
                | _ \<Rightarrow> (s, Inr False))
           | k \<Rightarrow>
               (if user_id_for_session_id k now (Some i) s = None then (s, Inr False)
                else (s\<lparr>ast_sessions := AList.delete i (ast_sessions s)\<rparr>, Inr True))))"

section \<open>Runs of the application state\<close>

text \<open>
  The shape of the entries the configured strategy writes into
  \<open>user_id_by_session_id\<close>: plain user ids for \<open>SessionAuth\<close>, dictionaries
  for the expiring strategies, none for the others.
\<close>

fun sess_ok :: "auth_kind \<Rightarrow> sess_val \<Rightarrow> bool" where
  "sess_ok SessionAuth (SPlain _) = True"
| "sess_ok (SessionExpAuth _) (SDict _ _) = True"
| "sess_ok (SessionDBAuth _) (SDict _ _) = True"
| "sess_ok _ _ = False"

definition sessions_shape :: "auth_kind \<Rightarrow> (string, sess_val) pydict \<Rightarrow> bool" where
  "sessions_shape k sess \<longleftrightarrow> list_all (\<lambda>(_, v). sess_ok k v) sess"

text \<open>
  One step of the process under a fixed configuration: a store operation
  (\<open>store_step\<close>, which the views are sequences of), a login that creates a
  session, or a logout that destroys one. A run starts with an empty
  \<open>DATA\<close>, files that satisfy \<open>files_inv\<close>, and no sessions.
\<close>

inductive app_step :: "auth_cfg \<Rightarrow> auth_state \<Rightarrow> auth_state \<Rightarrow> bool" for cfg where
  app_store: "store_step (ast_store s) st' \<Longrightarrow> app_step cfg s (s\<lparr>ast_store := st'\<rparr>)"
| app_login: "create_session (kind cfg) sid fresh now u s = (s', r) \<Longrightarrow> app_step cfg s s'"
| app_logout: "destroy_session cfg now rq s = (s', r) \<Longrightarrow> app_step cfg s s'"

inductive app_reachable :: "auth_cfg \<Rightarrow> auth_state \<Rightarrow> bool" for cfg where
  app_init: "data st = Map.empty \<Longrightarrow> files_inv st \<Longrightarrow> app_reachable cfg \<lparr>ast_store = st, ast_sessions = []\<rparr>"
| app_next: "app_reachable cfg s \<Longrightarrow> app_step cfg s s' \<Longrightarrow> app_reachable cfg s'"

section \<open>Lemmas\<close>

lemma construct_session:
  "construct CUserSession [(''user_id'', u), (''session_id'', JStr sid)] fresh now st =
     (register_class CUserSession st,
      Inr (SessionObj \<lparr>obj_id = JStr fresh, created_at = now, updated_at = now, user_id = u, session_id = JStr sid\<rparr>))"
  by (simp add: construct_def session_init_def base_fields_def parse_datetime_def kw_get_def kw_get_default_def)

lemma create_session_mem:
  assumes "is_str u" "\<forall>d. k \<noteq> SessionDBAuth d"
    "k = SessionAuth \<or> (\<exists>d. k = SessionExpAuth d)"
  shows "create_session k sid fresh now u s =
     (s\<lparr>ast_sessions := AList.update sid (case k of SessionAuth \<Rightarrow> SPlain u | _ \<Rightarrow> SDict u now) (ast_sessions s)\<rparr>,
      Inr (Some sid))"
  using assms by (auto simp: create_session_def update_conv')

text \<open>
  C12. \<open>create_session\<close> of \<open>SessionAuth\<close> and
  \<open>SessionExpAuth\<close> returns the fresh token for a string user id, and the
  token then resolves to that user id (for the expiring strategy while not expired).
\<close>

theorem session_create_lookup:
  assumes "is_str u" "k = SessionAuth \<or> (k = SessionExpAuth dur \<and> (dur \<le> 0 \<or> \<not> expired dur now now'))"
    "create_session k sid fresh now u s = (s1, r)"
  shows "r = Inr (Some sid) \<and> user_id_for_session_id k now' (Some sid) s1 = Some u \<and> ast_store s1 = ast_store s"
  using assms create_session_mem [of u k sid fresh now s]
  by (auto simp: user_id_for_session_id_def update_conv')

lemma destroy_session_mem:
  assumes "\<forall>d. kind cfg \<noteq> SessionDBAuth d" "session_cookie cfg rq = Some sid"
    "user_id_for_session_id (kind cfg) now (Some sid) s \<noteq> None"
  shows "destroy_session cfg now rq s = (s\<lparr>ast_sessions := AList.delete sid (ast_sessions s)\<rparr>, Inr True)"
  using assms by (cases "kind cfg") (auto simp: destroy_session_def)

text \<open>
  C13. \<open>destroy_session\<close> of the in-memory strategies, on a cookie that
  resolves, returns True, makes the token resolve to nothing, and leaves every other
  session entry and the store unchanged.
\<close>

theorem session_destroy:
  assumes "\<forall>d. kind cfg \<noteq> SessionDBAuth d" "session_cookie cfg rq = Some sid"
    "user_id_for_session_id (kind cfg) now (Some sid) s \<noteq> None"
    "destroy_session cfg now rq s = (s', r)"
  shows "r = Inr True \<and> user_id_for_session_id (kind cfg) now' (Some sid) s' = None \<and>
    (\<forall>i. i \<noteq> sid \<longrightarrow> map_of (ast_sessions s') i = map_of (ast_sessions s) i) \<and> ast_store s' = ast_store s"
  using destroy_session_mem [OF assms(1-3)] assms
  by (cases "kind cfg") (auto simp: user_id_for_session_id_def delete_conv')

lemma session_exp_boundary:
  assumes "0 < dur" "map_of (ast_sessions s) sid = Some (SDict u c)"
  shows "user_id_for_session_id (SessionExpAuth dur) now (Some sid) s =
    (if int (dt_micro now) \<le> int (dt_micro c) + dur * 1000000 then Some u else None)"
  using assms by (auto simp: user_id_for_session_id_def expired_def)

lemma session_has_sid: "class_of ob = CUserSession \<Longrightarrow> has_attrs (sid_query i) ob"
  by (cases ob) (simp_all add: has_attrs_def sid_query_def getattr_obj_def)

lemma store_sessions_have_sid:
  assumes "store_inv st" "data st CUserSession = Some d"
  shows "list_all (has_attrs (sid_query i)) (map snd d)"
  using assms session_has_sid by (fastforce simp: store_inv_def data_inv_def list_all_iff)

text \<open>
  C16. \<open>create_session\<close> of \<open>SessionDBAuth\<close> with a token not
  yet used saves a \<open>UserSession\<close>, keeps the store invariant, returns the
  token, and the token then resolves to the user id while not expired.
\<close>

theorem session_db_create_lookup:
  assumes "store_inv (ast_store s)" "is_str u"
    "\<forall>d. data (ast_store s) CUserSession = Some d \<longrightarrow> (\<forall>x\<in>snd ` set d. \<not> matches (sid_query sid) x)"
    "dur \<le> 0 \<or> \<not> expired dur now now'"
    "create_session (SessionDBAuth dur) sid fresh now u s = (s1, r)"
  shows "r = Inr (Some sid) \<and> user_id_for_session_id (SessionDBAuth dur) now' (Some sid) s1 = Some u \<and>
    store_inv (ast_store s1)"
proof -
  let ?kw = "[(''user_id'', u), (''session_id'', JStr sid)]"
  define us :: user_session where
    "us = \<lparr>obj_id = JStr fresh, created_at = now, updated_at = now, user_id = u, session_id = JStr sid\<rparr>"
  define ob where "ob = SessionObj us"
  define st0 where "st0 = register_class CUserSession (ast_store s)"
  obtain d where d: "data st0 CUserSession = Some d" using data_register_Some unfolding st0_def by blast
  have c: "construct CUserSession ?kw fresh now (ast_store s) = (st0, Inr ob)"
    by (simp add: construct_session st0_def ob_def us_def)
  have inv0: "store_inv st0" using construct_store_inv [OF c assms(1)] .
  define d' where "d' = AList.update (JStr fresh) (touch now ob) d"
  define st1 where "st1 = st0\<lparr>data := (data st0)(CUserSession \<mapsto> d'), files := (files st0)(db_path CUserSession \<mapsto> serialize d')\<rparr>"
  have sv: "save now ob st0 = (st1, Inr (touch now ob))"
    using save_Some [of st0 ob d now] d by (simp add: ob_def us_def st1_def d'_def Let_def)
  have inv1: "store_inv st1" using save_store_inv [OF sv inv0] by (simp add: ob_def us_def)
  have run: "create_session (SessionDBAuth dur) sid fresh now u s =
      (s\<lparr>ast_sessions := AList.update sid (SDict u now) (AList.update sid (SPlain u) (ast_sessions s)), ast_store := st1\<rparr>,
       Inr (Some sid))"
    using assms(2) c sv by (simp add: create_session_def bind_op_def on_store_def)
  have nm: "\<forall>x\<in>snd ` set d. \<not> matches (sid_query sid) x"
    using assms(3) d by (auto simp: st0_def register_class_def split: if_splits)
  have m: "matches (sid_query sid) (touch now ob)"
    by (simp add: ob_def us_def matches_def sid_query_def getattr_obj_def)
  have dd: "data st1 CUserSession = Some d'" by (simp add: st1_def)
  have "search CUserSession (sid_query sid) st1 = (st1, Inr [touch now ob])"
    using search_filter [OF dd store_sessions_have_sid [OF inv1 dd]] filter_update_unique [OF nm] m
    by (simp add: d'_def)
  then show ?thesis
    using run assms(4,5) inv1 by (auto simp: user_id_for_session_id_def ob_def us_def)
qed

text \<open>
  C17. \<open>destroy_session\<close> of \<open>SessionDBAuth\<close>, when exactly one
  stored \<open>UserSession\<close> carries the cookie's token, removes it: it returns
  True, the token no longer resolves, and the store invariant holds.
\<close>

theorem session_db_destroy:
  assumes "store_inv (ast_store s)" "kind cfg = SessionDBAuth dur" "session_cookie cfg rq = Some sid"
    "data (ast_store s) CUserSession = Some d" "filter (matches (sid_query sid)) (map snd d) = [ob]"
    "destroy_session cfg now rq s = (s', r)"
  shows "r = Inr True \<and> user_id_for_session_id (SessionDBAuth dur) now' (Some sid) s' = None \<and>
    store_inv (ast_store s') \<and> ast_sessions s' = ast_sessions s"
proof -
  let ?st = "ast_store s"
  have se: "search CUserSession (sid_query sid) ?st = (?st, Inr [ob])"
    using search_filter [OF assms(4) store_sessions_have_sid [OF assms(1,4)]] assms(5) by simp
  have "ob \<in> snd ` set d"
  proof -
    have "ob \<in> set (filter (matches (sid_query sid)) (map snd d))" using assms(5) by simp
    then show ?thesis by auto
  qed
  then have mo: "map_of d (oid ob) = Some ob" "class_of ob = CUserSession"
    using store_inv_mem [OF assms(1,4)] by auto
  define d' where "d' = AList.delete (oid ob) d"
  define st' where "st' = ?st\<lparr>data := (data ?st)(CUserSession \<mapsto> d'), files := (files ?st)(db_path CUserSession \<mapsto> serialize d')\<rparr>"
  have rm: "remove ob ?st = (st', Inr ())"
    using remove_Some [of ?st ob d] assms(4) mo by (simp add: st'_def d'_def Let_def)
  have run: "destroy_session cfg now rq s = (s\<lparr>ast_store := st'\<rparr>, Inr True)"
    using assms(2,3) se rm by (simp add: destroy_session_def bind_op_def on_store_def)
  have inv': "store_inv st'" using remove_store_inv [OF rm assms(1)] .
  have uniq: "\<forall>(k', x)\<in>set d. matches (sid_query sid) x \<longrightarrow> k' = oid ob"
  proof (intro ballI impI, clarify)
    fix k' x assume kx: "(k', x) \<in> set d" and mx: "matches (sid_query sid) x"
    then have "x \<in> set (filter (matches (sid_query sid)) (map snd d))" by force
    then have "x = ob" using assms(5) by simp
    moreover have "oid x = k'" using kx assms(1,4) by (auto simp: store_inv_def data_inv_def)
    ultimately show "k' = oid ob" by simp
  qed
  have dd: "data st' CUserSession = Some d'" by (simp add: st'_def)
  have "search CUserSession (sid_query sid) st' = (st', Inr [])"
    using search_filter [OF dd store_sessions_have_sid [OF inv' dd]] filter_delete_none [OF uniq]
    by (simp add: d'_def)
  then show ?thesis using run assms(6) inv' by (auto simp: user_id_for_session_id_def)
qed

lemma request_credentials_basic:
  assumes "authorization_header rq = Some (''Basic '' @ b64encode (em @ CHR '':'' # pw))"
    "CHR '':'' \<notin> set em" "list_all (\<lambda>c. of_char c < (128::nat)) (em @ CHR '':'' # pw)"
  shows "request_credentials rq = Some (em, pw)"
proof -
  have tw: "takeWhile (\<lambda>c. c \<noteq> CHR '':'') (em @ CHR '':'' # pw) = em"
    using assms(2) by (induction em) auto
  have dw: "dropWhile (\<lambda>c. c \<noteq> CHR '':'') (em @ CHR '':'' # pw) = CHR '':'' # pw"
    using assms(2) by (induction em) auto
  show ?thesis
    using assms(1,3) tw dw
    by (simp add: request_credentials_def extract_base64_authorization_header_def
        decode_base64_authorization_header_def extract_user_credentials_def b64_roundtrip)
qed

lemma users_have_email:
  assumes "store_inv st" "data st CUser = Some d"
  shows "list_all (has_attrs [(''email'', AJ e)]) (map snd d)"
proof -
  have "class_of ob = CUser \<Longrightarrow> has_attrs [(''email'', AJ e)] ob" for ob
    by (cases ob) (simp_all add: has_attrs_def getattr_obj_def)
  then show ?thesis using assms by (fastforce simp: store_inv_def data_inv_def list_all_iff)
qed

theorem basic_auth_resolves:
  assumes "store_inv st" "data st CUser = Some d"
    "filter (matches [(''email'', AJ (JStr em))]) (map snd d) = UserObj u # us"
    "authorization_header rq = Some (''Basic '' @ b64encode (em @ CHR '':'' # pw))"
    "CHR '':'' \<notin> set em" "list_all (\<lambda>c. of_char c < (128::nat)) (em @ CHR '':'' # pw)"
  shows "basic_current_user sha rq st = (if is_valid_password sha u (JStr pw) then Some (UserObj u) else None)"
  using request_credentials_basic [OF assms(4-6)] search_filter [OF assms(2) users_have_email [OF assms(1,2)]] assms(3)
  by (simp add: basic_current_user_def user_object_from_credentials_def)

lemma basic_auth_not_basic:
  "take 6 h \<noteq> ''Basic '' \<Longrightarrow> authorization_header rq = Some h \<Longrightarrow> request_credentials rq = None"
  by (simp add: request_credentials_def extract_base64_authorization_header_def
      decode_base64_authorization_header_def extract_user_credentials_def)

lemma create_session_store_inv:
  assumes "store_inv (ast_store s)" "create_session k sid fresh now u s = (s', r)"
  shows "store_inv (ast_store s')"
proof (cases "is_str u \<and> (\<exists>d. k = SessionDBAuth d)")
  case False
  then have "ast_store s' = ast_store s" using assms(2) by (cases k) (auto simp: create_session_def Let_def split: if_splits)
  then show ?thesis using assms(1) by simp
next
  case True
  let ?ob = "SessionObj \<lparr>obj_id = JStr fresh, created_at = now, updated_at = now, user_id = u, session_id = JStr sid\<rparr>"
  let ?st0 = "register_class CUserSession (ast_store s)"
  have inv0: "store_inv ?st0"
    using construct_store_inv [OF construct_session assms(1)] .
  obtain st1 y where sv: "save now ?ob ?st0 = (st1, y)" by (cases "save now ?ob ?st0") blast
  have inv1: "store_inv st1" using save_store_inv [OF sv inv0] by simp
  have "ast_store s' = st1"
    using True assms(2) sv
    by (auto simp: create_session_def construct_session bind_op_def on_store_def split: sum.splits)
  then show ?thesis using inv1 by simp
qed

lemma destroy_session_store_inv:
  assumes "store_inv (ast_store s)" "destroy_session cfg now rq s = (s', r)"
  shows "store_inv (ast_store s')"
proof (cases "\<exists>i d ob obs. session_cookie cfg rq = Some i \<and> kind cfg = SessionDBAuth d \<and>
    snd (search CUserSession (sid_query i) (ast_store s)) = Inr (ob # obs)")
  case True
  then obtain i d ob obs where c: "session_cookie cfg rq = Some i" "kind cfg = SessionDBAuth d"
    "snd (search CUserSession (sid_query i) (ast_store s)) = Inr (ob # obs)" by blast
  obtain st1 y where rm: "remove ob (ast_store s) = (st1, y)" by (cases "remove ob (ast_store s)") blast
  have "ast_store s' = st1"
    using assms(2) c rm by (auto simp: destroy_session_def bind_op_def on_store_def split: sum.splits)
  then show ?thesis using remove_store_inv [OF rm assms(1)] by simp
next
  case False
  then have "ast_store s' = ast_store s"
    using assms(2)
    by (auto simp: destroy_session_def split: option.splits auth_kind.splits sum.splits list.splits if_splits)
  then show ?thesis using assms(1) by simp
qed

lemma sessions_shape_update:
  "sessions_shape k sess \<Longrightarrow> sess_ok k v \<Longrightarrow> sessions_shape k (AList.update i v sess)"
  using set_update_subset [of i v sess] by (fastforce simp: sessions_shape_def list_all_iff)

lemma sessions_shape_delete: "sessions_shape k sess \<Longrightarrow> sessions_shape k (AList.delete i sess)"
  using set_delete_subset [of i sess] by (fastforce simp: sessions_shape_def list_all_iff)

lemma create_session_shape:
  assumes "sessions_shape k (ast_sessions s)" "create_session k sid fresh now u s = (s', r)"
  shows "sessions_shape k (ast_sessions s')"
proof (cases "is_str u")
  case False
  then show ?thesis using assms by (simp add: create_session_def)
next
  case True
  let ?s1 = "AList.update sid (SPlain u) (ast_sessions s)"
  have up: "AList.update sid (SDict u now) ?s1 = AList.update sid (SDict u now) (ast_sessions s)"
    by (simp add: update_conv' fun_eq_iff)
  show ?thesis
  proof (cases k)
    case (SessionDBAuth d)
    let ?ob = "SessionObj \<lparr>obj_id = JStr fresh, created_at = now, updated_at = now, user_id = u, session_id = JStr sid\<rparr>"
    obtain st1 y where sv: "save now ?ob (register_class CUserSession (ast_store s)) = (st1, y)"
      by (cases "save now ?ob (register_class CUserSession (ast_store s))") blast
    have "ast_sessions s' = AList.update sid (SDict u now) ?s1"
      using True assms(2) sv SessionDBAuth
      by (auto simp: create_session_def construct_session bind_op_def on_store_def split: sum.splits)
    then show ?thesis using assms(1) SessionDBAuth sessions_shape_update by simp
  qed (use True assms in \<open>auto simp: create_session_def sessions_shape_update\<close>)
qed

lemma destroy_session_shape:
  assumes "sessions_shape k (ast_sessions s)" "destroy_session cfg now rq s = (s', r)"
  shows "sessions_shape k (ast_sessions s')"
proof -
  have "ast_sessions s' = ast_sessions s \<or> (\<exists>i. ast_sessions s' = AList.delete i (ast_sessions s))"
    using assms(2)
    by (auto simp: destroy_session_def bind_op_def on_store_def
        split: option.splits auth_kind.splits sum.splits list.splits if_splits prod.splits)
  then show ?thesis using assms(1) sessions_shape_delete by auto
qed

lemma app_step_inv:
  assumes "app_step cfg s s'" "store_inv (ast_store s)" "sessions_shape (kind cfg) (ast_sessions s)"
  shows "store_inv (ast_store s') \<and> sessions_shape (kind cfg) (ast_sessions s')"
  using assms
proof (induction rule: app_step.induct)
  case (app_store s st')
  then show ?case using store_step_inv by simp
next
  case (app_login sid fresh now u s s' r)
  then show ?case using create_session_store_inv create_session_shape by blast
next
  case (app_logout now rq s s' r)
  then show ?case using destroy_session_store_inv destroy_session_shape by blast
qed

text \<open>
  C2. Every state reachable by store operations, logins (\<open>create_session\<close>)
  and logouts (\<open>destroy_session\<close>) under a fixed configuration keeps the
  store invariant, and every entry of \<open>user_id_by_session_id\<close> has the shape
  the configured strategy writes.
\<close>

theorem app_reachable_inv:
  "app_reachable cfg s \<Longrightarrow> store_inv (ast_store s) \<and> sessions_shape (kind cfg) (ast_sessions s)"
proof (induction rule: app_reachable.induct)
  case (app_init st)
  then show ?case by (simp add: store_inv_def data_inv_def sessions_shape_def)
next
  case (app_next s s')
  then show ?case using app_step_inv by blast
qed

lemma basic_current_user_valid:
  "basic_current_user sha rq st = Some (UserObj u) \<Longrightarrow> \<exists>pw. is_valid_password sha u (JStr pw)"
  by (auto simp: basic_current_user_def user_object_from_credentials_def
      split: option.splits sum.splits list.splits obj.splits if_splits)

lemma matches_sid_to_second: "matches (sid_query i) (obj_to_second ob) = matches (sid_query i) ob"
  by (cases ob) (simp_all add: matches_def sid_query_def getattr_obj_def)

lemma py_lower_Authorization [simp]: "py_lower ''Authorization'' = ''authorization''"
  by code_simp

end
