(* ===== verification/Gate.thy ===== *)
theory Gate
  imports Auth Basic01
begin

text \<open>
  The request gates: \<open>handle_auth\<close>, the \<open>before_request\<close> hook of
  \<open>0x02-Session_authentication/api/v1/app.py\<close>, and \<open>handle_auth01\<close>, the one
  of \<open>0x01-Basic_authentication/api/v1/app.py\<close>, with the module-level choice of
  the strategy from \<open>AUTH_TYPE\<close>. The outcome of the hook is to let the request
  through with the value it left in \<open>request.current_user\<close>, to abort with a
  status, or an exception that escaped it (a 500). \<open>dispatch\<close> and
  \<open>dispatch01\<close> run one request through the hook, the view and the error
  handlers of each app.
\<close>

datatype gate_result = GPass ctx_user | GAbort nat | GRaise py_error

section \<open>Strategy selection\<close>

text \<open>\<open>auth_classes\<close> and \<open>auth = auth_classes[auth_type]()\<close>; \<open>dur\<close> is the duration the expiring strategies read.\<close>

definition select_auth :: "string option \<Rightarrow> int \<Rightarrow> auth_kind option" where
  "select_auth t dur =
     (case t of
        None \<Rightarrow> None
      | Some n \<Rightarrow>
          (if n = ''basic_auth'' then Some BasicAuth else if n = ''session_auth'' then Some SessionAuth
           else if n = ''auth'' then Some AuthBase else if n = ''session_exp_auth'' then Some (SessionExpAuth dur)
           else if n = ''session_db_auth'' then Some (SessionDBAuth dur) else None))"

definition select_auth01 :: "string option \<Rightarrow> auth_kind option" where
  "select_auth01 t =
     (case t of
        None \<Rightarrow> None
      | Some n \<Rightarrow> (if n = ''basic_auth'' then Some BasicAuth else if n = ''auth'' then Some AuthBase else None))"

section \<open>The gates\<close>

definition excluded_list :: "string list" where
  "excluded_list = [''/api/v1/status/'', ''/api/v1/unauthorized/'', ''/api/v1/forbidden/'',
     ''/api/v1/auth_session/login/'']"

definition handle_auth :: "auth_cfg option \<Rightarrow> (string \<Rightarrow> string) \<Rightarrow> datetime \<Rightarrow> request \<Rightarrow> auth_state \<Rightarrow> gate_result" where
  "handle_auth a sha now rq s =
     (case a of
        None \<Rightarrow> GPass Unset
      | Some cfg \<Rightarrow>
          (if \<not> require_auth (kind cfg) (rq_path rq) excluded_list then GPass Unset
           else if \<not> truthy_str (authorization_header rq) \<and> \<not> truthy_str (session_cookie cfg rq) then GAbort 401
           else (case current_user cfg sha now rq s of
                   Inl e \<Rightarrow> GRaise e
                 | Inr None \<Rightarrow> GAbort 403
                 | Inr (Some u) \<Rightarrow> GPass (CurUser (Some u)))))"

text \<open>\<open>0x01\<close>: no login route, no session cookie, and \<open>request.current_user\<close> is never set.\<close>

definition excluded_paths01 :: "string list" where
  "excluded_paths01 = [''/api/v1/status/'', ''/api/v1/unauthorized/'', ''/api/v1/forbidden/'']"

text \<open>
  The basic strategy of \<open>0x01\<close> searches and checks passwords with the
  \<open>0x01\<close> \<open>User\<close> class; the other strategies are not selectable there.
\<close>

definition user_object_from_credentials01 ::
    "(string \<Rightarrow> string) \<Rightarrow> (string \<times> string) option \<Rightarrow> store \<Rightarrow> obj option" where
  "user_object_from_credentials01 sha cr st =
     (case cr of
        None \<Rightarrow> None
      | Some (em, pw) \<Rightarrow>
          (case snd (search01 CUser [(''email'', AJ (JStr em))] st) of
             Inr (UserObj u # _) \<Rightarrow> if is_valid_password01 sha u (JStr pw) then Some (UserObj u) else None
           | _ \<Rightarrow> None))"

definition current_user01 :: "auth_cfg \<Rightarrow> (string \<Rightarrow> string) \<Rightarrow> request \<Rightarrow> store \<Rightarrow> obj option" where
  "current_user01 cfg sha rq st =
     (case kind cfg of BasicAuth \<Rightarrow> user_object_from_credentials01 sha (request_credentials rq) st | _ \<Rightarrow> None)"

definition handle_auth01 :: "auth_cfg option \<Rightarrow> (string \<Rightarrow> string) \<Rightarrow> request \<Rightarrow> store \<Rightarrow> gate_result" where
  "handle_auth01 a sha rq st =
     (case a of
        None \<Rightarrow> GPass Unset
      | Some cfg \<Rightarrow>
          (if \<not> require_auth (kind cfg) (rq_path rq) excluded_paths01 then GPass Unset
           else if \<not> truthy_str (authorization_header rq) then GAbort 401
           else if current_user01 cfg sha rq st = None then GAbort 403 else GPass Unset))"

text \<open>The two gates compared: \<open>0x01\<close> never sets \<open>request.current_user\<close>.\<close>

definition erase_user :: "gate_result \<Rightarrow> gate_result" where
  "erase_user r = (case r of GPass _ \<Rightarrow> GPass Unset | _ \<Rightarrow> r)"

section \<open>Dispatch\<close>

text \<open>
  One request through the application: the \<open>before_request\<close> hook, then the
  view with the \<open>request.current_user\<close> the hook left; an abort becomes the
  response of its error handler, an exception Flask's 500 response.
\<close>

definition dispatch :: "auth_cfg option \<Rightarrow> (string \<Rightarrow> string) \<Rightarrow> datetime \<Rightarrow> request \<Rightarrow>
    (ctx_user \<Rightarrow> (store, response) op) \<Rightarrow> auth_state \<Rightarrow> auth_state \<times> response" where
  "dispatch a sha now rq view s =
     (case handle_auth a sha now rq s of
        GAbort n \<Rightarrow> (s, abort_response n)
      | GRaise e \<Rightarrow> (s, internal_error)
      | GPass cu \<Rightarrow>
          (case view cu (ast_store s) of
             (st', Inl e) \<Rightarrow> (s\<lparr>ast_store := st'\<rparr>, internal_error)
           | (st', Inr resp) \<Rightarrow> (s\<lparr>ast_store := st'\<rparr>, resp)))"

text \<open>
  \<open>0x01\<close>: \<open>error_response\<close> and the three error handlers built on it, and
  the request pipeline with the \<open>0x01\<close> gate.
\<close>

definition error_response01 :: "string \<Rightarrow> nat \<Rightarrow> response" where
  "error_response01 message status_code = Response status_code (BErr message)"

fun abort_response01 :: "nat \<Rightarrow> response" where
  "abort_response01 n =
     (if n = 404 then error_response01 ''Not found'' 404
      else if n = 401 then error_response01 ''Unauthorized'' 401
      else if n = 403 then error_response01 ''Forbidden'' 403
      else Response n (BErr ''''))"

definition dispatch01 :: "auth_cfg option \<Rightarrow> (string \<Rightarrow> string) \<Rightarrow> request \<Rightarrow>
    (ctx_user \<Rightarrow> (store, response) op) \<Rightarrow> store \<Rightarrow> store \<times> response" where
  "dispatch01 a sha rq view st =
     (case handle_auth01 a sha rq st of
        GAbort n \<Rightarrow> (st, abort_response01 n)
      | GRaise e \<Rightarrow> (st, internal_error)
      | GPass cu \<Rightarrow>
          (case view cu st of
             (st', Inl e) \<Rightarrow> (st', internal_error)
           | (st', Inr resp) \<Rightarrow> (st', resp)))"

section \<open>Lemmas\<close>

lemma basic_current_user_stored:
  assumes "store_inv st" "basic_current_user sha rq st = Some ob"
  shows "class_of ob = CUser \<and> get CUser (oid ob) st = (st, Inr (Some ob))"
proof -
  obtain em pw u us where "request_credentials rq = Some (em, pw)"
      "snd (search CUser [(''email'', AJ (JStr em))] st) = Inr (UserObj u # us)" "ob = UserObj u"
    using assms(2)
    by (auto simp: basic_current_user_def user_object_from_credentials_def
        split: option.splits sum.splits list.splits obj.splits if_splits)
  then show ?thesis using search_head_stored [OF assms(1)] by blast
qed

lemma current_user_stored:
  assumes "store_inv (ast_store s)" "current_user cfg sha now rq s = Inr (Some ob)"
  shows "class_of ob = CUser \<and> get CUser (oid ob) (ast_store s) = (ast_store s, Inr (Some ob))"
proof -
  have "basic_current_user sha rq (ast_store s) = Some ob \<or> (\<exists>i. snd (get CUser i (ast_store s)) = Inr (Some ob))"
    using assms(2) by (cases "kind cfg") (auto simp: current_user_def)
  then show ?thesis using basic_current_user_stored get_stored assms(1) by blast
qed

lemma handle_auth_cases:
  "handle_auth a sha now rq s = GPass (CurUser (Some ob)) \<Longrightarrow>
     \<exists>cfg. a = Some cfg \<and> current_user cfg sha now rq s = Inr (Some ob)"
  by (auto simp: handle_auth_def split: option.splits if_splits sum.splits)

text \<open>
  C3. When the 0x02 gate lets a request through with a user in
  \<open>request.current_user\<close>, that user is a \<open>User\<close> stored in
  \<open>DATA\<close> under its own id, for every strategy.
\<close>

theorem gate_pass_stored:
  assumes "store_inv (ast_store s)" "handle_auth a sha now rq s = GPass (CurUser (Some ob))"
  shows "class_of ob = CUser \<and> get CUser (oid ob) (ast_store s) = (ast_store s, Inr (Some ob))"
  using handle_auth_cases [OF assms(2)] current_user_stored [OF assms(1)] by blast

text \<open>
  C10. The 0x02 gate answers 401 exactly when the path requires authentication and the
  request has neither a non-empty \<open>Authorization\<close> header nor a non-empty
  session cookie.
\<close>

theorem gate_unauthorized:
  "handle_auth (Some cfg) sha now rq s = GAbort 401 \<longleftrightarrow>
     require_auth (kind cfg) (rq_path rq) excluded_list \<and>
     \<not> truthy_str (authorization_header rq) \<and> \<not> truthy_str (session_cookie cfg rq)"
  by (auto simp: handle_auth_def split: sum.splits option.splits)

text \<open>
  C11. A request to one of the excluded paths (status, unauthorized, forbidden, login)
  passes the 0x02 gate without authentication, whatever the strategy.
\<close>

theorem gate_excluded:
  "rq_path rq \<in> set excluded_list \<Longrightarrow> handle_auth a sha now rq s = GPass Unset"
  by (auto simp: handle_auth_def require_auth_def path_excluded_def list_ex_iff
      split: option.splits auth_kind.splits)

lemma path_excluded_lists:
  "p \<noteq> ''/api/v1/auth_session/login/'' \<Longrightarrow> path_excluded p excluded_list = path_excluded p excluded_paths01"
  by (simp add: path_excluded_def excluded_list_def excluded_paths01_def)

lemma credentials01_eq:
  "user_object_from_credentials01 sha cr st = user_object_from_credentials sha cr st"
  unfolding user_object_from_credentials01_def user_object_from_credentials_def is_valid_password01_eq
  by (auto simp: search01_def search_def class_dict01_def split: option.splits)

text \<open>
  Under the basic-credential strategy the 0x01 and 0x02 gates give the same outcome
  (0x01 never records the user) on every path but the login route, unless the request
  has a session cookie and no \<open>Authorization\<close> header.
\<close>

theorem gate01_gate02_basic:
  assumes "kind cfg = BasicAuth" "rq_path rq \<noteq> ''/api/v1/auth_session/login/''"
    "truthy_str (authorization_header rq) \<or> \<not> truthy_str (session_cookie cfg rq)"
  shows "handle_auth01 (Some cfg) sha rq (ast_store s) = erase_user (handle_auth (Some cfg) sha now rq s)"
  using assms path_excluded_lists [OF assms(2)]
  by (auto simp: handle_auth01_def handle_auth_def erase_user_def require_auth_def current_user01_def
      current_user_def basic_current_user_def credentials01_eq split: option.splits)

lemma abort_response01_eq: "abort_response01 = abort_response"
  by (simp add: fun_eq_iff error_response01_def)

text \<open>
  C28. Under the basic-credential strategy, outside the login route and unless only a
  session cookie is present, the 0x01 pipeline (gate, view, error handlers) gives the
  same response and the same store as the 0x02 pipeline, for every view that does not
  read \<open>request.current_user\<close>.
\<close>

theorem dispatch01_dispatch_basic:
  assumes "kind cfg = BasicAuth" "rq_path rq \<noteq> ''/api/v1/auth_session/login/''"
    "truthy_str (authorization_header rq) \<or> \<not> truthy_str (session_cookie cfg rq)"
    "\<forall>cu. view cu = view Unset"
  shows "dispatch01 (Some cfg) sha rq view (ast_store s) =
    (case dispatch (Some cfg) sha now rq view s of (s', r) \<Rightarrow> (ast_store s', r))"
proof -
  have g: "handle_auth01 (Some cfg) sha rq (ast_store s) = erase_user (handle_auth (Some cfg) sha now rq s)"
    using gate01_gate02_basic [OF assms(1-3)] .
  show ?thesis
  proof (cases "handle_auth (Some cfg) sha now rq s")
    case (GPass cu)
    have v: "view cu = view Unset" using assms(4) by blast
    obtain st' r where r: "view Unset (ast_store s) = (st', r)" by fastforce
    show ?thesis using GPass g r
      by (cases r) (simp_all add: dispatch01_def dispatch_def erase_user_def v)
  qed (use g in \<open>simp_all add: dispatch01_def dispatch_def erase_user_def abort_response01_eq\<close>)
qed

lemma handle_auth_basic_user:
  "kind cfg = BasicAuth \<Longrightarrow> handle_auth (Some cfg) sha now rq s = GPass (CurUser (Some ob)) \<Longrightarrow>
     basic_current_user sha rq (ast_store s) = Some ob"
  by (auto simp: handle_auth_def current_user_def split: if_splits sum.splits option.splits)

text \<open>
  C14. Under \<open>SessionExpAuth\<close> with a positive duration, a request to a protected
  path whose cookie names a session created at T for a stored user passes the gate
  with that user exactly when now is at most T plus the duration (the boundary is
  inclusive), and is refused with 403 after that.
\<close>

theorem gate_session_expiry:
  assumes "store_inv (ast_store s)" "0 < dur" "kind cfg = SessionExpAuth dur"
    "require_auth (kind cfg) (rq_path rq) excluded_list" "session_cookie cfg rq = Some sid" "sid \<noteq> []"
    "map_of (ast_sessions s) sid = Some (SDict u c)" "get CUser u (ast_store s) = (ast_store s, Inr (Some ob))"
  shows "handle_auth (Some cfg) sha now rq s =
    (if int (dt_micro now) \<le> int (dt_micro c) + dur * 1000000 then GPass (CurUser (Some ob)) else GAbort 403)"
proof -
  obtain d where d: "data (ast_store s) CUser = Some d" using assms(8) by (auto simp: get_def split: option.splits)
  have n: "map_of d JNull = None" by (rule store_inv_no_null_key [OF assms(1) d])
  have "current_user cfg sha now rq s =
      (if int (dt_micro now) \<le> int (dt_micro c) + dur * 1000000 then Inr (Some ob) else Inr None)"
    using session_exp_boundary [OF assms(2,7), of now] assms(3,5,8) d n by (simp add: current_user_def get_def)
  then show ?thesis using assms(4-6) by (simp add: handle_auth_def truthy_str_def)
qed

lemma current_user_no_session:
  assumes "store_inv (ast_store s)" "data (ast_store s) CUser = Some d" "kind cfg = SessionExpAuth dur"
    "user_id_for_session_id (kind cfg) now (session_cookie cfg rq) s = None"
  shows "current_user cfg sha now rq s = Inr None"
  using assms store_inv_no_null_key [OF assms(1,2)]
  by (cases "kind cfg") (simp_all add: current_user_def get_def)

text \<open>
  C15. Under \<open>SessionExpAuth\<close> with a positive duration, every session token is
  eventually refused: whatever the state holds for the token, there is an instant
  after which every request to a protected path carrying it is refused with 403.
\<close>

theorem gate_session_exp_eventually_refused:
  assumes "store_inv (ast_store s)" "data (ast_store s) CUser = Some d" "0 < dur" "kind cfg = SessionExpAuth dur"
    "require_auth (kind cfg) (rq_path rq) excluded_list" "session_cookie cfg rq = Some sid" "sid \<noteq> []"
  shows "\<exists>T. \<forall>now. handle_auth (Some cfg) sha now rq s = GAbort 403 \<or> int (dt_micro now) \<le> T"
proof -
  have "\<exists>T. \<forall>now. T < int (dt_micro now) \<longrightarrow> user_id_for_session_id (SessionExpAuth dur) now (Some sid) s = None"
  proof (cases "map_of (ast_sessions s) sid")
    case (Some v)
    then show ?thesis
    proof (cases v)
      case (SDict u c)
      then show ?thesis using session_exp_boundary [OF assms(3), of s sid u c] Some
        by (intro exI [of _ "int (dt_micro c) + dur * 1000000"]) auto
    qed (auto simp: user_id_for_session_id_def)
  qed (simp add: user_id_for_session_id_def)
  then obtain T where T: "\<forall>now. T < int (dt_micro now) \<longrightarrow> user_id_for_session_id (SessionExpAuth dur) now (Some sid) s = None" ..
  have "T < int (dt_micro now) \<Longrightarrow> handle_auth (Some cfg) sha now rq s = GAbort 403" for now
    using current_user_no_session [OF assms(1,2,4), where now = now and rq = rq and sha = sha] T assms(4-7)
    by (simp add: handle_auth_def truthy_str_def)
  then show ?thesis by (meson not_le)
qed

end
