(* ===== verification/Redact.thy ===== *)
theory Redact
  imports Prelude "HOL-Library.Sublist"
begin

text \<open>
  The log redaction of \<open>0x00-personal_data/filtered_logger.py\<close>:
  \<open>filter_datum\<close>, which rewrites a log line with
  \<open>re.sub(r"(f1|...|fn)=([^SEP]+)", r"\\1=REDACTION", message)\<close>, the
  \<open>RedactingFormatter\<close> that applies it to every record, and the line
  \<open>main\<close> builds from a database row. The regular expression is modelled by
  its search: \<open>re.sub\<close> tries each position from the left, the alternation
  tries the fields in order (backtracking to the next field when \<open>=\<close> or a
  value character does not follow), the value is the longest run of
  characters outside the separator, and scanning resumes after the match. The
  fields and the separator are taken literally (names without regular
  expression metacharacters; a separator without \<open>\\\<close>, \<open>]\<close> or
  a \<open>-\<close> range), as they are in the module; an empty separator makes
  \<open>[^]+\<close>, which \<open>re\<close> rejects, and is the error value \<open>None\<close>.
  The logger set-up, the handlers and \<open>main\<close>'s loop over the rows are
  modelled; the MySQL connection (\<open>get_db\<close>) and the stream output are not.
\<close>

section \<open>Regular-expression substitution\<close>

definition pii_fields :: "string list" where
  "pii_fields = [''name'', ''email'', ''phone'', ''ssn'', ''password'']"

text \<open>\<open>"|".join(fields)\<close>: an empty list gives the empty alternative.\<close>

definition alts :: "string list \<Rightarrow> string list" where
  "alts fs = (if fs = [] then [''''] else fs)"

definition not_sep :: "string \<Rightarrow> char \<Rightarrow> bool" where
  "not_sep sep c \<longleftrightarrow> c \<notin> set sep"

text \<open>
  The match at the start of a string: the first field \<open>f\<close> followed by
  \<open>=\<close> and at least one non-separator character; the result is the field and
  the value (group 2).
\<close>

fun first_match :: "string list \<Rightarrow> string \<Rightarrow> string \<Rightarrow> (string \<times> string) option" where
  "first_match [] sep s = None"
| "first_match (f # fs) sep s =
     (let r = drop (Suc (length f)) s in
      if prefix (f @ ''='') s \<and> r \<noteq> [] \<and> not_sep sep (hd r) then Some (f, takeWhile (not_sep sep) r)
      else first_match fs sep s)"

text \<open>\<open>re.sub\<close>: a match is replaced by \<open>f=REDACTION\<close>, otherwise one character is copied.\<close>

function sub_scan :: "string list \<Rightarrow> string \<Rightarrow> string \<Rightarrow> string \<Rightarrow> string" where
  "sub_scan fs red sep [] = []"
| "sub_scan fs red sep (c # cs) =
     (case first_match fs sep (c # cs) of
        Some (f, v) \<Rightarrow> f @ ''='' @ red @ sub_scan fs red sep (drop (Suc (length f + length v)) (c # cs))
      | None \<Rightarrow> c # sub_scan fs red sep cs)"
  by pat_completeness auto
termination
  by (relation "measure (\<lambda>(fs, red, sep, s). length s)") auto

definition filter_datum :: "string list \<Rightarrow> string \<Rightarrow> string \<Rightarrow> string \<Rightarrow> string option" where
  "filter_datum fields redaction message separator =
     (if separator = [] then None else Some (sub_scan (alts fields) redaction separator message))"

fun py_join :: "string \<Rightarrow> string list \<Rightarrow> string" where
  "py_join sep [] = []"
| "py_join sep [x] = x"
| "py_join sep (x # y # xs) = x @ sep @ py_join sep (y # xs)"

definition format_row :: "(string \<times> string) list \<Rightarrow> string" where
  "format_row kvs = py_join ''; '' (map (\<lambda>(k, v). k @ ''='' @ v) kvs)"

definition redact_kv :: "string list \<Rightarrow> string \<Rightarrow> string \<times> string \<Rightarrow> string \<times> string" where
  "redact_kv fs red kv = (case kv of (k, v) \<Rightarrow> (k, if v \<noteq> [] \<and> list_ex (\<lambda>f. suffix f k) (alts fs) then red else v))"

text \<open>
  \<open>main\<close>: \<open>dict(zip(column_names, row))\<close> (a repeated column keeps its first
  position and its last value) printed as \<open>"; ".join(f"{key}={value}")\<close>; the
  values are given as their \<open>str\<close>.
\<close>

definition row_dict :: "string list \<Rightarrow> string list \<Rightarrow> (string \<times> string) list" where
  "row_dict cols vals = foldl (\<lambda>d (k, v). AList.update k v d) [] (zip cols vals)"

definition user_line :: "string list \<Rightarrow> string list \<Rightarrow> string" where
  "user_line cols vals = format_row (row_dict cols vals)"

section \<open>The formatter\<close>

text \<open>
  The attributes of a \<open>logging.LogRecord\<close> that \<open>FORMAT\<close> uses; \<open>asctime\<close>
  is the time string \<open>Formatter.format\<close> computes.
\<close>

record log_record =
  lr_name :: string
  lr_levelname :: string
  lr_asctime :: string
  lr_msg :: string

definition pad_right :: "nat \<Rightarrow> string \<Rightarrow> string" where
  "pad_right n s = s @ replicate (n - length s) CHR '' ''"

text \<open>\<open>"[HOLBERTON] %(name)s %(levelname)s %(asctime)-15s: %(message)s"\<close>.\<close>

definition holberton_format :: "log_record \<Rightarrow> string" where
  "holberton_format r =
     ''[HOLBERTON] '' @ lr_name r @ '' '' @ lr_levelname r @ '' '' @ pad_right 15 (lr_asctime r) @ '': '' @ lr_msg r"

text \<open>
  \<open>RedactingFormatter.format\<close>: the record's \<open>msg\<close> is overwritten with its
  redaction (the record is changed for every later handler too), then formatted.
  \<open>SEPARATOR\<close> is \<open>;\<close>, so \<open>filter_datum\<close> never fails here.
\<close>

definition redacting_format :: "string list \<Rightarrow> log_record \<Rightarrow> log_record \<times> string" where
  "redacting_format fs r =
     (let m = (case filter_datum fs ''***'' (lr_msg r) '';'' of Some m \<Rightarrow> m | None \<Rightarrow> lr_msg r);
          r' = r\<lparr>lr_msg := m\<rparr>
      in (r', holberton_format r'))"

text \<open>The conditions of the line equivalence: no \<open>=\<close> and no separator character.\<close>

definition plain :: "string \<Rightarrow> string \<Rightarrow> bool" where
  "plain sep x \<longleftrightarrow> CHR ''='' \<notin> set x \<and> (\<forall>c\<in>set x. not_sep sep c)"

section \<open>The logger and \<open>main\<close>\<close>

text \<open>
  The \<open>user_data\<close> logger of the \<open>logging\<close> registry: its level
  (\<open>0\<close> is \<open>NOTSET\<close>), \<open>propagate\<close> and its handlers, each a stream
  handler with a \<open>RedactingFormatter\<close> given by its fields. \<open>getLogger\<close>
  returns the same logger on every call, so \<open>get_logger\<close> adds one more
  handler each time it runs.
\<close>

record py_logger =
  lg_name :: string
  lg_level :: nat
  lg_propagate :: bool
  lg_handlers :: "string list list"

definition getLogger_user_data :: py_logger where
  "getLogger_user_data = \<lparr>lg_name = ''user_data'', lg_level = 0, lg_propagate = True, lg_handlers = []\<rparr>"

text \<open>\<open>get_logger\<close>: \<open>propagate = False\<close>, one more handler with
  \<open>RedactingFormatter(PII_FIELDS)\<close>, level \<open>INFO\<close> (20).\<close>

definition get_logger :: "py_logger \<Rightarrow> py_logger" where
  "get_logger lg = lg\<lparr>lg_propagate := False, lg_handlers := lg_handlers lg @ [pii_fields], lg_level := 20\<rparr>"

text \<open>
  \<open>Logger.callHandlers\<close>: every handler formats the same record in turn, and
  each \<open>RedactingFormatter.format\<close> sees the \<open>msg\<close> the previous one wrote.
\<close>

fun handle_all :: "string list list \<Rightarrow> log_record \<Rightarrow> log_record \<times> string list" where
  "handle_all [] r = (r, [])"
| "handle_all (fs # hs) r =
     (case redacting_format fs r of (r', line) \<Rightarrow> (case handle_all hs r' of (r'', ls) \<Rightarrow> (r'', line # ls)))"

text \<open>
  \<open>Logger.info\<close> and \<open>Logger.error\<close>: nothing below the effective level
  (a \<open>NOTSET\<close> logger inherits the root's \<open>WARNING\<close>, 30), otherwise one
  line per handler; \<open>asctime\<close> is the clock's string for the record. Root
  handlers are not modelled: \<open>get_logger\<close> turns propagation off.
\<close>

definition effective_level :: "py_logger \<Rightarrow> nat" where
  "effective_level lg = (if lg_level lg = 0 then 30 else lg_level lg)"

definition log_emit :: "py_logger \<Rightarrow> nat \<Rightarrow> string \<Rightarrow> string \<Rightarrow> string \<Rightarrow> string list" where
  "log_emit lg lvl lvlname asctime msg =
     (if lvl < effective_level lg then []
      else snd (handle_all (lg_handlers lg)
        \<lparr>lr_name = lg_name lg, lr_levelname = lvlname, lr_asctime = asctime, lr_msg = msg\<rparr>))"

text \<open>
  \<open>main\<close>: what the database \<open>SELECT * FROM users\<close> gave (the column
  names and the rows, each value as its \<open>str\<close>, or the error caught by one
  of the two handlers), logged through a fresh process's \<open>get_logger\<close>; the
  clock gives the time string of the \<open>i\<close>-th record.
\<close>

datatype db_outcome = Rows "string list" "string list list" | DbError string | OtherError string

definition main_log :: "py_logger \<Rightarrow> (nat \<Rightarrow> string) \<Rightarrow> db_outcome \<Rightarrow> string list" where
  "main_log lg clk out =
     (case out of
        Rows cols users \<Rightarrow> concat (map (\<lambda>(i, u). log_emit lg 20 ''INFO'' (clk i) (user_line cols u)) (enumerate 0 users))
      | DbError e \<Rightarrow> log_emit lg 40 ''ERROR'' (clk 0) (''Database error: '' @ e)
      | OtherError e \<Rightarrow> log_emit lg 40 ''ERROR'' (clk 0) (''Unexpected error: '' @ e))"

definition main :: "(nat \<Rightarrow> string) \<Rightarrow> db_outcome \<Rightarrow> string list" where
  "main clk out = main_log (get_logger getLogger_user_data) clk out"

section \<open>Lemmas\<close>

declare sub_scan.simps [simp del]

lemma prefix_eq_split:
  "e \<notin> set x \<Longrightarrow> prefix (f @ [e]) (x @ r) \<Longrightarrow> \<exists>y. f = x @ y \<and> prefix (y @ [e]) r"
proof (induction x arbitrary: f)
  case Nil
  then show ?case by simp
next
  case (Cons a x)
  then show ?case by (cases f) auto
qed

lemma no_match_sep:
  assumes "c \<in> set sep" "c \<noteq> CHR ''=''" "\<forall>f\<in>set A. plain sep f"
  shows "first_match A sep (c # w) = None"
  using assms
proof (induction A)
  case (Cons f A)
  have "\<not> prefix (f @ ''='') (c # w)"
    using Cons.prems by (cases f) (auto simp: plain_def not_sep_def)
  then show ?case using Cons by (simp add: Let_def)
qed simp

lemma no_match_plain:
  assumes "plain sep (c # v)" "r = [] \<or> hd r \<in> set sep" "CHR ''='' \<notin> set sep" "\<forall>f\<in>set A. plain sep f"
  shows "first_match A sep (c # v @ r) = None"
  using assms(4)
proof (induction A)
  case (Cons f A)
  have "\<not> prefix (f @ ''='') ((c # v) @ r)"
  proof
    assume p: "prefix (f @ ''='') ((c # v) @ r)"
    have "CHR ''='' \<notin> set (c # v)" using assms(1) by (simp add: plain_def)
    then obtain y where y: "f = (c # v) @ y" "prefix (y @ ''='') r" using prefix_eq_split [OF _ p] by blast
    show False
    proof (cases y)
      case Nil
      then show False using y assms(2,3) by (cases r) auto
    next
      case (Cons a y')
      then have "a = hd r" "r \<noteq> []" using y(2) by (auto simp: prefix_def)
      moreover have "not_sep sep a" using Cons.prems y(1) \<open>y = a # y'\<close> by (auto simp: plain_def)
      ultimately show False using assms(2) by (auto simp: not_sep_def)
    qed
  qed
  then show ?case using Cons by (simp add: Let_def)
qed simp

lemma scan_plain:
  assumes "plain sep v" "r = [] \<or> hd r \<in> set sep" "CHR ''='' \<notin> set sep" "\<forall>f\<in>set A. plain sep f"
  shows "sub_scan A red sep (v @ r) = v @ sub_scan A red sep r"
  using assms(1)
proof (induction v)
  case (Cons c v)
  have "plain sep v" using Cons.prems by (simp add: plain_def)
  then show ?case
    using Cons no_match_plain [OF Cons.prems assms(2-4)] by (simp add: sub_scan.simps)
qed simp

lemma prefix_key:
  assumes "e \<notin> set f" "e \<notin> set k"
  shows "prefix (f @ [e]) (k @ e # w) \<longleftrightarrow> f = k"
proof
  assume p: "prefix (f @ [e]) (k @ e # w)"
  obtain y where y: "f = k @ y" "prefix (y @ [e]) (e # w)" using prefix_eq_split [OF assms(2) p] by blast
  have "y = []"
  proof (rule ccontr)
    assume "y \<noteq> []"
    then obtain y' where "y = e # y'" using y(2) by (cases y) (auto simp: prefix_def)
    then show False using y(1) assms(1) by simp
  qed
  then show "f = k" using y(1) by simp
qed simp

lemma first_match_key:
  assumes "\<forall>f\<in>set A. plain sep f" "CHR ''='' \<notin> set k"
  shows "first_match A sep (k @ CHR ''='' # w) =
    (if k \<in> set A \<and> w \<noteq> [] \<and> not_sep sep (hd w) then Some (k, takeWhile (not_sep sep) w) else None)"
  using assms(1)
proof (induction A)
  case (Cons f A)
  have "prefix (f @ ''='') (k @ CHR ''='' # w) \<longleftrightarrow> f = k"
    using prefix_key [of "CHR ''=''" f k w] Cons.prems assms(2) by (simp add: plain_def)
  then show ?case using Cons by (auto simp: Let_def)
qed simp

lemma takeWhile_plain:
  "plain sep v \<Longrightarrow> r = [] \<or> hd r \<in> set sep \<Longrightarrow> takeWhile (not_sep sep) (v @ r) = v"
  by (induction v) (cases r; auto simp: plain_def not_sep_def)+

lemma value_starts:
  "plain sep v \<Longrightarrow> r = [] \<or> hd r \<in> set sep \<Longrightarrow>
     (v @ r \<noteq> [] \<and> not_sep sep (hd (v @ r))) \<longleftrightarrow> v \<noteq> []"
  by (cases v) (auto simp: plain_def not_sep_def)

lemma scan_segment:
  assumes "CHR ''='' \<notin> set k" "plain sep v" "r = [] \<or> hd r \<in> set sep" "CHR ''='' \<notin> set sep"
    "\<forall>f\<in>set A. plain sep f"
  shows "sub_scan A red sep (k @ CHR ''='' # v @ r) =
    k @ CHR ''='' # (if v \<noteq> [] \<and> list_ex (\<lambda>f. suffix f k) A then red else v) @ sub_scan A red sep r"
  using assms(1)
proof (induction k)
  case Nil
  have fm: "first_match A sep ([] @ CHR ''='' # v @ r) =
      (if [] \<in> set A \<and> v \<noteq> [] then Some ([], v) else None)"
    using first_match_key [OF assms(5), of "[]" "v @ r"] value_starts [OF assms(2,3)] takeWhile_plain [OF assms(2,3)]
    by simp
  show ?case
    using fm scan_plain [OF assms(2-5), of red] by (auto simp: sub_scan.simps list_ex_iff)
next
  case (Cons c k)
  have fm: "first_match A sep ((c # k) @ CHR ''='' # v @ r) =
      (if c # k \<in> set A \<and> v \<noteq> [] then Some (c # k, v) else None)"
    using first_match_key [OF assms(5), of "c # k" "v @ r"] Cons.prems value_starts [OF assms(2,3)]
      takeWhile_plain [OF assms(2,3)]
    by simp
  have ih: "sub_scan A red sep (k @ CHR ''='' # v @ r) =
      k @ CHR ''='' # (if v \<noteq> [] \<and> list_ex (\<lambda>f. suffix f k) A then red else v) @ sub_scan A red sep r"
    using Cons by simp
  show ?case
  proof (cases "c # k \<in> set A \<and> v \<noteq> []")
    case True
    then show ?thesis using fm by (auto simp: sub_scan.simps list_ex_iff)
  next
    case False
    have "v \<noteq> [] \<Longrightarrow> list_ex (\<lambda>f. suffix f (c # k)) A \<longleftrightarrow> list_ex (\<lambda>f. suffix f k) A"
      using False by (auto simp: list_ex_iff suffix_Cons)
    then show ?thesis using False fm ih by (auto simp: sub_scan.simps)
  qed
qed

lemma suffix_space: "CHR '' '' \<notin> set f \<Longrightarrow> suffix f (CHR '' '' # k) \<longleftrightarrow> suffix f k"
  by (auto simp: suffix_Cons)

lemma alts_plain:
  "\<forall>f\<in>set fs. plain sep f \<and> CHR '' '' \<notin> set f \<Longrightarrow> \<forall>f\<in>set (alts fs). plain sep f \<and> CHR '' '' \<notin> set f"
  by (simp add: alts_def plain_def)

lemma format_row_Cons2:
  "format_row ((k, v) # y # zs) = k @ CHR ''='' # v @ CHR '';'' # CHR '' '' # format_row (y # zs)"
  by (simp add: format_row_def)

lemma scan_row:
  assumes "l = [] \<or> l = '' ''" "\<forall>f\<in>set A. plain '';'' f \<and> CHR '' '' \<notin> set f"
    "\<forall>(k, v)\<in>set kvs. plain '';'' k \<and> plain '';'' v"
  shows "sub_scan A red '';'' (l @ format_row kvs) =
    l @ format_row (map (\<lambda>(k, v). (k, if v \<noteq> [] \<and> list_ex (\<lambda>f. suffix f k) A then red else v)) kvs)"
  using assms(1,3)
proof (induction kvs arbitrary: l rule: induct_list012)
  case 1
  have "plain '';'' l" using 1 by (auto simp: plain_def not_sep_def)
  then show ?case using scan_plain [of "'';''" l "[]"] assms(2) by (simp add: format_row_def sub_scan.simps)
next
  case (2 x)
  obtain k v where x: "x = (k, v)" by (cases x)
  have pk: "CHR ''='' \<notin> set (l @ k)" "plain '';'' v" using 2 x by (auto simp: plain_def)
  have "list_ex (\<lambda>f. suffix f (l @ k)) A \<longleftrightarrow> list_ex (\<lambda>f. suffix f k) A"
    using 2(1) assms(2) suffix_space by (auto simp: list_ex_iff)
  then show ?case
    using scan_segment [OF pk, of "[]" A red] assms(2) x by (simp add: format_row_def sub_scan.simps)
next
  case (3 x y zs)
  obtain k v where x: "x = (k, v)" by (cases x)
  have pk: "CHR ''='' \<notin> set (l @ k)" "plain '';'' v" using 3 x by (auto simp: plain_def)
  have sx: "list_ex (\<lambda>f. suffix f (l @ k)) A \<longleftrightarrow> list_ex (\<lambda>f. suffix f k) A"
    using 3(3) assms(2) suffix_space by (auto simp: list_ex_iff)
  have A: "\<forall>f\<in>set A. plain '';'' f" using assms(2) by blast
  have seg: "sub_scan A red '';'' ((l @ k) @ CHR ''='' # v @ CHR '';'' # CHR '' '' # format_row (y # zs)) =
      (l @ k) @ CHR ''='' # (if v \<noteq> [] \<and> list_ex (\<lambda>f. suffix f (l @ k)) A then red else v) @
      sub_scan A red '';'' (CHR '';'' # CHR '' '' # format_row (y # zs))"
    by (rule scan_segment [OF pk _ _ A]) simp_all
  have semi: "sub_scan A red '';'' (CHR '';'' # CHR '' '' # format_row (y # zs)) =
      CHR '';'' # sub_scan A red '';'' ('' '' @ format_row (y # zs))"
    using no_match_sep [OF _ _ A, of "CHR '';''"] by (simp add: sub_scan.simps)
  have ih: "sub_scan A red '';'' ('' '' @ format_row (y # zs)) =
      '' '' @ format_row (map (\<lambda>(k, v). (k, if v \<noteq> [] \<and> list_ex (\<lambda>f. suffix f k) A then red else v)) (y # zs))"
    by (rule "3"(2)) (use "3"(4) in auto)
  show ?case using seg semi ih sx x by (simp add: format_row_Cons2)
qed

text \<open>
  C9. The substitution of \<open>filter_datum\<close> on a row as \<open>main\<close> writes it
  (\<open>k=v\<close> pairs joined by \<open>"; "\<close>, separator \<open>;\<close>) equals the reference
  redaction \<open>redact_kv\<close> of each pair: a non-empty value is replaced exactly
  when its key ends with one of the fields.
\<close>

theorem redact_row:
  assumes "\<forall>f\<in>set fs. plain '';'' f \<and> CHR '' '' \<notin> set f"
    "\<forall>(k, v)\<in>set kvs. plain '';'' k \<and> plain '';'' v"
  shows "filter_datum fs red (format_row kvs) '';'' = Some (format_row (map (redact_kv fs red) kvs))"
proof -
  have e: "redact_kv fs red = (\<lambda>(k, v). (k, if v \<noteq> [] \<and> list_ex (\<lambda>f. suffix f k) (alts fs) then red else v))"
    by (simp add: fun_eq_iff redact_kv_def)
  show ?thesis
    unfolding e using scan_row [of "[]" "alts fs" kvs red] alts_plain [OF assms(1)] assms(2)
    by (simp add: filter_datum_def)
qed

lemma no_eq_no_match: "CHR ''='' \<notin> set s \<Longrightarrow> first_match A sep s = None"
  by (induction A) (auto simp: Let_def prefix_def)

theorem filter_datum_no_eq:
  "CHR ''='' \<notin> set msg \<Longrightarrow> filter_datum fs red msg sep = (if sep = [] then None else Some msg)"
proof -
  assume e: "CHR ''='' \<notin> set msg"
  have "sub_scan A red sep msg = msg" for A
    using e by (induction msg) (simp_all add: sub_scan.simps no_eq_no_match)
  then show ?thesis by (simp add: filter_datum_def)
qed

lemma row_dict_distinct:
  assumes "distinct cols" "length cols = length vals"
  shows "row_dict cols vals = zip cols vals"
proof -
  have "distinct (map fst (acc @ xs)) \<Longrightarrow> foldl (\<lambda>d (k, v). AList.update k v d) acc xs = acc @ xs" for acc xs
  proof (induction xs arbitrary: acc)
    case (Cons x xs)
    have "map_of acc (fst x) = None" using Cons.prems by (auto simp: map_of_eq_None_iff)
    then have "AList.update (fst x) (snd x) acc = acc @ [x]" by (induction acc) auto
    then show ?case using Cons by (cases x) simp
  qed simp
  moreover have "map fst (zip cols vals) = cols" using assms(2) by simp
  ultimately show ?thesis using assms(1) unfolding row_dict_def by (metis append_Nil)
qed

lemma pii_plain: "\<forall>f\<in>set (alts pii_fields). plain '';'' f \<and> CHR '' '' \<notin> set f"
  by (simp add: alts_def pii_fields_def plain_def not_sep_def)

lemma redact_kv_pii:
  "redact_kv pii_fields red = (\<lambda>(k, v). (k, if v \<noteq> [] \<and> list_ex (\<lambda>f. suffix f k) (alts pii_fields) then red else v))"
  by (simp add: fun_eq_iff redact_kv_def)

lemma redact_user_line:
  assumes "distinct cols" "length cols = length vals"
    "\<forall>k\<in>set cols. plain '';'' k" "\<forall>v\<in>set vals. plain '';'' v"
  shows "filter_datum pii_fields ''***'' (user_line cols vals) '';'' =
    Some (format_row (map (redact_kv pii_fields ''***'') (zip cols vals)))"
proof -
  have kv: "\<forall>(k, v)\<in>set (zip cols vals). plain '';'' k \<and> plain '';'' v"
    using assms(3,4) by (auto dest: set_zip_leftD set_zip_rightD)
  show ?thesis
    unfolding redact_kv_pii using scan_row [OF _ pii_plain kv, of "[]" "''***''"] row_dict_distinct [OF assms(1,2)]
    by (simp add: filter_datum_def user_line_def)
qed

text \<open>
  C19. \<open>RedactingFormatter.format\<close> on the line \<open>main\<close> builds from a
  database row rewrites the record's message to the row with the values of the
  \<open>PII_FIELDS\<close> keys replaced by \<open>***\<close>, and formats that record with
  the Holberton format.
\<close>

theorem redacting_format_user_line:
  assumes "distinct cols" "length cols = length vals"
    "\<forall>k\<in>set cols. plain '';'' k" "\<forall>v\<in>set vals. plain '';'' v"
  shows "redacting_format pii_fields (r\<lparr>lr_msg := user_line cols vals\<rparr>) =
    (let m = format_row (map (redact_kv pii_fields ''***'') (zip cols vals)) in
     (r\<lparr>lr_msg := m\<rparr>, holberton_format (r\<lparr>lr_msg := m\<rparr>)))"
  using redact_user_line [OF assms] by (simp add: redacting_format_def Let_def)

lemma redact_kv_idem:
  "redact_kv fs red (redact_kv fs red kv) = redact_kv fs red kv" if "red \<noteq> []"
  using that by (cases kv) (simp add: redact_kv_def)

lemma plain_stars: "plain '';'' ''***''"
  by (simp add: plain_def not_sep_def)

lemma redact_plain:
  assumes "\<forall>(k, v)\<in>set kvs. plain '';'' k \<and> plain '';'' v"
  shows "\<forall>(k, v)\<in>set (map (redact_kv pii_fields ''***'') kvs). plain '';'' k \<and> plain '';'' v"
  using assms by (induction kvs) (auto simp: redact_kv_def plain_stars)

lemma redact_row_idem:
  assumes "\<forall>(k, v)\<in>set kvs. plain '';'' k \<and> plain '';'' v"
  shows "filter_datum pii_fields ''***'' (format_row (map (redact_kv pii_fields ''***'') kvs)) '';'' =
    Some (format_row (map (redact_kv pii_fields ''***'') kvs))"
proof -
  let ?kvs = "map (redact_kv pii_fields ''***'') kvs"
  have "sub_scan (alts pii_fields) ''***'' '';'' (format_row ?kvs) = format_row (map (redact_kv pii_fields ''***'') ?kvs)"
    using scan_row [OF _ pii_plain redact_plain [OF assms], of "[]" "''***''"] by (simp only: redact_kv_pii append_Nil simp_thms)
  moreover have "map (redact_kv pii_fields ''***'') ?kvs = ?kvs" by (induction kvs) (simp_all add: redact_kv_idem)
  ultimately show ?thesis by (simp add: filter_datum_def del: map_map)
qed

lemma log_emit_get_logger:
  "log_emit (get_logger getLogger_user_data) lvl name t msg =
     (if lvl < 20 then []
      else [snd (redacting_format pii_fields \<lparr>lr_name = ''user_data'', lr_levelname = name, lr_asctime = t, lr_msg = msg\<rparr>)])"
  by (simp add: log_emit_def get_logger_def getLogger_user_data_def effective_level_def split: prod.split)

text \<open>
  C20. \<open>main\<close> logs each database row, through the logger \<open>get_logger\<close>
  configures, as one Holberton-formatted \<open>INFO\<close> line whose message is the
  row with the \<open>PII_FIELDS\<close> values replaced by \<open>***\<close>, in the order of
  the rows; a database error is logged as one \<open>ERROR\<close> line.
\<close>

theorem main_log_redacted:
  assumes "distinct cols" "\<forall>k\<in>set cols. plain '';'' k"
    "\<forall>u\<in>set users. length cols = length u \<and> (\<forall>v\<in>set u. plain '';'' v)" "CHR ''='' \<notin> set e"
  shows "main clk (Rows cols users) =
      map (\<lambda>(i, u). holberton_format \<lparr>lr_name = ''user_data'', lr_levelname = ''INFO'', lr_asctime = clk i,
        lr_msg = format_row (map (redact_kv pii_fields ''***'') (zip cols u))\<rparr>) (enumerate 0 users) \<and>
    main clk (DbError e) =
      [holberton_format \<lparr>lr_name = ''user_data'', lr_levelname = ''ERROR'', lr_asctime = clk 0,
        lr_msg = ''Database error: '' @ e\<rparr>]"
proof
  have row: "log_emit (get_logger getLogger_user_data) 20 ''INFO'' (clk i) (user_line cols u) =
      [holberton_format \<lparr>lr_name = ''user_data'', lr_levelname = ''INFO'', lr_asctime = clk i,
        lr_msg = format_row (map (redact_kv pii_fields ''***'') (zip cols u))\<rparr>]" if "u \<in> set users" for i u
  proof -
    have "filter_datum pii_fields ''***'' (user_line cols u) '';'' =
        Some (format_row (map (redact_kv pii_fields ''***'') (zip cols u)))"
      using redact_user_line [OF assms(1) _ assms(2)] assms(3) that by simp
    then show ?thesis by (simp add: log_emit_get_logger redacting_format_def Let_def)
  qed
  show "main clk (Rows cols users) =
      map (\<lambda>(i, u). holberton_format \<lparr>lr_name = ''user_data'', lr_levelname = ''INFO'', lr_asctime = clk i,
        lr_msg = format_row (map (redact_kv pii_fields ''***'') (zip cols u))\<rparr>) (enumerate 0 users)"
    unfolding main_def main_log_def db_outcome.case
    by (rule concat_map_singletons) (use row in \<open>auto dest: snd_in_set_enumerate\<close>)
next
  have "CHR ''='' \<notin> set (''Database error: '' @ e)" using assms(4) by simp
  then show "main clk (DbError e) =
      [holberton_format \<lparr>lr_name = ''user_data'', lr_levelname = ''ERROR'', lr_asctime = clk 0,
        lr_msg = ''Database error: '' @ e\<rparr>]"
    by (simp add: main_def main_log_def log_emit_get_logger redacting_format_def filter_datum_no_eq Let_def)
qed

text \<open>
  A second call of \<open>get_logger\<close> in the same process adds a second handler:
  every line is then written twice (the second formatter redacts the already
  redacted message, which changes nothing).
\<close>

theorem get_logger_twice_duplicates:
  assumes "distinct cols" "length cols = length vals"
    "\<forall>k\<in>set cols. plain '';'' k" "\<forall>v\<in>set vals. plain '';'' v"
  shows "log_emit (get_logger (get_logger getLogger_user_data)) 20 ''INFO'' t (user_line cols vals) =
    (let l = holberton_format \<lparr>lr_name = ''user_data'', lr_levelname = ''INFO'', lr_asctime = t,
        lr_msg = format_row (map (redact_kv pii_fields ''***'') (zip cols vals))\<rparr> in [l, l])"
proof -
  have kv: "\<forall>(k, v)\<in>set (zip cols vals). plain '';'' k \<and> plain '';'' v"
    using assms(3,4) by (auto dest: set_zip_leftD set_zip_rightD)
  show ?thesis
    using redact_user_line [OF assms] redact_row_idem [OF kv]
    by (simp add: log_emit_def get_logger_def getLogger_user_data_def effective_level_def redacting_format_def Let_def)
qed

end
