(* ===== verification/Passwords.thy ===== *)
theory Passwords
  imports Prelude
begin

text \<open>
  \<open>0x00-personal_data/encrypt_password.py\<close>: \<open>hash_password\<close> and
  \<open>is_valid\<close> over bcrypt. bcrypt is a library the module only calls, so its
  functions are parameters: \<open>salt\<close> is what \<open>gensalt()\<close> returned,
  \<open>hashpw\<close> and \<open>checkpw\<close> are the hashing and checking functions, both
  applied to \<open>password.encode("utf-8")\<close>. A character of the model is the
  code point 0-255 of the same number; \<open>utf8_encode\<close> writes each one as its
  UTF-8 bytes (one byte below 128, two from 128 on), a byte being the character of
  that number.
\<close>

type_synonym hashpw = "string \<Rightarrow> string \<Rightarrow> string"
type_synonym checkpw = "string \<Rightarrow> string \<Rightarrow> bool"

definition utf8_char :: "char \<Rightarrow> string" where
  "utf8_char c =
     (let n = (of_char c :: nat) in
      if n < 128 then [c] else [char_of (192 + n div 64), char_of (128 + n mod 64)])"

definition utf8_encode :: "string \<Rightarrow> string" where
  "utf8_encode s = concat (map utf8_char s)"

definition hash_password :: "hashpw \<Rightarrow> string \<Rightarrow> string \<Rightarrow> string" where
  "hash_password hashpw salt password = hashpw (utf8_encode password) salt"

definition is_valid :: "checkpw \<Rightarrow> string \<Rightarrow> string \<Rightarrow> bool" where
  "is_valid checkpw hashed_password password \<longleftrightarrow> checkpw (utf8_encode password) hashed_password"

section \<open>Lemmas\<close>

lemma utf8_encode_ascii: "\<forall>c\<in>set s. (of_char c :: nat) < 128 \<Longrightarrow> utf8_encode s = s"
  by (induction s) (simp_all add: utf8_encode_def utf8_char_def)

lemma utf8_encode_nbsp: "utf8_encode [char_of (160::nat)] = [char_of (194::nat), char_of (160::nat)]"
  by (simp add: utf8_encode_def utf8_char_def)

end
