(* ===== verification/Routes.thy ===== *)
theory Routes
  imports Gate Views
begin

text \<open>
  The URL map of \<open>0x02-Session_authentication/api/v1\<close>: the
  \<open>@app_views.route\<close> rules of \<open>views/users.py\<close> under the blueprint
  prefix \<open>/api/v1\<close> (registered by \<open>app.register_blueprint\<close>; the blueprint
  module itself is not in the repository). A rule with \<open>strict_slashes=False\<close>
  matches its path with or without one trailing slash; \<open><user_id>\<close> is one
  non-empty segment without \<open>/\<close>; a path a rule matches under another
  method is \<open>405\<close>, any other path \<open>404\<close>. Flask runs the
  \<open>before_request\<close> hook before it raises the routing error, so
  \<open>serve\<close> is \<open>dispatch\<close> with the routed view. The methods are those
  the rules name and one other; \<open>HEAD\<close> and \<open>OPTIONS\<close>, which Flask
  answers by itself, are not modelled.
\<close>

section \<open>The URL map\<close>

datatype http_method = GET | POST | PUT | DELETE | PATCH

datatype endpoint = EAllUsers | ECreateUser | EOneUser string | EDeleteUser string | EUpdateUser string

datatype route_result = RView endpoint | RNotFound | RMethodNotAllowed

definition url_prefix :: string where
  "url_prefix = ''/api/v1''"

definition strip_slash :: "string \<Rightarrow> string" where
  "strip_slash r = (if r \<noteq> [] \<and> last r = CHR ''/'' then butlast r else r)"

definition user_id_segment :: "string \<Rightarrow> string option" where
  "user_id_segment r =
     (let uid = drop 7 r in
      if take 7 r = ''/users/'' \<and> uid \<noteq> [] \<and> CHR ''/'' \<notin> set uid then Some uid else None)"

definition route :: "http_method \<Rightarrow> string \<Rightarrow> route_result" where
  "route m p =
     (if \<not> prefix url_prefix p then RNotFound
      else
        (let r = strip_slash (drop (length url_prefix) p) in
         if r = ''/users'' then
           (case m of GET \<Rightarrow> RView EAllUsers | POST \<Rightarrow> RView ECreateUser | _ \<Rightarrow> RMethodNotAllowed)
         else
           (case user_id_segment r of
              None \<Rightarrow> RNotFound
            | Some uid \<Rightarrow>
                (case m of GET \<Rightarrow> RView (EOneUser uid) | DELETE \<Rightarrow> RView (EDeleteUser uid)
                         | PUT \<Rightarrow> RView (EUpdateUser uid) | _ \<Rightarrow> RMethodNotAllowed))))"

section \<open>The application\<close>

text \<open>The view each endpoint runs, with its path argument.\<close>

definition endpoint_op :: "datetime \<Rightarrow> string \<Rightarrow> jbody \<Rightarrow> ctx_user \<Rightarrow> endpoint \<Rightarrow> (store, response) op" where
  "endpoint_op now fresh body cu ep =
     (case ep of
        EAllUsers \<Rightarrow> view_all_users
      | ECreateUser \<Rightarrow> create_user now fresh body
      | EOneUser uid \<Rightarrow> view_one_user cu (Some uid)
      | EDeleteUser uid \<Rightarrow> delete_user (Some uid)
      | EUpdateUser uid \<Rightarrow> update_user now (Some uid) body)"

definition route_view :: "datetime \<Rightarrow> string \<Rightarrow> http_method \<Rightarrow> request \<Rightarrow> ctx_user \<Rightarrow> (store, response) op" where
  "route_view now fresh m rq cu =
     (case route m (rq_path rq) of
        RView ep \<Rightarrow> endpoint_op now fresh (rq_json rq) cu ep
      | RNotFound \<Rightarrow> return_op (abort_response 404)
      | RMethodNotAllowed \<Rightarrow> return_op (abort_response 405))"

definition serve :: "auth_cfg option \<Rightarrow> (string \<Rightarrow> string) \<Rightarrow> datetime \<Rightarrow> string \<Rightarrow> http_method \<Rightarrow>
    request \<Rightarrow> auth_state \<Rightarrow> auth_state \<times> response" where
  "serve a sha now fresh m rq s = dispatch a sha now rq (route_view now fresh m rq) s"

section \<open>Lemmas\<close>

lemma route_users:
  assumes "uid \<noteq> []" "CHR ''/'' \<notin> set uid" "t = [] \<or> t = ''/''"
  shows "route GET (''/api/v1/users'' @ t) = RView EAllUsers \<and> route POST (''/api/v1/users'' @ t) = RView ECreateUser \<and>
    route PATCH (''/api/v1/users'' @ t) = RMethodNotAllowed \<and>
    route GET (''/api/v1/users/'' @ uid @ t) = RView (EOneUser uid) \<and>
    route DELETE (''/api/v1/users/'' @ uid @ t) = RView (EDeleteUser uid) \<and>
    route PUT (''/api/v1/users/'' @ uid @ t) = RView (EUpdateUser uid) \<and>
    route POST (''/api/v1/users/'' @ uid @ t) = RMethodNotAllowed"
proof -
  have l: "last uid \<noteq> CHR ''/''" using assms(1,2) last_in_set by metis
  have "strip_slash (''/users'' @ t) = ''/users''" "strip_slash (''/users/'' @ uid @ t) = ''/users/'' @ uid"
    using assms(3) l assms(1) by (auto simp: strip_slash_def butlast_append)
  moreover have "user_id_segment (''/users/'' @ uid) = Some uid" using assms(1,2) by (simp add: user_id_segment_def)
  moreover have "''/users/'' @ uid \<noteq> ''/users''" by simp
  ultimately show ?thesis by (simp add: route_def url_prefix_def)
qed

text \<open>The statuses each view can answer with when it returns normally.\<close>

lemma view_status_all: "view_all_users st = (st', Inr r) \<Longrightarrow> status r = 200"
  by (auto simp: view_all_users_def bind_op_def return_op_def status_def split: prod.splits sum.splits)

lemma view_status_one: "view_one_user cu uid st = (st', Inr r) \<Longrightarrow> status r \<in> {200, 404}"
  by (auto simp: view_one_user_def bind_op_def return_op_def raise_op_def status_def
      split: prod.splits sum.splits option.splits ctx_user.splits if_splits)

lemma view_status_delete: "delete_user uid st = (st', Inr r) \<Longrightarrow> status r \<in> {200, 404}"
  by (auto simp: delete_user_def bind_op_def return_op_def status_def split: prod.splits sum.splits option.splits)

lemma view_status_create: "create_user now fresh rj st = (st', Inr r) \<Longrightarrow> status r \<in> {201, 400}"
  by (auto simp: create_user_def bad_request_def status_def split: prod.splits sum.splits jbody.splits if_splits)

lemma view_status_update: "update_user now uid rj st = (st', Inr r) \<Longrightarrow> status r \<in> {200, 400, 404}"
  by (auto simp: update_user_def update_body_def bind_op_def return_op_def bad_request_def status_def
      split: prod.splits sum.splits option.splits jbody.splits jval.splits if_splits)

lemma endpoint_status:
  "endpoint_op now fresh body cu ep st = (st', Inr r) \<Longrightarrow> status r \<in> {200, 201, 400, 404}"
  by (cases ep) (auto simp: endpoint_op_def dest: view_status_all view_status_one view_status_delete
      view_status_create view_status_update)

lemma route_view_status:
  "route_view now fresh m rq cu st = (st', Inr r) \<Longrightarrow> status r \<in> {200, 201, 400, 404, 405}"
  by (auto simp: route_view_def return_op_def status_def split: route_result.splits dest: endpoint_status)

text \<open>
  C29. Only the gate answers 401: for every configured strategy, path, method,
  request and state, the whole app (hook, routing, view, error handlers) answers
  401 exactly when the path is protected and the request has neither a non-empty
  \<open>Authorization\<close> header nor a non-empty session cookie; no view, routing
  error or exception gives 401, and an anonymous request to a URL without a route
  gets 401, not 404.
\<close>

theorem serve_401_only_gate:
  "status (snd (serve (Some cfg) sha now fresh m rq s)) = 401 \<longleftrightarrow>
     require_auth (kind cfg) (rq_path rq) excluded_list \<and> \<not> truthy_str (authorization_header rq) \<and>
     \<not> truthy_str (session_cookie cfg rq)"
proof (cases "handle_auth (Some cfg) sha now rq s")
  case (GPass cu)
  obtain st' v where v: "route_view now fresh m rq cu (ast_store s) = (st', v)" by fastforce
  have "status (snd (serve (Some cfg) sha now fresh m rq s)) \<noteq> 401"
    using GPass v route_view_status [of now fresh m rq cu "ast_store s" st']
    by (cases v) (auto simp: serve_def dispatch_def internal_error_def status_def)
  moreover have "\<not> (require_auth (kind cfg) (rq_path rq) excluded_list \<and> \<not> truthy_str (authorization_header rq) \<and>
     \<not> truthy_str (session_cookie cfg rq))"
    using GPass by (auto simp: handle_auth_def split: if_splits)
  ultimately show ?thesis by blast
qed (auto simp: serve_def dispatch_def handle_auth_def internal_error_def status_def
      split: if_splits sum.splits option.splits)

text \<open>
  C27. When the gate leaves \<open>request.current_user\<close> unset (no strategy
  configured, \<open>AUTH_TYPE=auth\<close>, or an excluded path), \<open>GET
  /api/v1/users/me\<close>, with or without its trailing slash, ends in a 500 for every
  state: the view reads the missing attribute.
\<close>

theorem serve_me_unset:
  assumes "handle_auth a sha now rq s = GPass Unset" "rq_path rq = ''/api/v1/users/me'' @ t" "t = [] \<or> t = ''/''"
  shows "serve a sha now fresh GET rq s = (s, internal_error)"
proof -
  have "route GET (rq_path rq) = RView (EOneUser ''me'')" using route_users [of "''me''" t] assms(2,3) by simp
  then show ?thesis using assms(1)
    by (simp add: serve_def dispatch_def route_view_def endpoint_op_def view_one_user_def raise_op_def)
qed

end
