(* ===== verification/Startup.thy ===== *)
theory Startup
  imports Gate
begin

text \<open>
  The start-up of the two apps: the module-level choice of the strategy from
  \<open>AUTH_TYPE\<close> (\<open>app.py\<close> of 0x02, lines 26-38; of 0x01, lines 25-26) and
  the \<open>__main__\<close> block, \<open>app.run(host=getenv("API_HOST", "0.0.0.0"),
  port=getenv("API_PORT", "5000"))\<close>. The environment is a map from names to
  strings. \<open>Flask.run\<close> (with \<open>SERVER_NAME\<close> unset) takes an empty host as
  \<open>127.0.0.1\<close>, an empty port as 5000 and converts any other port with
  \<open>int()\<close>, whose \<open>ValueError\<close> escapes; binding the socket raises
  \<open>OverflowError\<close> for a port outside 0-65535. \<open>py_int\<close> is Python's
  \<open>int(str)\<close> in base 10: surrounding whitespace (\<open>str.isspace\<close> on the
  characters the model has), an optional sign, digits with single underscores
  between them. Host names are not resolved: any other host is served.
\<close>

section \<open>The environment and \<open>int()\<close>\<close>

type_synonym environ = "string \<Rightarrow> string option"

definition getenv :: "environ \<Rightarrow> string \<Rightarrow> string \<Rightarrow> string" where
  "getenv env key dflt = (case env key of Some v \<Rightarrow> v | None \<Rightarrow> dflt)"

text \<open>\<open>str.isspace\<close> on code points 0-255.\<close>

definition py_space :: "char \<Rightarrow> bool" where
  "py_space c \<longleftrightarrow> of_char c \<in> ({9..13} \<union> {28..32} \<union> {133, 160} :: nat set)"

definition py_isdigit :: "char \<Rightarrow> bool" where
  "py_isdigit c \<longleftrightarrow> 48 \<le> (of_char c :: nat) \<and> (of_char c :: nat) \<le> 57"

text \<open>\<open>digit (["_"] digit)*\<close>, the body of a base-10 \<open>int()\<close> literal.\<close>

fun digit_groups :: "string \<Rightarrow> bool" where
  "digit_groups [] = False"
| "digit_groups [c] = py_isdigit c"
| "digit_groups (c # d # cs) =
     (py_isdigit c \<and> (if d = CHR ''_'' then digit_groups cs else digit_groups (d # cs)))"

definition digits_value :: "string \<Rightarrow> nat" where
  "digits_value ds = foldl (\<lambda>a c. 10 * a + (of_char c - 48)) 0 ds"

definition py_strip :: "string \<Rightarrow> string" where
  "py_strip s = rev (dropWhile py_space (rev (dropWhile py_space s)))"

text \<open>The sign of \<open>int(s)\<close>, after the surrounding whitespace is stripped.\<close>

definition sign_split :: "string \<Rightarrow> int \<times> string" where
  "sign_split t =
     (case t of
        c # r \<Rightarrow> if c = CHR ''-'' then (-1, r) else if c = CHR ''+'' then (1, r) else (1, t)
      | [] \<Rightarrow> (1, t))"

definition py_int :: "string \<Rightarrow> py_error + int" where
  "py_int s =
     (case sign_split (py_strip s) of
        (sg, b) \<Rightarrow> if digit_groups b then Inr (sg * int (digits_value (filter (\<lambda>c. c \<noteq> CHR ''_'') b)))
                   else Inl ValueError)"

section \<open>Start-up\<close>

text \<open>
  What \<open>app.run\<close> does: serve on a host and port, or raise before serving
  (\<open>ValueError\<close> of \<open>int()\<close>, \<open>OverflowError\<close> of the bind).
\<close>

datatype run_outcome = Serving string nat | RunRaise py_error | RunOverflow

definition flask_run :: "string \<Rightarrow> string \<Rightarrow> run_outcome" where
  "flask_run host port =
     (let h = (if host = [] then ''127.0.0.1'' else host) in
      case (if port = [] then Inr 5000 else py_int port) of
        Inl e \<Rightarrow> RunRaise e
      | Inr p \<Rightarrow> if 0 \<le> p \<and> p \<le> 65535 then Serving h (nat p) else RunOverflow)"

definition app_run02 :: "environ \<Rightarrow> run_outcome" where
  "app_run02 env = flask_run (getenv env ''API_HOST'' ''0.0.0.0'') (getenv env ''API_PORT'' ''5000'')"

definition app_run01 :: "environ \<Rightarrow> run_outcome" where
  "app_run01 env = flask_run (getenv env ''API_HOST'' ''0.0.0.0'') (getenv env ''API_PORT'' ''5000'')"

definition app_auth02 :: "environ \<Rightarrow> int \<Rightarrow> auth_kind option" where
  "app_auth02 env dur = select_auth (env ''AUTH_TYPE'') dur"

definition app_auth01 :: "environ \<Rightarrow> auth_kind option" where
  "app_auth01 env = select_auth01 (env ''AUTH_TYPE'')"

section \<open>Lemmas\<close>













lemma app_run_same: "app_run01 = app_run02"
  by (simp add: fun_eq_iff app_run01_def app_run02_def)

lemma py_int_5000: "py_int ''5000'' = Inr 5000"
  by code_simp


end
