(* ===== verification/Spec2Isabelle.thy ===== *)
theory Spec2Isabelle
  imports Basic01 Views Gate Redact Passwords Routes Startup
begin

text \<open>
  Verification development of alx-backend-user-data, a Flask API with a toy
  object store and several authentication schemes. The parts and how they
  interact: a request passes the \<open>before_request\<close> gate of \<open>api/v1/app.py\<close>,
  which asks the configured authentication strategy for the identity behind
  the \<open>Authorization\<close> header or the session cookie; the strategy looks users
  and sessions up in the object store (\<open>models/base.py\<close>, the process-wide
  dictionary \<open>DATA\<close> flushed to one JSON file per class); the views of
  \<open>api/v1/views/users.py\<close> then read and change the store.

  \<^bold>\<open>Theories.\<close>
  \<^item> \<open>Prelude\<close>: JSON scalars \<open>jval\<close> with Python's truth value and
    equality, dictionaries as association lists (\<open>AList.update\<close> is assignment,
    keeping the key's position), exceptions \<open>py_error\<close>, and the state and
    exception monad \<open>op\<close> every stateful method is written in (the state is
    kept when an exception is raised).
  \<^item> \<open>Timestamp\<close>: \<open>datetime\<close>, \<open>strftime\<close> and \<open>strptime\<close> of
    \<open>TIMESTAMP_FORMAT\<close> (CPython's regular expression for each directive, then
    the calendar check), proved inverse up to microseconds.
  \<^item> \<open>Entities\<close>: \<open>Base\<close> attributes, \<open>User\<close> and \<open>UserSession\<close> of 0x02
    as records extending \<open>base_obj\<close>; \<open>__init__\<close>, \<open>to_json\<close>,
    \<open>getattr\<close>, the password setter and check, \<open>display_name\<close>.
  \<^item> \<open>Store\<close>: the store record (\<open>DATA\<close> and the files), \<open>save\<close>,
    \<open>remove\<close>, \<open>count\<close>, \<open>get\<close>, \<open>search\<close>, \<open>all\<close>, \<open>save_to_file\<close>,
    \<open>load_from_file\<close>; the invariant, the step relation \<open>store_step\<close> and
    its reachable states; the abstract store \<open>abs_store\<close>, a finite map
    from (class, id) to instance, which the dictionary operations refine.
  \<^item> \<open>Basic01\<close>: the 0x01 \<open>Base\<close> (\<open>__eq__\<close>, \<open>to_json\<close>,
    \<open>load_from_file\<close>, \<open>save_to_file\<close>, \<open>save\<close>, \<open>remove\<close>, the
    class methods) and \<open>User\<close>, compared with 0x02.
  \<^item> \<open>Http\<close> and \<open>Views\<close>: requests, responses, the error handlers and
    the five user views.
  \<^item> \<open>Base64\<close> and \<open>Auth\<close>: the strategies \<open>Auth\<close>, \<open>BasicAuth\<close>,
    \<open>SessionAuth\<close>, \<open>SessionExpAuth\<close>, \<open>SessionDBAuth\<close>. Their source
    (\<open>api/v1/auth\<close>) is not in the repository snapshot, so they follow the
    specification's contract; the process state they share is
    \<open>auth_state\<close> (the store and \<open>user_id_by_session_id\<close>), and
    \<open>app_step\<close> is a step of the process (store operation, login, logout).
  \<^item> \<open>Gate\<close>: \<open>handle_auth\<close> of 0x02 and 0x01, the \<open>AUTH_TYPE\<close> tables,
    and \<open>dispatch\<close>, one request through hook, view and error handlers;
    the 0x01 \<open>error_response\<close>, its handlers and pipeline \<open>dispatch01\<close>.
  \<^item> \<open>Redact\<close>: \<open>0x00-personal_data/filtered_logger.py\<close>:
    \<open>filter_datum\<close> (\<open>re.sub\<close> of the joined pattern as a left-to-right
    scan \<open>sub_scan\<close> trying the alternatives in order, terminating by the
    length of the rest), the row line \<open>main\<close> logs,
    \<open>RedactingFormatter.format\<close>, the \<open>user_data\<close> logger that
    \<open>get_logger\<close> configures (its handlers format one record in turn) and
    \<open>main\<close>'s loop over the query's rows and its two error handlers.
  \<^item> \<open>Routes\<close>: the URL map of the users views under \<open>/api/v1\<close>
    (\<open>strict_slashes=False\<close>, \<open><user_id>\<close>, 404 and 405) and
    \<open>serve\<close>, the whole app: hook first, then the routed view; the
    statuses each view can answer with.
  \<^item> \<open>Startup\<close>: the environment, the strategy chosen from
    \<open>AUTH_TYPE\<close> by each app, and the \<open>__main__\<close> block
    \<open>app.run(host, port)\<close> with Python's \<open>int()\<close> of the port
    (\<open>py_int\<close>) and the bind's port range.
  \<^item> \<open>Passwords\<close>: \<open>encrypt_password.py\<close>, \<open>hash_password\<close> and
    \<open>is_valid\<close> over bcrypt's functions taken as parameters, and the
    UTF-8 encoding of the password. No property is claimed: every property of
    these two delegations is a property of bcrypt.
  \<^item> this theory: example values, the properties that span components
    (login flows, restart of the session store, the POST/Basic interaction,
    the two gates on a cookie-only request) and the witnesses.

  \<^bold>\<open>What the lemmas show.\<close> Invariants by rule induction over
  \<open>store_reachable\<close> and \<open>app_reachable\<close>; the behaviour of each store
  operation on success and on \<open>KeyError\<close>; the save/load round trip and the
  load error paths; equivalence of the 0x01 and 0x02 class methods and loaders
  where they agree and the exact difference where they do not; the view
  outcomes; the gate's 401/403/pass cases, that a passed user is stored, that
  an expiring session is eventually refused, and the session and credential
  lifecycles; the refinement of \<open>abs_store\<close> by \<open>save\<close>, \<open>remove\<close>,
  \<open>get\<close> and \<open>count\<close>; the equivalence of the log redaction with a
  per-field reference \<open>redact_kv\<close> (a value is redacted when its key ends
  with a field, so every non-empty value when the field list is empty); that
  \<open>main\<close> logs
  one redacted line per row, and every line twice once \<open>get_logger\<close> has run
  twice; that the 0x01 and 0x02 pipelines answer alike under basic
  credentials; that in the whole app only the gate answers 401 (also on a URL
  with no route) and that \<open>/users/me\<close> fails with 500 whenever the gate
  leaves \<open>request.current_user\<close> unset; the host and port the 0x02 app
  serves on for every \<open>API_HOST\<close> and decimal \<open>API_PORT\<close> (through
  \<open>int()\<close>, which reads back \<open>str()\<close> of every integer).

  \<^bold>\<open>Parameters instead of effects.\<close> The clock (\<open>datetime.utcnow\<close>,
  \<open>datetime.now\<close>) is an argument \<open>now\<close>; fresh \<open>uuid4\<close> strings are
  arguments (\<open>fresh\<close>, \<open>sid\<close>, or a function of the item index when a file
  is loaded); SHA-256 is an argument \<open>sha\<close>. No operation loops without a
  bound: every recursion is structural over a list, or (\<open>sub_scan\<close>)
  decreases the length of the string still to scan (its \<open>termination\<close>
  proof), so no fuel is needed.
  Instants are compared in microseconds (\<open>dt_micro\<close>) as \<open>int\<close>.

  \<^bold>\<open>Not modelled.\<close> JSON text and file-system errors (a file is its
  parsed dictionary, and writing always succeeds); non-ASCII digits in
  \<open>strptime\<close> and multi-byte UTF-8 in credentials; the attributes every
  Python object inherits; aliasing between an instance held by a view and the
  one in \<open>DATA\<close> (each operation returns the stored instance); the
  CORS headers, the routes of the views not in the repository (status, login),
  the \<open>HEAD\<close> and \<open>OPTIONS\<close> answers Flask makes by itself and
  host-name resolution in \<open>app.run\<close>; bcrypt itself (a library, a parameter of the
  model); in \<open>filtered_logger.py\<close> the regular-expression
  metacharacters in field names or the separator (they are taken literally),
  group references in the redaction string, the root logger's handlers,
  \<open>get_db\<close> and the MySQL cursor (database I/O: the query's result is an
  argument of \<open>main\<close>) and the stream the lines are written to.
\<close>

section \<open>Example values\<close>

definition t0 :: datetime where
  "t0 = \<lparr>dt_year = 2024, dt_month = 1, dt_day = 2, dt_hour = 3, dt_minute = 4, dt_second = 5,
         dt_microsecond = 600\<rparr>"

definition st0 :: store where
  "st0 = \<lparr>data = Map.empty, files = Map.empty\<rparr>"

definition kw_alice :: kwargs where
  "kw_alice = [(''email'', JStr ''a@b.com''), (''first_name'', JStr ''Alice'')]"

definition alice :: user where
  "alice = \<lparr>obj_id = JStr ''u1'', created_at = t0, updated_at = t0, email = JStr ''a@b.com'',
     password = JNull, first_name = JStr ''Alice'', last_name = JNull\<rparr>"

definition st_reg :: store where
  "st_reg = \<lparr>data = [CUser \<mapsto> []], files = Map.empty\<rparr>"

definition st_one :: store where
  "st_one = \<lparr>data = [CUser \<mapsto> [(JStr ''u1'', UserObj alice)]], files = Map.empty\<rparr>"

definition st_bad_file :: store where
  "st_bad_file = \<lparr>data = Map.empty,
     files = [db_path CUser \<mapsto> [(''u1'', [(''id'', JStr ''u1''), (''created_at'', JStr ''2024-13-01T00:00:00'')])]]\<rparr>"

definition items_good :: "(string, (string, jval) pydict) pydict" where
  "items_good = [(''u1'', [(''id'', JStr ''u1''), (''created_at'', JStr ''2024-01-02T03:04:05''),
     (''updated_at'', JStr ''2024-01-02T03:04:05''), (''email'', JStr ''a@b.com'')])]"

definition items_mixed :: "(string, (string, jval) pydict) pydict" where
  "items_mixed = items_good @ [(''u2'', [(''id'', JStr ''u2''), (''created_at'', JStr ''2024-13-01T00:00:00'')])]"

definition st_file :: "(string, (string, jval) pydict) pydict \<Rightarrow> store" where
  "st_file its = \<lparr>data = Map.empty, files = [db_path CUser \<mapsto> its]\<rparr>"

definition kw_post :: kwargs where
  "kw_post = [(''email'', JStr ''a@b.com''), (''password'', JStr ''secret'')]"

definition cfg_sess :: auth_cfg where
  "cfg_sess = \<lparr>kind = SessionAuth, cookie_name = ''_my_session_id''\<rparr>"

definition cfg_basic :: auth_cfg where
  "cfg_basic = \<lparr>kind = BasicAuth, cookie_name = ''_my_session_id''\<rparr>"

definition rq_cookie_only :: request where
  "rq_cookie_only = \<lparr>rq_path = ''/api/v1/users'', rq_headers = [], rq_cookies = [(''_my_session_id'', ''tok1'')],
     rq_json = NoJson\<rparr>"

definition rq_status :: request where
  "rq_status = \<lparr>rq_path = ''/api/v1/status'', rq_headers = [], rq_cookies = [], rq_json = NoJson\<rparr>"

definition cfg_db :: auth_cfg where
  "cfg_db = \<lparr>kind = SessionDBAuth 60, cookie_name = ''_my_session_id''\<rparr>"

definition rq_me :: request where
  "rq_me = \<lparr>rq_path = ''/api/v1/users/me'', rq_headers = [], rq_cookies = [(''_my_session_id'', ''tok1'')],
     rq_json = NoJson\<rparr>"

text \<open>A stand-in for the SHA-256 digest in the examples.\<close>

definition sha0 :: "string \<Rightarrow> string" where
  "sha0 p = p"

definition alice_pw :: user where
  "alice_pw = alice\<lparr>password := JStr ''secret''\<rparr>"

definition st_pw :: store where
  "st_pw = \<lparr>data = [CUser \<mapsto> [(JStr ''u1'', UserObj alice_pw)]], files = Map.empty\<rparr>"

definition rq_basic :: "string \<Rightarrow> request" where
  "rq_basic pw = \<lparr>rq_path = ''/api/v1/users'',
     rq_headers = [(''Authorization'', ''Basic '' @ b64encode (''a@b.com'' @ CHR '':'' # pw))], rq_cookies = [],
     rq_json = NoJson\<rparr>"

definition sess1 :: user_session where
  "sess1 = \<lparr>obj_id = JStr ''s1'', created_at = t0, updated_at = t0, user_id = JStr ''u1'', session_id = JStr ''tok1''\<rparr>"

definition st_sess :: store where
  "st_sess = \<lparr>data = [CUser \<mapsto> [(JStr ''u1'', UserObj alice)], CUserSession \<mapsto> [(JStr ''s1'', SessionObj sess1)]],
     files = Map.empty\<rparr>"

definition as_one :: auth_state where
  "as_one = \<lparr>ast_store = st_one, ast_sessions = []\<rparr>"

definition as_tok :: auth_state where
  "as_tok = \<lparr>ast_store = st_one, ast_sessions = [(''tok1'', SPlain (JStr ''u1''))]\<rparr>"

definition as_exp :: auth_state where
  "as_exp = \<lparr>ast_store = st_one, ast_sessions = [(''tok1'', SDict (JStr ''u1'') t0)]\<rparr>"

definition cfg_exp :: auth_cfg where
  "cfg_exp = \<lparr>kind = SessionExpAuth 60, cookie_name = ''_my_session_id''\<rparr>"

definition rec0 :: log_record where
  "rec0 = \<lparr>lr_name = ''user_data'', lr_levelname = ''INFO'', lr_asctime = ''12:00'', lr_msg = []\<rparr>"

definition rq_nope :: request where
  "rq_nope = \<lparr>rq_path = ''/api/v1/nope'', rq_headers = [], rq_cookies = [], rq_json = NoJson\<rparr>"

section \<open>Properties across components\<close>

text \<open>
  C4. Session scenario: after \<open>create_session\<close> for a stored user, a request
  carrying the token as session cookie passes the gate and \<open>GET
  /api/v1/users/me\<close> returns that user (200); after \<open>destroy_session\<close>
  the same request is refused with 403.
\<close>

theorem session_login_flow:
  assumes "store_inv (ast_store s)" "get CUser (JStr uid) (ast_store s) = (ast_store s, Inr (Some ob))"
    "kind cfg = SessionAuth" "session_cookie cfg rq = Some sid" "sid \<noteq> []"
    "require_auth (kind cfg) (rq_path rq) excluded_list"
    "create_session SessionAuth sid fresh now (JStr uid) s = (s1, r)"
    "destroy_session cfg now' rq s1 = (s2, r2)"
  shows "r = Inr (Some sid) \<and>
    dispatch (Some cfg) sha now' rq (\<lambda>cu. view_one_user cu (Some ''me'')) s1 =
      (s1, Response 200 (BObj (to_json False ob))) \<and>
    r2 = Inr True \<and>
    dispatch (Some cfg) sha now'' rq (\<lambda>cu. view_one_user cu (Some ''me'')) s2 = (s2, abort_response 403)"
proof -
  have cs: "create_session SessionAuth sid fresh now (JStr uid) s =
      (s\<lparr>ast_sessions := AList.update sid (SPlain (JStr uid)) (ast_sessions s)\<rparr>, Inr (Some sid))"
    using create_session_mem [of "JStr uid" SessionAuth sid fresh now s] by simp
  then have s1: "s1 = s\<lparr>ast_sessions := AList.update sid (SPlain (JStr uid)) (ast_sessions s)\<rparr>"
    and r: "r = Inr (Some sid)" using assms(7) by simp_all
  have l1: "user_id_for_session_id SessionAuth now' (Some sid) s1 = Some (JStr uid)"
    using s1 by (simp add: user_id_for_session_id_def update_conv')
  have cu1: "current_user cfg sha now' rq s1 = Inr (Some ob)"
    using assms(2-4) l1 s1 by (simp add: current_user_def)
  have g1: "handle_auth (Some cfg) sha now' rq s1 = GPass (CurUser (Some ob))"
    using assms(4-6) cu1 by (simp add: handle_auth_def truthy_str_def)
  have ds: "destroy_session cfg now' rq s1 = (s1\<lparr>ast_sessions := AList.delete sid (ast_sessions s1)\<rparr>, Inr True)"
    using destroy_session_mem [of cfg rq sid now' s1] assms(3,4) l1 by simp
  then have s2: "s2 = s1\<lparr>ast_sessions := AList.delete sid (ast_sessions s1)\<rparr>" and r2: "r2 = Inr True"
    using assms(8) by simp_all
  have l2: "user_id_for_session_id SessionAuth now'' (Some sid) s2 = None"
    using s2 by (simp add: user_id_for_session_id_def delete_conv')
  obtain d where d: "data (ast_store s) CUser = Some d" using assms(2) by (auto simp: get_def split: option.splits)
  have cu2: "current_user cfg sha now'' rq s2 = Inr None"
    using l2 d store_inv_no_null_key [OF assms(1) d] assms(3,4) s1 s2 by (simp add: current_user_def get_def)
  have g2: "handle_auth (Some cfg) sha now'' rq s2 = GAbort 403"
    using assms(4-6) cu2 by (simp add: handle_auth_def truthy_str_def)
  show ?thesis
    using r r2 g1 g2 by (simp add: dispatch_def view_one_user_def)
qed

text \<open>
  C8. Basic-credential scenario: a request with \<open>Authorization: Basic
  base64(email:password)\<close> for the first stored user with that email passes the
  gate with that user exactly when the digest of the password equals the stored one, and
  is refused with 403 otherwise.
\<close>

theorem basic_login_flow:
  assumes "store_inv (ast_store s)" "data (ast_store s) CUser = Some d"
    "filter (matches [(''email'', AJ (JStr em))]) (map snd d) = UserObj u # us"
    "kind cfg = BasicAuth" "require_auth BasicAuth (rq_path rq) excluded_list"
    "authorization_header rq = Some (''Basic '' @ b64encode (em @ CHR '':'' # pw))"
    "CHR '':'' \<notin> set em" "list_all (\<lambda>c. of_char c < (128::nat)) (em @ CHR '':'' # pw)"
    "password u = JStr h"
  shows "handle_auth (Some cfg) sha now rq s =
    (if py_lower (sha pw) = h then GPass (CurUser (Some (UserObj u))) else GAbort 403)"
proof -
  have b: "basic_current_user sha rq (ast_store s) =
      (if is_valid_password sha u (JStr pw) then Some (UserObj u) else None)"
    by (rule basic_auth_resolves [OF assms(1-3,6-8)])
  have v: "is_valid_password sha u (JStr pw) \<longleftrightarrow> py_lower (sha pw) = h"
    using assms(9) by (simp add: is_valid_password_def)
  show ?thesis
    using assms(4-6) b v by (simp add: handle_auth_def truthy_str_def current_user_def)
qed

text \<open>
  C22. A user created with \<open>POST /api/v1/users\<close> is stored, but no request
  can pass the basic-credential gate as that user, because the view passes
  \<open>password\<close> where \<open>User\<close> reads \<open>_password\<close>.
\<close>

theorem posted_user_cannot_login:
  assumes "create_ok (JsonObj kw)" "create_user now fresh (JsonObj kw) st = (st', r)" "kind cfg = BasicAuth"
  shows "get CUser (JStr fresh) st' = (st', Inr (Some (UserObj (new_user now fresh kw)))) \<and>
    handle_auth (Some cfg) sha now' rq \<lparr>ast_store = st', ast_sessions = ss\<rparr> \<noteq>
      GPass (CurUser (Some (UserObj (new_user now fresh kw))))"
proof -
  have g: "get CUser (JStr fresh) st' = (st', Inr (Some (UserObj (new_user now fresh kw))))"
    using create_user_ok [OF assms(1), of now fresh st] assms(2) by auto
  have "\<not> is_valid_password sha (new_user now fresh kw) (JStr pw)" for pw
    by (simp add: is_valid_password_def new_user_def)
  then have "basic_current_user sha rq st' \<noteq> Some (UserObj (new_user now fresh kw))"
    using basic_current_user_valid by blast
  then show ?thesis using g handle_auth_basic_user [OF assms(3)] by fastforce
qed

text \<open>
  C7. A session persisted by \<open>SessionDBAuth\<close> survives a restart: after the
  session file is written and reloaded into an empty session dictionary, the token still
  resolves to its user id while it has not expired (its \<open>created_at\<close> now
  cut to the second).
\<close>

theorem db_session_survives_restart:
  assumes "store_inv st" "data st CUserSession = Some d" "\<forall>ob\<in>snd ` set d. obj_valid ob"
    "filter (matches (sid_query sid)) (map snd d) = SessionObj us # rest"
    "dur \<le> 0 \<or> \<not> expired dur (to_second (created_at us)) now'"
    "load_from_file CUserSession fresh now (fst (save_to_file CUserSession st)) = (st2, r)"
  shows "r = Inr () \<and>
    user_id_for_session_id (SessionDBAuth dur) now' (Some sid) \<lparr>ast_store = st2, ast_sessions = []\<rparr> = Some (user_id us)"
proof -
  have f1: "files (fst (save_to_file CUserSession st)) (db_path CUserSession) = Some (serialize d)"
    using assms(2) by (simp add: save_to_file_def serialize_def)
  have "dict_keys_distinct d" "\<forall>k ob. (k, ob) \<in> set d \<longrightarrow> class_of ob = CUserSession \<and> is_str k"
    using assms(1,2) by (auto simp: store_inv_def data_inv_def)
  then obtain st3 where l: "load_from_file CUserSession fresh now (fst (save_to_file CUserSession st)) = (st3, Inr ())"
      "data st3 CUserSession = Some (map (\<lambda>(k, ob). (k, obj_to_second ob)) d)"
    using load_serialized [OF f1] assms(3) by force
  have st3: "st3 = st2" "r = Inr ()" using l(1) assms(6) by simp_all
  have inv3: "store_inv st3"
    using load_from_file_store_inv [OF l(1) save_to_file_store_inv [OF surjective_pairing assms(1)]] .
  have m: "map snd (map (\<lambda>(k, ob). (k, obj_to_second ob)) d) = map obj_to_second (map snd d)"
    by (induction d) auto
  have fl: "filter (matches (sid_query sid)) (map obj_to_second (map snd d)) =
      map obj_to_second (filter (matches (sid_query sid)) (map snd d))"
    by (simp add: filter_map comp_def matches_sid_to_second)
  have "search CUserSession (sid_query sid) st3 =
      (st3, Inr (filter (matches (sid_query sid)) (map snd (map (\<lambda>(k, ob). (k, obj_to_second ob)) d))))"
    by (rule search_filter [OF l(2) store_sessions_have_sid [OF inv3 l(2)]])
  also have "\<dots> = (st3, Inr (obj_to_second (SessionObj us) # map obj_to_second rest))"
    unfolding m fl assms(4) by simp
  finally have "search CUserSession (sid_query sid) st3 =
      (st3, Inr (obj_to_second (SessionObj us) # map obj_to_second rest))" .
  then show ?thesis using st3 assms(5) by (auto simp: user_id_for_session_id_def)
qed

text \<open>
  C31. Under the basic-credential strategy, every request to a path both apps protect
  that carries a non-empty session cookie and no \<open>Authorization\<close> header is
  refused with 401 by the 0x01 gate and with 403 by the 0x02 gate, whatever the
  state.
\<close>

theorem gate_cookie_divergence:
  assumes "kind cfg = BasicAuth" "rq_path rq \<noteq> ''/api/v1/auth_session/login/''"
    "\<not> path_excluded (rq_path rq) excluded_paths01"
    "\<not> truthy_str (authorization_header rq)" "truthy_str (session_cookie cfg rq)"
  shows "handle_auth01 (Some cfg) sha rq (ast_store s) = GAbort 401 \<and> handle_auth (Some cfg) sha now rq s = GAbort 403"
  using assms path_excluded_lists [OF assms(2)]
  by (simp add: handle_auth01_def handle_auth_def require_auth_def current_user_def basic_current_user_def
      request_credentials_def extract_base64_authorization_header_def decode_base64_authorization_header_def
      extract_user_credentials_def user_object_from_credentials_def truthy_str_def split: option.splits)

section \<open>Witnesses\<close>

theorem reachable_store_inv_witness:
  "store_reachable (fst (save t0 (UserObj \<lparr>obj_id = JStr ''u1'', created_at = t0, updated_at = t0,
      email = JStr ''a@b.com'', password = JNull, first_name = JStr ''Alice'', last_name = JNull\<rparr>)
      (fst (construct CUser kw_alice ''u1'' t0 st0)))) \<and>
   store_inv (fst (save t0 (UserObj \<lparr>obj_id = JStr ''u1'', created_at = t0, updated_at = t0,
      email = JStr ''a@b.com'', password = JNull, first_name = JStr ''Alice'', last_name = JNull\<rparr>)
      (fst (construct CUser kw_alice ''u1'' t0 st0))))"
proof -
  have r0: "store_reachable st0"
    by (rule reach_init) (simp_all add: st0_def files_inv_def)
  have r1: "store_reachable (fst (construct CUser kw_alice ''u1'' t0 st0))"
    by (rule reach_step [OF r0 step_construct [OF surjective_pairing]])
  have r2: "store_reachable (fst (save t0 (UserObj \<lparr>obj_id = JStr ''u1'', created_at = t0, updated_at = t0,
      email = JStr ''a@b.com'', password = JNull, first_name = JStr ''Alice'', last_name = JNull\<rparr>)
      (fst (construct CUser kw_alice ''u1'' t0 st0))))"
    by (rule reach_step [OF r1 step_save [OF _ surjective_pairing]]) simp
  show ?thesis using r2 reachable_store_inv [OF r2] by simp
qed

theorem save_get_witness:
  "\<exists>st' ob'. save t0 (UserObj alice) st_reg = (st', Inr ob') \<and>
     get (class_of (UserObj alice)) (oid (UserObj alice)) st' = (st', Inr (Some ob')) \<and>
     ob' = touch t0 (UserObj alice)"
proof -
  obtain st' ob' where eq: "save t0 (UserObj alice) st_reg = (st', Inr ob')"
    by (simp add: save_Some st_reg_def Let_def)
  show ?thesis using save_get [OF eq] eq by blast
qed

theorem remove_get_witness:
  "\<exists>st'. remove (UserObj alice) st_one = (st', Inr ()) \<and>
     get (class_of (UserObj alice)) (oid (UserObj alice)) st' = (st', Inr None)"
proof -
  obtain st' where eq: "remove (UserObj alice) st_one = (st', Inr ())"
    by (simp add: remove_def st_one_def alice_def save_to_file_def)
  show ?thesis using remove_get [OF eq] eq by blast
qed

theorem search_spec_witness:
  "data st_one CUser = Some [(JStr ''u1'', UserObj alice)] \<and>
   list_all (has_attrs [(''email'', AJ (JStr ''a@b.com''))]) (map snd [(JStr ''u1'', UserObj alice)]) \<and>
   search CUser [(''email'', AJ (JStr ''a@b.com''))] st_one =
     (st_one, Inr (filter (matches [(''email'', AJ (JStr ''a@b.com''))]) (map snd [(JStr ''u1'', UserObj alice)]))) \<and>
   filter (matches [(''email'', AJ (JStr ''a@b.com''))]) (map snd [(JStr ''u1'', UserObj alice)]) = [UserObj alice]"
proof -
  have d: "data st_one CUser = Some [(JStr ''u1'', UserObj alice)]" by (simp add: st_one_def)
  have h: "list_all (has_attrs [(''email'', AJ (JStr ''a@b.com''))]) (map snd [(JStr ''u1'', UserObj alice)])"
    by (simp add: has_attrs_def getattr_obj_def)
  have m: "filter (matches [(''email'', AJ (JStr ''a@b.com''))]) (map snd [(JStr ''u1'', UserObj alice)]) = [UserObj alice]"
    by (simp add: matches_def getattr_obj_def alice_def)
  show ?thesis using search_spec [OF d h] d h m by simp
qed

theorem count_save_witness:
  "data st_reg (class_of (UserObj alice)) = Some [] \<and>
   count (class_of (UserObj alice)) (fst (save t0 (UserObj alice) st_reg)) =
     (fst (save t0 (UserObj alice) st_reg), Inr 1)"
proof -
  have d: "data st_reg (class_of (UserObj alice)) = Some []" by (simp add: st_reg_def)
  show ?thesis using count_save [OF d surjective_pairing] d by simp
qed

theorem save_load_roundtrip_witness:
  "store_inv st_one \<and> data st_one CUser = Some [(JStr ''u1'', UserObj alice)] \<and>
   obj_valid (UserObj alice) \<and>
   (\<exists>st2. load_from_file CUser (\<lambda>_. ''x'') t0 (fst (save_to_file CUser st_one)) = (st2, Inr ()) \<and>
      data st2 CUser = Some [(JStr ''u1'', obj_to_second (UserObj alice))])"
proof -
  have i: "store_inv st_one"
    by (simp add: store_inv_def data_inv_def files_inv_def st_one_def dict_keys_distinct_def alice_def)
  have d: "data st_one CUser = Some [(JStr ''u1'', UserObj alice)]" by (simp add: st_one_def)
  have v: "\<forall>ob\<in>snd ` set [(JStr ''u1'', UserObj alice)]. obj_valid ob"
    by (simp add: alice_def t0_def valid_datetime_def days_in_month_def)
  show ?thesis using save_load_roundtrip [OF i d v, of "\<lambda>_. ''x''" t0] i d v by simp
qed

theorem load_parse_error_witness:
  "files st_bad_file (db_path CUser) =
     Some [(''u1'', [(''id'', JStr ''u1''), (''created_at'', JStr ''2024-13-01T00:00:00'')])] \<and>
   parse_datetime (kw_get [(''id'', JStr ''u1''), (''created_at'', JStr ''2024-13-01T00:00:00'')] ''created_at'') t0
     = Inl ValueError \<and>
   snd (load_from_file CUser (\<lambda>_. ''x'') t0 st_bad_file) = Inl ValueError \<and>
   data (fst (load_from_file CUser (\<lambda>_. ''x'') t0 st_bad_file)) CUser = Some []"
proof -
  have f: "files st_bad_file (db_path CUser) =
     Some [(''u1'', [(''id'', JStr ''u1''), (''created_at'', JStr ''2024-13-01T00:00:00'')])]"
    by (simp add: st_bad_file_def)
  have p: "parse_datetime (kw_get [(''id'', JStr ''u1''), (''created_at'', JStr ''2024-13-01T00:00:00'')] ''created_at'') t0
     = Inl ValueError"
    by (simp add: parse_datetime_def kw_get_def strptime_ts_def split_fields_def split_at_def dig_in_def)
  show ?thesis using load_parse_error [OF f p] f p by simp
qed

theorem unregistered_key_error_witness:
  "data st0 CUser = None \<and> count CUser st0 = (st0, Inl KeyError) \<and>
   get CUser (JStr ''u1'') st0 = (st0, Inl KeyError) \<and> search CUser [] st0 = (st0, Inl KeyError) \<and>
   save t0 (UserObj alice) st0 = (st0, Inl KeyError)"
proof -
  have d: "data st0 CUser = None" by (simp add: st0_def)
  show ?thesis using unregistered_key_error [OF d, of "JStr ''u1''" "[]" "UserObj alice" t0] d by simp
qed

lemma ts_items_good: "list_all (\<lambda>(k, j). ts_args_ok j) items_good"
  by (simp add: items_good_def ts_args_ok_def)

lemma ts_items_mixed: "list_all (\<lambda>(k, j). ts_args_ok j) items_mixed"
  by (simp add: items_mixed_def items_good_def ts_args_ok_def)

theorem load_users01_equiv_witness:
  "files (st_file items_good) (db_path CUser) = Some items_good \<and>
   list_all (\<lambda>(k, j). ts_args_ok j) items_good \<and>
   snd (load_from_file CUser (\<lambda>_. ''x'') t0 (st_file items_good)) = Inr () \<and>
   load_users01 (\<lambda>_. ''x'') t0 (st_file items_good) = load_from_file CUser (\<lambda>_. ''x'') t0 (st_file items_good)"
proof -
  have f: "files (st_file items_good) (db_path CUser) = Some items_good" by (simp add: st_file_def)
  have ok: "\<forall>(k, j)\<in>set items_good. ts_args_ok j" using ts_items_good by (simp add: list_all_iff)
  have r: "snd (load_from_file CUser (\<lambda>_. ''x'') t0 (st_file items_good)) = Inr ()"
    by (simp add: load_from_file_def st_file_def items_good_def construct_def register_class_def
        user_init_def base_fields_def parse_datetime_def kw_get_def strptime_ts_def split_fields_def
        split_at_def dig_in_def tok_val_def valid_datetime_def days_in_month_def is_leap_def)
  show ?thesis using load_users01_equiv [OF f ok] f ts_items_good r by simp
qed

theorem load_error_divergence_witness:
  "files (st_file items_mixed) (db_path CUser) = Some items_mixed \<and>
   list_all (\<lambda>(k, j). ts_args_ok j) items_mixed \<and>
   snd (load_from_file CUser (\<lambda>_. ''x'') t0 (st_file items_mixed)) = Inl ValueError \<and>
   data (fst (load_users01 (\<lambda>_. ''x'') t0 (st_file items_mixed))) CUser = Some [] \<and>
   data (fst (load_from_file CUser (\<lambda>_. ''x'') t0 (st_file items_mixed))) CUser =
     Some (fst (fold_users user_init (\<lambda>_. ''x'') t0 0 items_mixed [])) \<and>
   length (fst (fold_users user_init (\<lambda>_. ''x'') t0 0 items_mixed [])) = 1"
proof -
  have f: "files (st_file items_mixed) (db_path CUser) = Some items_mixed" by (simp add: st_file_def)
  have ok: "\<forall>(k, j)\<in>set items_mixed. ts_args_ok j" using ts_items_mixed by (simp add: list_all_iff)
  have ev: "fold_users user_init (\<lambda>_. ''x'') t0 0 items_mixed [] =
      (fst (fold_users user_init (\<lambda>_. ''x'') t0 0 items_mixed []), Inl ValueError) \<and>
      length (fst (fold_users user_init (\<lambda>_. ''x'') t0 0 items_mixed [])) = 1"
    by (simp add: items_mixed_def items_good_def user_init_def base_fields_def parse_datetime_def kw_get_def
        strptime_ts_def split_fields_def split_at_def dig_in_def tok_val_def valid_datetime_def
        days_in_month_def is_leap_def)
  have e: "snd (load_from_file CUser (\<lambda>_. ''x'') t0 (st_file items_mixed)) = Inl ValueError"
    using load_from_file_fold [OF f, of "\<lambda>_. ''x''" t0] ev by (metis prod.sel(2))
  show ?thesis using load_error_divergence [OF f ok e] f ts_items_mixed e ev by simp
qed

theorem class_methods01_equiv_witness:
  "data st_one CUser = Some [(JStr ''u1'', UserObj alice)] \<and>
   count01 CUser st_one = count CUser st_one \<and> get01 CUser (JStr ''u1'') st_one = get CUser (JStr ''u1'') st_one \<and>
   search01 CUser [] st_one = search CUser [] st_one"
proof -
  have d: "data st_one CUser = Some [(JStr ''u1'', UserObj alice)]" by (simp add: st_one_def)
  show ?thesis using class_methods01_equiv [OF d, of "JStr ''u1''" "[]"] d by simp
qed

theorem class_methods01_unregistered_witness:
  "data st0 CUser = None \<and> count01 CUser st0 = (st0, Inr 0) \<and> get01 CUser (JStr ''u1'') st0 = (st0, Inr None) \<and>
   search01 CUser [] st0 = (st0, Inr [])"
proof -
  have d: "data st0 CUser = None" by (simp add: st0_def)
  show ?thesis using class_methods01_unregistered [OF d, of "JStr ''u1''" "[]"] d by simp
qed

lemma store_inv_st_one: "store_inv st_one"
  by (simp add: store_inv_def data_inv_def files_inv_def st_one_def dict_keys_distinct_def alice_def)

theorem create_user_password_dropped_witness:
  "create_ok (JsonObj kw_post) \<and>
   (\<exists>st' b u. create_user t0 ''u9'' (JsonObj kw_post) st0 = (st', Inr (Response 201 b)) \<and>
     get CUser (JStr ''u9'') st' = (st', Inr (Some (UserObj u))) \<and> password u = JNull \<and>
     (\<forall>sha p. \<not> is_valid_password sha u p))"
proof -
  have h: "create_ok (JsonObj kw_post)" by (simp add: kw_post_def kw_get_def)
  show ?thesis using h create_user_password_dropped [OF h, of t0 "''u9''" st0] by blast
qed

theorem delete_then_not_found_witness:
  "store_inv st_one \<and> ''u1'' \<noteq> ''me'' \<and>
   (\<exists>st' r. delete_user (Some ''u1'') st_one = (st', Inr r) \<and>
      view_one_user Unset (Some ''u1'') st' = (st', Inr (abort_response 404)))"
proof -
  obtain st' r where d: "delete_user (Some ''u1'') st_one = (st', Inr r)"
    by (simp add: delete_user_def get_user_by_id_def get_def bind_op_def st_one_def alice_def remove_def
        save_to_file_def)
  have n: "''u1'' \<noteq> ''me''" by simp
  show ?thesis using delete_then_not_found [OF store_inv_st_one d n, of Unset] store_inv_st_one d n by blast
qed

theorem update_user_frame_witness:
  "store_inv st_one \<and>
   (\<exists>st' b. update_user t0 (Some ''u1'') (JsonObj [(''first_name'', JStr ''Bob'')]) st_one = (st', Inr (Response 200 b)) \<and>
     (\<exists>u u'. get CUser (JStr ''u1'') st_one = (st_one, Inr (Some (UserObj u))) \<and>
       get CUser (JStr ''u1'') st' = (st', Inr (Some (UserObj u'))) \<and>
       u' = u\<lparr>updated_at := t0, first_name := JStr ''Bob'', last_name := last_name u\<rparr>))"
proof -
  obtain st' b where d: "update_user t0 (Some ''u1'') (JsonObj [(''first_name'', JStr ''Bob'')]) st_one = (st', Inr (Response 200 b))"
    by (simp add: update_user_def update_body_def get_user_by_id_def get_def bind_op_def st_one_def alice_def
        save_def save_to_file_def Let_def)
  show ?thesis using update_user_frame [OF store_inv_st_one d] store_inv_st_one d by (auto simp: kw_get_def)
qed

theorem session_create_lookup_witness:
  "is_str (JStr ''u1'') \<and>
   fst (create_session SessionAuth ''tok1'' ''x'' t0 (JStr ''u1'') as_one) = as_tok \<and>
   snd (create_session SessionAuth ''tok1'' ''x'' t0 (JStr ''u1'') as_one) = Inr (Some ''tok1'') \<and>
   user_id_for_session_id SessionAuth t0 (Some ''tok1'') as_tok = Some (JStr ''u1'')"
proof -
  have h: "SessionAuth = SessionAuth \<or> (SessionAuth = SessionExpAuth 0 \<and> ((0::int) \<le> 0 \<or> \<not> expired 0 t0 t0))"
    by simp
  have cr: "create_session SessionAuth ''tok1'' ''x'' t0 (JStr ''u1'') as_one = (as_tok, Inr (Some ''tok1''))"
    by (simp add: create_session_def as_one_def as_tok_def)
  have s: "is_str (JStr ''u1'')" by simp
  show ?thesis using session_create_lookup [OF s h cr] cr s by simp
qed

theorem session_destroy_witness:
  "session_cookie cfg_sess rq_me = Some ''tok1'' \<and>
   user_id_for_session_id (kind cfg_sess) t0 (Some ''tok1'') as_tok = Some (JStr ''u1'') \<and>
   snd (destroy_session cfg_sess t0 rq_me as_tok) = Inr True \<and>
   user_id_for_session_id (kind cfg_sess) t0 (Some ''tok1'') (fst (destroy_session cfg_sess t0 rq_me as_tok)) = None"
proof -
  have k: "\<forall>d. kind cfg_sess \<noteq> SessionDBAuth d" by (simp add: cfg_sess_def)
  have c: "session_cookie cfg_sess rq_me = Some ''tok1''"
    by (simp add: session_cookie_def cfg_sess_def rq_me_def)
  have u: "user_id_for_session_id (kind cfg_sess) t0 (Some ''tok1'') as_tok = Some (JStr ''u1'')"
    by (simp add: user_id_for_session_id_def cfg_sess_def as_tok_def)
  show ?thesis using session_destroy [OF k c _ surjective_pairing, of t0 as_tok t0] c u by simp
qed

theorem gate_session_expiry_witness:
  "get CUser (JStr ''u1'') (ast_store as_exp) = (ast_store as_exp, Inr (Some (UserObj alice))) \<and>
   handle_auth (Some cfg_exp) sha0 (t0\<lparr>dt_minute := 5, dt_second := 4\<rparr>) rq_me as_exp = GPass (CurUser (Some (UserObj alice))) \<and>
   handle_auth (Some cfg_exp) sha0 (t0\<lparr>dt_minute := 5, dt_second := 5\<rparr>) rq_me as_exp = GPass (CurUser (Some (UserObj alice))) \<and>
   handle_auth (Some cfg_exp) sha0 (t0\<lparr>dt_minute := 5, dt_second := 6\<rparr>) rq_me as_exp = GAbort 403"
proof -
  have i: "store_inv (ast_store as_exp)" using store_inv_st_one by (simp add: as_exp_def)
  have p: "0 < (60::int)" by simp
  have k: "kind cfg_exp = SessionExpAuth 60" by (simp add: cfg_exp_def)
  have r: "require_auth (kind cfg_exp) (rq_path rq_me) excluded_list"
    by (simp add: require_auth_def cfg_exp_def rq_me_def path_excluded_def excluded_list_def)
  have c: "session_cookie cfg_exp rq_me = Some ''tok1''" by (simp add: session_cookie_def cfg_exp_def rq_me_def)
  have n: "''tok1'' \<noteq> []" by simp
  have m: "map_of (ast_sessions as_exp) ''tok1'' = Some (SDict (JStr ''u1'') t0)" by (simp add: as_exp_def)
  have g: "get CUser (JStr ''u1'') (ast_store as_exp) = (ast_store as_exp, Inr (Some (UserObj alice)))"
    by (simp add: get_def as_exp_def st_one_def)
  note b = gate_session_expiry [OF i p k r c n m g, where sha = sha0]
  have "dt_micro t0 = 63839847845000600"
    by (simp add: dt_micro_def ordinal_def t0_def)
  moreover have "dt_micro (t0\<lparr>dt_minute := 5, dt_second := 4\<rparr>) = 63839847904000600"
    "dt_micro (t0\<lparr>dt_minute := 5, dt_second := 5\<rparr>) = 63839847905000600"
    "dt_micro (t0\<lparr>dt_minute := 5, dt_second := 6\<rparr>) = 63839847906000600"
    by (simp_all add: dt_micro_def ordinal_def t0_def)
  ultimately show ?thesis using b [of "t0\<lparr>dt_minute := 5, dt_second := 4\<rparr>"] b [of "t0\<lparr>dt_minute := 5, dt_second := 5\<rparr>"]
      b [of "t0\<lparr>dt_minute := 5, dt_second := 6\<rparr>"] g by simp
qed

lemma store_inv_st_sess: "store_inv st_sess"
  by (simp add: store_inv_def data_inv_def files_inv_def st_sess_def dict_keys_distinct_def alice_def sess1_def)

theorem session_db_create_lookup_witness:
  "store_inv (ast_store as_one) \<and> is_str (JStr ''u1'') \<and> data (ast_store as_one) CUserSession = None \<and>
   \<not> expired 60 t0 t0 \<and>
   snd (create_session (SessionDBAuth 60) ''tok1'' ''s1'' t0 (JStr ''u1'') as_one) = Inr (Some ''tok1'') \<and>
   user_id_for_session_id (SessionDBAuth 60) t0 (Some ''tok1'')
     (fst (create_session (SessionDBAuth 60) ''tok1'' ''s1'' t0 (JStr ''u1'') as_one)) = Some (JStr ''u1'')"
proof -
  have i: "store_inv (ast_store as_one)" using store_inv_st_one by (simp add: as_one_def)
  have s: "is_str (JStr ''u1'')" by simp
  have n: "data (ast_store as_one) CUserSession = None" by (simp add: as_one_def st_one_def)
  then have f: "\<forall>d. data (ast_store as_one) CUserSession = Some d \<longrightarrow>
      (\<forall>x\<in>snd ` set d. \<not> matches (sid_query ''tok1'') x)" by simp
  have e: "\<not> expired 60 t0 t0" by (simp add: expired_def)
  then have e': "(60::int) \<le> 0 \<or> \<not> expired 60 t0 t0" by simp
  show ?thesis using session_db_create_lookup [OF i s f e' surjective_pairing] i s n e by simp
qed

theorem session_db_destroy_witness:
  "store_inv (ast_store \<lparr>ast_store = st_sess, ast_sessions = []\<rparr>) \<and> kind cfg_db = SessionDBAuth 60 \<and>
   session_cookie cfg_db rq_me = Some ''tok1'' \<and>
   data st_sess CUserSession = Some [(JStr ''s1'', SessionObj sess1)] \<and>
   filter (matches (sid_query ''tok1'')) (map snd [(JStr ''s1'', SessionObj sess1)]) = [SessionObj sess1] \<and>
   snd (destroy_session cfg_db t0 rq_me \<lparr>ast_store = st_sess, ast_sessions = []\<rparr>) = Inr True \<and>
   user_id_for_session_id (SessionDBAuth 60) t0 (Some ''tok1'')
     (fst (destroy_session cfg_db t0 rq_me \<lparr>ast_store = st_sess, ast_sessions = []\<rparr>)) = None"
proof -
  have i: "store_inv (ast_store \<lparr>ast_store = st_sess, ast_sessions = []\<rparr>)" using store_inv_st_sess by simp
  have k: "kind cfg_db = SessionDBAuth 60" by (simp add: cfg_db_def)
  have c: "session_cookie cfg_db rq_me = Some ''tok1''" by (simp add: session_cookie_def cfg_db_def rq_me_def)
  have d: "data (ast_store \<lparr>ast_store = st_sess, ast_sessions = []\<rparr>) CUserSession = Some [(JStr ''s1'', SessionObj sess1)]"
    by (simp add: st_sess_def)
  have m: "filter (matches (sid_query ''tok1'')) (map snd [(JStr ''s1'', SessionObj sess1)]) = [SessionObj sess1]"
    by (simp add: matches_def sid_query_def getattr_obj_def sess1_def)
  show ?thesis using session_db_destroy [OF i k c d m surjective_pairing, of t0] i k c d m by simp
qed

theorem app_reachable_inv_witness:
  "app_reachable cfg_sess (fst (create_session SessionAuth ''tok1'' ''x'' t0 (JStr ''u1'')
      \<lparr>ast_store = st0, ast_sessions = []\<rparr>)) \<and>
   store_inv (ast_store (fst (create_session SessionAuth ''tok1'' ''x'' t0 (JStr ''u1'')
      \<lparr>ast_store = st0, ast_sessions = []\<rparr>))) \<and>
   sessions_shape SessionAuth (ast_sessions (fst (create_session SessionAuth ''tok1'' ''x'' t0 (JStr ''u1'')
      \<lparr>ast_store = st0, ast_sessions = []\<rparr>)))"
proof -
  have r0: "app_reachable cfg_sess \<lparr>ast_store = st0, ast_sessions = []\<rparr>"
    by (rule app_init) (simp_all add: st0_def files_inv_def)
  have k: "kind cfg_sess = SessionAuth" by (simp add: cfg_sess_def)
  have r1: "app_reachable cfg_sess (fst (create_session SessionAuth ''tok1'' ''x'' t0 (JStr ''u1'')
      \<lparr>ast_store = st0, ast_sessions = []\<rparr>))"
    using app_next [OF r0 app_login [OF surjective_pairing]] k by simp
  show ?thesis using r1 app_reachable_inv [OF r1] k by simp
qed

theorem gate_pass_stored_witness:
  "store_inv (ast_store as_tok) \<and>
   handle_auth (Some cfg_sess) sha0 t0 rq_me as_tok = GPass (CurUser (Some (UserObj alice))) \<and>
   class_of (UserObj alice) = CUser \<and>
   get CUser (oid (UserObj alice)) (ast_store as_tok) = (ast_store as_tok, Inr (Some (UserObj alice)))"
proof -
  have i: "store_inv (ast_store as_tok)" using store_inv_st_one by (simp add: as_tok_def)
  have h: "handle_auth (Some cfg_sess) sha0 t0 rq_me as_tok = GPass (CurUser (Some (UserObj alice)))"
    by (simp add: handle_auth_def cfg_sess_def rq_me_def as_tok_def require_auth_def path_excluded_def
        excluded_list_def authorization_header_def session_cookie_def truthy_str_def current_user_def
        user_id_for_session_id_def get_def st_one_def)
  show ?thesis using gate_pass_stored [OF i h] i h by simp
qed

theorem gate_excluded_witness:
  "rq_path (rq_status\<lparr>rq_path := ''/api/v1/status/''\<rparr>) \<in> set excluded_list \<and>
   handle_auth (Some cfg_basic) sha0 t0 (rq_status\<lparr>rq_path := ''/api/v1/status/''\<rparr>) as_one = GPass Unset"
proof -
  have p: "rq_path (rq_status\<lparr>rq_path := ''/api/v1/status/''\<rparr>) \<in> set excluded_list"
    by (simp add: excluded_list_def)
  show ?thesis using gate_excluded [OF p] p by simp
qed

theorem gate01_gate02_basic_witness:
  "kind cfg_basic = BasicAuth \<and> rq_path (rq_basic ''secret'') \<noteq> ''/api/v1/auth_session/login/'' \<and>
   truthy_str (authorization_header (rq_basic ''secret'')) \<and>
   handle_auth01 (Some cfg_basic) sha0 (rq_basic ''secret'') st_pw =
     erase_user (handle_auth (Some cfg_basic) sha0 t0 (rq_basic ''secret'') \<lparr>ast_store = st_pw, ast_sessions = []\<rparr>)"
proof -
  have k: "kind cfg_basic = BasicAuth" by (simp add: cfg_basic_def)
  have p: "rq_path (rq_basic ''secret'') \<noteq> ''/api/v1/auth_session/login/''" by (simp add: rq_basic_def)
  have t: "truthy_str (authorization_header (rq_basic ''secret''))"
    by (simp add: truthy_str_def authorization_header_def rq_basic_def)
  show ?thesis using gate01_gate02_basic [OF k p, of sha0 "\<lparr>ast_store = st_pw, ast_sessions = []\<rparr>" t0] k p t by simp
qed

theorem session_login_flow_witness:
  "get CUser (JStr ''u1'') (ast_store as_one) = (ast_store as_one, Inr (Some (UserObj alice))) \<and>
   require_auth (kind cfg_sess) (rq_path rq_me) excluded_list \<and>
   dispatch (Some cfg_sess) sha0 t0 rq_me (\<lambda>cu. view_one_user cu (Some ''me''))
     (fst (create_session SessionAuth ''tok1'' ''x'' t0 (JStr ''u1'') as_one)) =
     (fst (create_session SessionAuth ''tok1'' ''x'' t0 (JStr ''u1'') as_one),
      Response 200 (BObj (to_json False (UserObj alice)))) \<and>
   dispatch (Some cfg_sess) sha0 t0 rq_me (\<lambda>cu. view_one_user cu (Some ''me''))
     (fst (destroy_session cfg_sess t0 rq_me (fst (create_session SessionAuth ''tok1'' ''x'' t0 (JStr ''u1'') as_one)))) =
     (fst (destroy_session cfg_sess t0 rq_me (fst (create_session SessionAuth ''tok1'' ''x'' t0 (JStr ''u1'') as_one))),
      abort_response 403)"
proof -
  have i: "store_inv (ast_store as_one)" using store_inv_st_one by (simp add: as_one_def)
  have g: "get CUser (JStr ''u1'') (ast_store as_one) = (ast_store as_one, Inr (Some (UserObj alice)))"
    by (simp add: get_def as_one_def st_one_def)
  have k: "kind cfg_sess = SessionAuth" by (simp add: cfg_sess_def)
  have c: "session_cookie cfg_sess rq_me = Some ''tok1''" by (simp add: session_cookie_def cfg_sess_def rq_me_def)
  have n: "''tok1'' \<noteq> []" by simp
  have r: "require_auth (kind cfg_sess) (rq_path rq_me) excluded_list"
    by (simp add: require_auth_def cfg_sess_def rq_me_def path_excluded_def excluded_list_def)
  show ?thesis using session_login_flow [OF i g k c n r surjective_pairing surjective_pairing, where sha = sha0 and now'' = t0] g r
    by simp
qed

theorem basic_login_flow_witness:
  "data (ast_store \<lparr>ast_store = st_pw, ast_sessions = []\<rparr>) CUser = Some [(JStr ''u1'', UserObj alice_pw)] \<and>
   filter (matches [(''email'', AJ (JStr ''a@b.com''))]) (map snd [(JStr ''u1'', UserObj alice_pw)]) = [UserObj alice_pw] \<and>
   handle_auth (Some cfg_basic) sha0 t0 (rq_basic ''secret'') \<lparr>ast_store = st_pw, ast_sessions = []\<rparr> =
     GPass (CurUser (Some (UserObj alice_pw))) \<and>
   handle_auth (Some cfg_basic) sha0 t0 (rq_basic ''wrong'') \<lparr>ast_store = st_pw, ast_sessions = []\<rparr> = GAbort 403"
proof -
  have i: "store_inv (ast_store \<lparr>ast_store = st_pw, ast_sessions = []\<rparr>)"
    by (simp add: store_inv_def data_inv_def files_inv_def st_pw_def dict_keys_distinct_def alice_pw_def alice_def)
  have d: "data (ast_store \<lparr>ast_store = st_pw, ast_sessions = []\<rparr>) CUser = Some [(JStr ''u1'', UserObj alice_pw)]"
    by (simp add: st_pw_def)
  have m: "filter (matches [(''email'', AJ (JStr ''a@b.com''))]) (map snd [(JStr ''u1'', UserObj alice_pw)]) = [UserObj alice_pw]"
    by (simp add: matches_def getattr_obj_def alice_pw_def alice_def)
  have k: "kind cfg_basic = BasicAuth" by (simp add: cfg_basic_def)
  have r: "require_auth BasicAuth (rq_path (rq_basic pw)) excluded_list" for pw
    by (simp add: require_auth_def rq_basic_def path_excluded_def excluded_list_def)
  have h: "authorization_header (rq_basic pw) = Some (''Basic '' @ b64encode (''a@b.com'' @ CHR '':'' # pw))" for pw
    by (simp add: authorization_header_def rq_basic_def)
  have e: "CHR '':'' \<notin> set ''a@b.com''" by simp
  have a: "list_all (\<lambda>c. of_char c < (128::nat)) (''a@b.com'' @ CHR '':'' # ''secret'')"
    "list_all (\<lambda>c. of_char c < (128::nat)) (''a@b.com'' @ CHR '':'' # ''wrong'')" by simp_all
  have p: "password alice_pw = JStr ''secret''" by (simp add: alice_pw_def)
  have l: "py_lower ''secret'' = ''secret''" "py_lower ''wrong'' \<noteq> ''secret''" by code_simp+
  show ?thesis
    using basic_login_flow [OF i d m k r h e a(1) p, of sha0 t0] basic_login_flow [OF i d m k r h e a(2) p, of sha0 t0] d m l
    by (simp add: sha0_def)
qed

theorem posted_user_cannot_login_witness:
  "create_ok (JsonObj kw_post) \<and> kind cfg_basic = BasicAuth \<and>
   get CUser (JStr ''u9'') (fst (create_user t0 ''u9'' (JsonObj kw_post) st0)) =
     (fst (create_user t0 ''u9'' (JsonObj kw_post) st0), Inr (Some (UserObj (new_user t0 ''u9'' kw_post)))) \<and>
   handle_auth (Some cfg_basic) sha0 t0 (rq_basic ''secret'')
     \<lparr>ast_store = fst (create_user t0 ''u9'' (JsonObj kw_post) st0), ast_sessions = []\<rparr> \<noteq>
     GPass (CurUser (Some (UserObj (new_user t0 ''u9'' kw_post))))"
proof -
  have h: "create_ok (JsonObj kw_post)" by (simp add: kw_post_def kw_get_def)
  have k: "kind cfg_basic = BasicAuth" by (simp add: cfg_basic_def)
  show ?thesis
    using posted_user_cannot_login [OF h surjective_pairing k, where sha = sha0 and now' = t0 and rq = "rq_basic ''secret''"
        and ss = "[]"] h k
    by simp
qed

theorem db_session_survives_restart_witness:
  "store_inv st_sess \<and> data st_sess CUserSession = Some [(JStr ''s1'', SessionObj sess1)] \<and>
   obj_valid (SessionObj sess1) \<and>
   filter (matches (sid_query ''tok1'')) (map snd [(JStr ''s1'', SessionObj sess1)]) = [SessionObj sess1] \<and>
   \<not> expired 60 (to_second (created_at sess1)) t0 \<and>
   snd (load_from_file CUserSession (\<lambda>_. ''x'') t0 (fst (save_to_file CUserSession st_sess))) = Inr () \<and>
   user_id_for_session_id (SessionDBAuth 60) t0 (Some ''tok1'')
     \<lparr>ast_store = fst (load_from_file CUserSession (\<lambda>_. ''x'') t0 (fst (save_to_file CUserSession st_sess))),
      ast_sessions = []\<rparr> = Some (JStr ''u1'')"
proof -
  have d: "data st_sess CUserSession = Some [(JStr ''s1'', SessionObj sess1)]" by (simp add: st_sess_def)
  have v: "obj_valid (SessionObj sess1)" by (simp add: sess1_def t0_def valid_datetime_def days_in_month_def)
  then have v': "\<forall>ob\<in>snd ` set [(JStr ''s1'', SessionObj sess1)]. obj_valid ob" by simp
  have m: "filter (matches (sid_query ''tok1'')) (map snd [(JStr ''s1'', SessionObj sess1)]) = [SessionObj sess1]"
    by (simp add: matches_def sid_query_def getattr_obj_def sess1_def)
  have e: "\<not> expired 60 (to_second (created_at sess1)) t0"
    by (simp add: expired_def dt_micro_def ordinal_def sess1_def t0_def to_second_def)
  then have e': "(60::int) \<le> 0 \<or> \<not> expired 60 (to_second (created_at sess1)) t0" by simp
  show ?thesis
    using db_session_survives_restart [OF store_inv_st_sess d v' m e' surjective_pairing] store_inv_st_sess d v m e
    by (simp add: sess1_def)
qed

theorem redact_row_witness:
  "filter_datum pii_fields ''***'' (format_row [(''name'', ''Bob''), (''username'', ''bob''), (''age'', ''3'')]) '';'' =
     Some (format_row (map (redact_kv pii_fields ''***'') [(''name'', ''Bob''), (''username'', ''bob''), (''age'', ''3'')])) \<and>
   format_row (map (redact_kv pii_fields ''***'') [(''name'', ''Bob''), (''username'', ''bob''), (''age'', ''3'')]) =
     ''name=***; username=***; age=3''"
proof -
  have f: "\<forall>f\<in>set pii_fields. plain '';'' f \<and> CHR '' '' \<notin> set f"
    by (simp add: pii_fields_def plain_def not_sep_def)
  have k: "\<forall>(k, v)\<in>set [(''name'', ''Bob''), (''username'', ''bob''), (''age'', ''3'')]. plain '';'' k \<and> plain '';'' v"
    by (simp add: plain_def not_sep_def)
  have e: "format_row (map (redact_kv pii_fields ''***'') [(''name'', ''Bob''), (''username'', ''bob''), (''age'', ''3'')]) =
     ''name=***; username=***; age=3''"
    by code_simp
  show ?thesis using redact_row [OF f k, of "''***''"] e by simp
qed

theorem filter_datum_no_eq_witness:
  "CHR ''='' \<notin> set ''no fields here'' \<and>
   filter_datum pii_fields ''***'' ''no fields here'' '';'' = Some ''no fields here'' \<and>
   filter_datum pii_fields ''***'' ''no fields here'' [] = None"
proof -
  have e: "CHR ''='' \<notin> set ''no fields here''" by simp
  show ?thesis using filter_datum_no_eq [OF e, of pii_fields "''***''"] e by simp
qed

theorem redacting_format_user_line_witness:
  "distinct [''name'', ''ssn''] \<and>
   redacting_format pii_fields (rec0\<lparr>lr_msg := user_line [''name'', ''ssn''] [''Bob'', ''123'']\<rparr>) =
   (let m = format_row (map (redact_kv pii_fields ''***'') (zip [''name'', ''ssn''] [''Bob'', ''123''])) in
     (rec0\<lparr>lr_msg := m\<rparr>, holberton_format (rec0\<lparr>lr_msg := m\<rparr>)))"
proof -
  have d: "distinct [''name'', ''ssn'']" by simp
  have l: "length [''name'', ''ssn''] = length [''Bob'', ''123'']" by simp
  have k: "\<forall>k\<in>set [''name'', ''ssn'']. plain '';'' k" "\<forall>v\<in>set [''Bob'', ''123'']. plain '';'' v"
    by (simp_all add: plain_def not_sep_def)
  show ?thesis using redacting_format_user_line [OF d l k] d by simp
qed

theorem store_refinement_witness:
  "data st_one CUser = Some [(JStr ''u1'', UserObj alice)] \<and> store_inv st_one \<and>
   abs_store (fst (save t0 (UserObj alice) st_one)) = (abs_store st_one)((CUser, JStr ''u1'') \<mapsto> touch t0 (UserObj alice)) \<and>
   abs_store (fst (remove (UserObj alice) st_one)) = (abs_store st_one)((CUser, JStr ''u1'') := None) \<and>
   snd (get CUser (JStr ''u1'') st_one) = Inr (abs_store st_one (CUser, JStr ''u1'')) \<and>
   snd (count CUser st_one) = Inr (card {i. abs_store st_one (CUser, i) \<noteq> None})"
proof -
  have d: "data st_one CUser = Some [(JStr ''u1'', UserObj alice)]" by (simp add: st_one_def)
  have o: "oid (UserObj alice) = JStr ''u1''" "class_of (UserObj alice) = CUser" by (simp_all add: alice_def)
  show ?thesis using store_refinement [OF d store_inv_st_one, of "UserObj alice" t0 "JStr ''u1''"] d o store_inv_st_one
    by simp
qed

theorem gate_session_exp_eventually_refused_witness:
  "store_inv (ast_store as_exp) \<and> kind cfg_exp = SessionExpAuth 60 \<and>
   require_auth (kind cfg_exp) (rq_path rq_me) excluded_list \<and> session_cookie cfg_exp rq_me = Some ''tok1'' \<and>
   (\<exists>T. \<forall>now. handle_auth (Some cfg_exp) sha0 now rq_me as_exp = GAbort 403 \<or> int (dt_micro now) \<le> T)"
proof -
  have i: "store_inv (ast_store as_exp)" using store_inv_st_one by (simp add: as_exp_def)
  have d: "data (ast_store as_exp) CUser = Some [(JStr ''u1'', UserObj alice)]" by (simp add: as_exp_def st_one_def)
  have p: "0 < (60::int)" by simp
  have k: "kind cfg_exp = SessionExpAuth 60" by (simp add: cfg_exp_def)
  have r: "require_auth (kind cfg_exp) (rq_path rq_me) excluded_list"
    by (simp add: require_auth_def cfg_exp_def rq_me_def path_excluded_def excluded_list_def)
  have c: "session_cookie cfg_exp rq_me = Some ''tok1''" by (simp add: session_cookie_def cfg_exp_def rq_me_def)
  have n: "''tok1'' \<noteq> []" by simp
  show ?thesis using gate_session_exp_eventually_refused [OF i d p k r c n, where sha = sha0] i k r c by simp
qed

theorem dispatch01_dispatch_basic_witness:
  "kind cfg_basic = BasicAuth \<and> rq_path (rq_basic ''secret'') \<noteq> ''/api/v1/auth_session/login/'' \<and>
   truthy_str (authorization_header (rq_basic ''secret'')) \<and>
   dispatch01 (Some cfg_basic) sha0 (rq_basic ''secret'') (\<lambda>cu. view_all_users) st_pw =
     (case dispatch (Some cfg_basic) sha0 t0 (rq_basic ''secret'') (\<lambda>cu. view_all_users)
        \<lparr>ast_store = st_pw, ast_sessions = []\<rparr> of (s', r) \<Rightarrow> (ast_store s', r))"
proof -
  have k: "kind cfg_basic = BasicAuth" by (simp add: cfg_basic_def)
  have p: "rq_path (rq_basic ''secret'') \<noteq> ''/api/v1/auth_session/login/''" by (simp add: rq_basic_def)
  have t: "truthy_str (authorization_header (rq_basic ''secret''))"
    by (simp add: truthy_str_def authorization_header_def rq_basic_def)
  have v: "\<forall>cu. (\<lambda>cu::ctx_user. view_all_users) cu = (\<lambda>cu. view_all_users) Unset" by simp
  show ?thesis
    using dispatch01_dispatch_basic [OF k p _ v, of sha0 "\<lparr>ast_store = st_pw, ast_sessions = []\<rparr>" t0] k p t by simp
qed

theorem main_log_redacted_witness:
  "main (\<lambda>i. ''t'') (Rows [''name'', ''age''] [[''Bob'', ''3'']]) = [''[HOLBERTON] user_data INFO t              : name=***; age=3''] \<and>
   main (\<lambda>i. ''t'') (DbError ''timeout'') = [''[HOLBERTON] user_data ERROR t              : Database error: timeout'']"
proof -
  have d: "distinct [''name'', ''age'']" by simp
  have k: "\<forall>k\<in>set [''name'', ''age'']. plain '';'' k" by (simp add: plain_def not_sep_def)
  have u: "\<forall>u\<in>set [[''Bob'', ''3'']]. length [''name'', ''age''] = length u \<and> (\<forall>v\<in>set u. plain '';'' v)"
    by (simp add: plain_def not_sep_def)
  have e: "CHR ''='' \<notin> set ''timeout''" by simp
  note m = main_log_redacted [OF d k u e, where clk = "\<lambda>i. ''t''"]
  have l1: "map (\<lambda>(i, u). holberton_format \<lparr>lr_name = ''user_data'', lr_levelname = ''INFO'', lr_asctime = ''t'',
        lr_msg = format_row (map (redact_kv pii_fields ''***'') (zip [''name'', ''age''] u))\<rparr>) (enumerate 0 [[''Bob'', ''3'']]) =
      [''[HOLBERTON] user_data INFO t              : name=***; age=3'']"
    by code_simp
  have l2: "holberton_format \<lparr>lr_name = ''user_data'', lr_levelname = ''ERROR'', lr_asctime = ''t'',
        lr_msg = ''Database error: '' @ ''timeout''\<rparr> = ''[HOLBERTON] user_data ERROR t              : Database error: timeout''"
    by code_simp
  show ?thesis using m l1 l2 by simp
qed

theorem get_logger_twice_duplicates_witness:
  "log_emit (get_logger (get_logger getLogger_user_data)) 20 ''INFO'' ''t'' (user_line [''name'', ''age''] [''Bob'', ''3'']) =
     [''[HOLBERTON] user_data INFO t              : name=***; age=3'', ''[HOLBERTON] user_data INFO t              : name=***; age=3'']"
proof -
  have d: "distinct [''name'', ''age'']" by simp
  have l: "length [''name'', ''age''] = length [''Bob'', ''3'']" by simp
  have k: "\<forall>k\<in>set [''name'', ''age'']. plain '';'' k" "\<forall>v\<in>set [''Bob'', ''3'']. plain '';'' v"
    by (simp_all add: plain_def not_sep_def)
  have h: "holberton_format \<lparr>lr_name = ''user_data'', lr_levelname = ''INFO'', lr_asctime = ''t'',
        lr_msg = format_row (map (redact_kv pii_fields ''***'') (zip [''name'', ''age''] [''Bob'', ''3'']))\<rparr> = ''[HOLBERTON] user_data INFO t              : name=***; age=3''"
    by code_simp
  show ?thesis using get_logger_twice_duplicates [OF d l k, where t = "''t''"] h by (simp add: Let_def)
qed

theorem gate_cookie_divergence_witness:
  "handle_auth01 (Some cfg_basic) sha0 rq_cookie_only st_one = GAbort 401 \<and>
   handle_auth (Some cfg_basic) sha0 t0 rq_cookie_only as_one = GAbort 403"
proof -
  have k: "kind cfg_basic = BasicAuth" by (simp add: cfg_basic_def)
  have p: "rq_path rq_cookie_only \<noteq> ''/api/v1/auth_session/login/''" by (simp add: rq_cookie_only_def)
  have x: "\<not> path_excluded (rq_path rq_cookie_only) excluded_paths01"
    by (simp add: rq_cookie_only_def path_excluded_def excluded_paths01_def)
  have h: "\<not> truthy_str (authorization_header rq_cookie_only)" "truthy_str (session_cookie cfg_basic rq_cookie_only)"
    by (simp_all add: truthy_str_def authorization_header_def session_cookie_def rq_cookie_only_def cfg_basic_def)
  have s: "ast_store as_one = st_one" by (simp add: as_one_def)
  show ?thesis using gate_cookie_divergence [OF k p x h, of sha0 as_one t0] s by simp
qed

theorem serve_401_only_gate_witness:
  "status (snd (serve (Some cfg_basic) sha0 t0 ''x'' GET rq_nope as_one)) = 401 \<and>
   route GET (rq_path rq_nope) = RNotFound \<and>
   status (snd (serve (Some cfg_basic) sha0 t0 ''x'' GET (rq_nope\<lparr>rq_path := ''/api/v1/status/''\<rparr>) as_one)) \<noteq> 401"
proof -
  have r: "require_auth (kind cfg_basic) (rq_path rq_nope) excluded_list"
    by (simp add: require_auth_def cfg_basic_def rq_nope_def path_excluded_def excluded_list_def)
  have r2: "\<not> require_auth (kind cfg_basic) (rq_path (rq_nope\<lparr>rq_path := ''/api/v1/status/''\<rparr>)) excluded_list"
    by (simp add: require_auth_def cfg_basic_def path_excluded_def excluded_list_def)
  have h: "\<not> truthy_str (authorization_header rq_nope)" "\<not> truthy_str (session_cookie cfg_basic rq_nope)"
    by (simp_all add: truthy_str_def authorization_header_def session_cookie_def rq_nope_def)
  have n: "route GET (rq_path rq_nope) = RNotFound"
    by (simp add: route_def rq_nope_def url_prefix_def strip_slash_def user_id_segment_def)
  show ?thesis
    using serve_401_only_gate [of cfg_basic sha0 t0 "''x''" GET rq_nope as_one]
      serve_401_only_gate [of cfg_basic sha0 t0 "''x''" GET "rq_nope\<lparr>rq_path := ''/api/v1/status/''\<rparr>" as_one]
      r r2 h n by simp
qed

theorem serve_me_unset_witness:
  "handle_auth None sha0 t0 rq_me as_one = GPass Unset \<and>
   serve None sha0 t0 ''x'' GET rq_me as_one = (as_one, internal_error) \<and>
   serve None sha0 t0 ''x'' GET (rq_me\<lparr>rq_path := ''/api/v1/users/me/''\<rparr>) as_one = (as_one, internal_error)"
proof -
  have g: "handle_auth None sha0 t0 rq a = GPass Unset" for rq a by (simp add: handle_auth_def)
  have p: "rq_path rq_me = ''/api/v1/users/me'' @ []" by (simp add: rq_me_def)
  have p2: "rq_path (rq_me\<lparr>rq_path := ''/api/v1/users/me/''\<rparr>) = ''/api/v1/users/me'' @ ''/''" by simp
  show ?thesis
    using serve_me_unset [OF g p, of "''x''"] serve_me_unset [OF g p2, of "''x''"] g by simp
qed


end
